theory Spec2Isabelle
  imports Main
begin

section \<open>Python values used by the modules\<close>

text \<open>
  The dictionaries that the EC2 API returns (an address, an instance, a network interface)
  are association lists from key to string value: the modules read string-valued keys only.
  An \<open>Optional[Dict]\<close> is an option of such a list.
\<close>

type_synonym pydict = "(string \<times> string) list"
type_synonym address = pydict
type_synonym tags = "(string \<times> string) list"

datatype pyexc = KeyError string | TypeError string | ValueError string

text \<open>Truthiness of an optional string: \<open>None\<close> and the empty string are false.\<close>

definition truthy :: "string option \<Rightarrow> bool" where
  "truthy v = (case v of None \<Rightarrow> False | Some s \<Rightarrow> s \<noteq> [])"

text \<open>Truthiness of an optional dictionary: \<open>None\<close> and \<open>{}\<close> are false.\<close>

definition dict_truthy :: "pydict option \<Rightarrow> bool" where
  "dict_truthy a = (case a of None \<Rightarrow> False | Some d \<Rightarrow> d \<noteq> [])"

text \<open>\<open>(address or {}).get(key)\<close>\<close>

definition or_get :: "pydict option \<Rightarrow> string \<Rightarrow> string option" where
  "or_get a k = (case a of None \<Rightarrow> None | Some d \<Rightarrow> map_of d k)"

text \<open>\<open>address[key]\<close>: a \<open>TypeError\<close> on \<open>None\<close>, a \<open>KeyError\<close> on a missing key.\<close>

definition subscript :: "pydict option \<Rightarrow> string \<Rightarrow> pyexc + string" where
  "subscript a k =
     (case a of
        None \<Rightarrow> Inl (TypeError ''NoneType object is not subscriptable'')
      | Some d \<Rightarrow> (case map_of d k of None \<Rightarrow> Inl (KeyError k) | Some v \<Rightarrow> Inr v))"

definition startswith :: "string \<Rightarrow> string \<Rightarrow> bool" where
  "startswith s p = (take (length p) s = p)"

text \<open>\<open>s.strip(chars)\<close> removes every leading and trailing character that is in \<open>chars\<close>.\<close>

definition py_strip :: "string \<Rightarrow> string \<Rightarrow> string" where
  "py_strip s chars =
     rev (dropWhile (\<lambda>c. c \<in> set chars) (rev (dropWhile (\<lambda>c. c \<in> set chars) s)))"

section \<open>The module's parameters and result\<close>

datatype eip_state = Present | Absent

text \<open>
  \<open>module.params\<close> after argument validation, together with \<open>module.check_mode\<close>.
\<close>

record module_params =
  device_id :: "string option"
  public_ip :: "string option"
  state :: eip_state
  in_vpc :: bool
  reuse_existing_ip_allowed :: bool
  release_on_disassociation :: bool
  allow_reassociation :: bool
  private_ip_address :: "string option"
  tags :: "tags option"
  purge_tags :: bool
  tag_name :: "string option"
  tag_value :: "string option"
  public_ipv4_pool :: "string option"
  check_mode :: bool

text \<open>
  The dictionary handed to \<open>exit_json\<close>; a key that is not in the dictionary is \<open>None\<close>.
\<close>

record result =
  changed :: bool
  res_public_ip :: "string option"
  res_allocation_id :: "string option"
  disassociated :: "bool option"
  released :: "bool option"

section \<open>The cloud API client\<close>

datatype ec2_error = AnsibleEC2Error string

record describe_kwargs =
  PublicIps :: "string list option"
  Filters :: "(string \<times> string list) list option"

record allocate_params =
  alloc_Domain :: "string option"
  alloc_PublicIpv4Pool :: "string option"
  alloc_TagSpecifications :: "tags option"

datatype address_ref = AllocationId "string option" | PublicIp "string option"

record associate_params =
  assoc_InstanceId :: "string option"
  assoc_NetworkInterfaceId :: "string option"
  assoc_AllowReassociation :: bool
  assoc_PrivateIpAddress :: "string option"
  assoc_address :: address_ref

datatype disassociate_arg = association_id "string option" | public_ip_arg "string option"

text \<open>The value under the key \<open>Instances\<close> of a reservation, \<open>None\<close> when the key is missing.\<close>

type_synonym reservation = "pydict list option"

text \<open>
  The functions imported from \<open>module_utils.ec2\<close> are not part of the modelled files: they
  are parameters, each a state transformer of the cloud \<open>'w\<close> that returns either the typed
  error \<open>AnsibleEC2Error\<close> or its value.
\<close>

record 'w ec2_client =
  describe_addresses :: "describe_kwargs \<Rightarrow> 'w \<Rightarrow> (ec2_error + address list) \<times> 'w"
  allocate_ip_address :: "allocate_params \<Rightarrow> 'w \<Rightarrow> (ec2_error + address) \<times> 'w"
  associate_address :: "associate_params \<Rightarrow> 'w \<Rightarrow> (ec2_error + bool) \<times> 'w"
  disassociate_address :: "disassociate_arg \<Rightarrow> 'w \<Rightarrow> (ec2_error + unit) \<times> 'w"
  release_address :: "string \<Rightarrow> 'w \<Rightarrow> (ec2_error + bool) \<times> 'w"
  describe_instances :: "string list \<Rightarrow> 'w \<Rightarrow> (ec2_error + reservation list) \<times> 'w"
  describe_network_interfaces :: "string list \<Rightarrow> 'w \<Rightarrow> (ec2_error + pydict list) \<times> 'w"
  ensure_ec2_tags :: "string \<Rightarrow> tags option \<Rightarrow> bool \<Rightarrow> bool \<Rightarrow> 'w \<Rightarrow> (ec2_error + bool) \<times> 'w"

text \<open>Every call that reaches the cloud API is recorded, in order.\<close>

datatype call =
    DescribeAddresses describe_kwargs
  | AllocateAddress allocate_params
  | AssociateAddress associate_params
  | DisassociateAddress disassociate_arg
  | ReleaseAddress string
  | DescribeInstances "string list"
  | DescribeNetworkInterfaces "string list"
  | EnsureEc2Tags string "tags option" bool

fun mutating :: "call \<Rightarrow> bool" where
  "mutating (AllocateAddress _) = True"
| "mutating (AssociateAddress _) = True"
| "mutating (DisassociateAddress _) = True"
| "mutating (ReleaseAddress _) = True"
| "mutating _ = False"

section \<open>Outcomes of an invocation\<close>

definition apostrophe :: string where
  "apostrophe = [CHR 0x27]"

datatype failure =
    Fail_msg string
  | Fail_aws ec2_error string
  | Fail_ambiguous describe_kwargs "address list"
  | Fail_aws_error ec2_error

text \<open>
  \<open>exit_json\<close> and \<open>fail_json\<close> end the process, an uncaught exception ends it too: the three
  ways to stop. A computation returns its value or stops, from a cloud state, and yields the
  new cloud state and the calls it issued.
\<close>

datatype halt = ExitJson result | FailJson failure | Raised pyexc

datatype 'a outcome = Return 'a | Stop halt

type_synonym ('w, 'a) run = "'w \<Rightarrow> 'a outcome \<times> 'w \<times> call list"

definition return :: "'a \<Rightarrow> ('w, 'a) run" where
  "return a w = (Return a, w, [])"

definition stop :: "halt \<Rightarrow> ('w, 'a) run" where
  "stop h w = (Stop h, w, [])"

definition exit_json :: "result \<Rightarrow> ('w, 'a) run" where
  "exit_json r = stop (ExitJson r)"

definition fail_json :: "failure \<Rightarrow> ('w, 'a) run" where
  "fail_json f = stop (FailJson f)"

definition lift_exc :: "pyexc + 'a \<Rightarrow> ('w, 'a) run" where
  "lift_exc v = (case v of Inl e \<Rightarrow> stop (Raised e) | Inr a \<Rightarrow> return a)"

definition then_do :: "('w, 'a) run \<Rightarrow> ('a \<Rightarrow> ('w, 'b) run) \<Rightarrow> ('w, 'b) run" where
  "then_do m f w =
     (case m w of
        (Return a, w1, cs1) \<Rightarrow> (case f a w1 of (out, w2, cs2) \<Rightarrow> (out, w2, cs1 @ cs2))
      | (Stop h, w1, cs1) \<Rightarrow> (Stop h, w1, cs1))"

definition api_call :: "call \<Rightarrow> ('w \<Rightarrow> 'r \<times> 'w) \<Rightarrow> ('w, 'r) run" where
  "api_call c f w = (case f w of (r, w1) \<Rightarrow> (Return r, w1, [c]))"

definition msg_describe_addresses :: string where
  "msg_describe_addresses =
     ''Couldn'' @ apostrophe @ ''t obtain list of existing Elastic IP addresses''"

definition msg_associate_instance :: "string \<Rightarrow> string" where
  "msg_associate_instance device =
     ''Couldn'' @ apostrophe @ ''t associate Elastic IP address with instance ''
       @ apostrophe @ device @ apostrophe"

definition msg_associate_interface :: "string \<Rightarrow> string" where
  "msg_associate_interface device =
     ''Couldn'' @ apostrophe @ ''t associate Elastic IP address with network interface ''
       @ apostrophe @ device @ apostrophe"

definition msg_allocate :: string where
  "msg_allocate = ''Couldn'' @ apostrophe @ ''t allocate Elastic IP address''"

definition msg_release :: string where
  "msg_release = ''Couldn'' @ apostrophe @ ''t release Elastic IP address''"

definition msg_in_vpc :: string where
  "msg_in_vpc =
     ''You must set '' @ apostrophe @ ''in_vpc'' @ apostrophe
       @ '' to true to associate an instance with an existing ip in a vpc''"

definition msg_required_together :: string where
  "msg_required_together =
     ''parameters are required together: ('' @ apostrophe @ ''tag_name'' @ apostrophe @ '', ''
       @ apostrophe @ ''tag_value'' @ apostrophe @ '')''"

definition no_change :: result where
  "no_change =
     \<lparr>changed = False, res_public_ip = None, res_allocation_id = None,
      disassociated = Some False, released = Some False\<rparr>"

section \<open>ec2_eip: the address locator\<close>

text \<open>The keyword arguments that \<open>find_address\<close> builds for \<open>describe_addresses\<close>.\<close>

definition find_address_kwargs :: "string option \<Rightarrow> string option \<Rightarrow> bool \<Rightarrow> describe_kwargs" where
  "find_address_kwargs public_ip' device_id' is_instance =
     (if truthy public_ip'
      then \<lparr>PublicIps = map_option (\<lambda>ip. [ip]) public_ip', Filters = None\<rparr>
      else if truthy device_id'
      then \<lparr>PublicIps = None,
            Filters = map_option
              (\<lambda>d. [(if is_instance then ''instance-id'' else ''network-interface-id'', [d])])
              device_id'\<rparr>
      else \<lparr>PublicIps = None, Filters = None\<rparr>)"

definition find_address ::
  "'w ec2_client \<Rightarrow> module_params \<Rightarrow> string option \<Rightarrow> string option \<Rightarrow> bool
     \<Rightarrow> ('w, address option) run" where
  "find_address ec2 module public_ip' device_id' is_instance =
     (let kwargs = find_address_kwargs public_ip' device_id' is_instance
      in if Filters kwargs = None \<and> public_ip' = None then return None
         else then_do (api_call (DescribeAddresses kwargs) (describe_addresses ec2 kwargs))
           (\<lambda>r. case r of
                Inl e \<Rightarrow> fail_json (Fail_aws e msg_describe_addresses)
              | Inr addresses \<Rightarrow>
                  (case addresses of
                     [] \<Rightarrow> if state module = Absent then exit_json no_change else return None
                   | [a] \<Rightarrow> return (Some a)
                   | _ \<Rightarrow> fail_json (Fail_ambiguous kwargs addresses))))"

definition address_is_associated_with_device ::
  "'w ec2_client \<Rightarrow> module_params \<Rightarrow> address option \<Rightarrow> string \<Rightarrow> bool \<Rightarrow> ('w, bool) run" where
  "address_is_associated_with_device ec2 module address device_id' is_instance =
     then_do (find_address ec2 module (or_get address ''PublicIp'') (Some device_id') is_instance)
       (\<lambda>result.
          if dict_truthy result then
            if is_instance \<and> or_get result ''InstanceId'' = Some device_id' then return True
            else if \<not> is_instance \<and> or_get result ''NetworkInterfaceId'' = Some device_id'
            then return True
            else return False
          else return False)"

section \<open>ec2_eip: the association manager\<close>

definition associate_ip_and_device ::
  "'w ec2_client \<Rightarrow> module_params \<Rightarrow> address option \<Rightarrow> string option \<Rightarrow> string \<Rightarrow> bool \<Rightarrow> bool
     \<Rightarrow> ('w, bool) run" where
  "associate_ip_and_device ec2 module address private_ip_address' device_id'
       allow_reassociation' is_instance =
     then_do (address_is_associated_with_device ec2 module address device_id' is_instance)
       (\<lambda>associated.
          if associated then return False
          else if \<not> check_mode module then
            (let params =
               (if is_instance then
                  \<lparr>assoc_InstanceId = Some device_id', assoc_NetworkInterfaceId = None,
                   assoc_AllowReassociation = allow_reassociation',
                   assoc_PrivateIpAddress =
                     (if truthy private_ip_address' then private_ip_address' else None),
                   assoc_address =
                     (if or_get address ''Domain'' = Some ''vpc''
                      then AllocationId (or_get address ''AllocationId'')
                      else PublicIp (or_get address ''PublicIp''))\<rparr>
                else
                  \<lparr>assoc_InstanceId = None, assoc_NetworkInterfaceId = Some device_id',
                   assoc_AllowReassociation = allow_reassociation',
                   assoc_PrivateIpAddress =
                     (if truthy private_ip_address' then private_ip_address' else None),
                   assoc_address = AllocationId (or_get address ''AllocationId'')\<rparr>)
             in then_do (api_call (AssociateAddress params) (associate_address ec2 params))
                  (\<lambda>r. case r of
                       Inl e \<Rightarrow>
                         fail_json (Fail_aws e
                           (if is_instance then msg_associate_instance device_id'
                            else msg_associate_interface device_id'))
                     | Inr res \<Rightarrow>
                         if \<not> res then fail_json (Fail_msg ''Association failed.'')
                         else return True))
          else return True)"

definition disassociate_ip_and_device ::
  "'w ec2_client \<Rightarrow> module_params \<Rightarrow> address option \<Rightarrow> string \<Rightarrow> bool \<Rightarrow> ('w, bool) run" where
  "disassociate_ip_and_device ec2 module address device_id' is_instance =
     then_do (address_is_associated_with_device ec2 module address device_id' is_instance)
       (\<lambda>associated.
          if \<not> associated then return False
          else if \<not> check_mode module then
            (let arg =
               (if or_get address ''Domain'' = Some ''vpc''
                then association_id (or_get address ''AssociationId'')
                else public_ip_arg (or_get address ''PublicIp''))
             in then_do (api_call (DisassociateAddress arg) (disassociate_address ec2 arg))
                  (\<lambda>r. case r of
                       Inl e \<Rightarrow> fail_json (Fail_aws e ''Dissassociation of Elastic IP failed'')
                     | Inr _ \<Rightarrow> return True))
          else return True)"

section \<open>ec2_eip: the allocator\<close>

text \<open>
  Modelled from the spec: \<open>ansible_dict_to_boto3_filter_list\<close> and
  \<open>boto3_tag_specifications\<close> live in \<open>module_utils\<close>, outside the modelled files. The tag
  filter narrows the listing by exact tag key or tag key and value: one filter per entry of the
  dictionary. The tags of a new address are passed on to the API as they are.
\<close>

definition ansible_dict_to_boto3_filter_list :: "pydict \<Rightarrow> (string \<times> string list) list" where
  "ansible_dict_to_boto3_filter_list d = map (\<lambda>(k, v). (k, [v])) d"

definition boto3_tag_specifications :: "tags \<Rightarrow> tags" where
  "boto3_tag_specifications t = t"

definition tags_truthy :: "tags option \<Rightarrow> bool" where
  "tags_truthy t = (case t of None \<Rightarrow> False | Some d \<Rightarrow> d \<noteq> [])"

definition tag_specifications :: "tags option \<Rightarrow> tags option" where
  "tag_specifications t =
     (if tags_truthy t then map_option boto3_tag_specifications t else None)"

definition allocate_address_from_pool ::
  "'w ec2_client \<Rightarrow> string option \<Rightarrow> bool \<Rightarrow> string option \<Rightarrow> tags option
     \<Rightarrow> ('w, address option) run" where
  "allocate_address_from_pool ec2 domain check_mode' public_ipv4_pool' tags' =
     (if check_mode' then return None
      else
        (let params =
           \<lparr>alloc_Domain = domain, alloc_PublicIpv4Pool = public_ipv4_pool',
            alloc_TagSpecifications = tag_specifications tags'\<rparr>
         in then_do (api_call (AllocateAddress params) (allocate_ip_address ec2 params))
              (\<lambda>r. case r of
                   Inl e \<Rightarrow> fail_json (Fail_aws e msg_allocate)
                 | Inr a \<Rightarrow> return (Some a))))"

text \<open>
  The two comprehensions of the reuse scan. In the vpc domain the association id is read with
  \<open>get\<close>; in the standard domain \<open>a["InstanceId"]\<close> is a subscript, which raises on the first
  address without the key.
\<close>

definition unassociated_vpc :: "address list \<Rightarrow> address list" where
  "unassociated_vpc all_addresses =
     filter (\<lambda>a. \<not> truthy (map_of a ''AssociationId'')) all_addresses"

fun unassociated_standard :: "address list \<Rightarrow> pyexc + address list" where
  "unassociated_standard [] = Inr []"
| "unassociated_standard (a # as) =
     (case subscript (Some a) ''InstanceId'' of
        Inl e \<Rightarrow> Inl e
      | Inr i \<Rightarrow>
          (case unassociated_standard as of
             Inl e \<Rightarrow> Inl e
           | Inr rest \<Rightarrow> Inr (if i = [] then a # rest else rest)))"

text \<open>
  The reuse scan of \<open>allocate_address\<close> (lines 386 to 403): the listing of the domain,
  narrowed by the search tags, and the first address of it that is not associated.
\<close>

definition reuse_kwargs :: "string \<Rightarrow> pydict option \<Rightarrow> describe_kwargs" where
  "reuse_kwargs domain search_tags =
     \<lparr>PublicIps = None,
      Filters = Some ([(''domain'', [domain])]
        @ (case search_tags of None \<Rightarrow> [] | Some t \<Rightarrow> ansible_dict_to_boto3_filter_list t))\<rparr>"

definition reuse_scan ::
  "'w ec2_client \<Rightarrow> string \<Rightarrow> pydict option \<Rightarrow> ('w, address option) run" where
  "reuse_scan ec2 domain search_tags =
     then_do
       (api_call (DescribeAddresses (reuse_kwargs domain search_tags))
          (describe_addresses ec2 (reuse_kwargs domain search_tags)))
       (\<lambda>r. case r of
            Inl e \<Rightarrow> fail_json (Fail_aws e msg_describe_addresses)
          | Inr all_addresses \<Rightarrow>
              then_do
                (if domain = ''vpc'' then return (unassociated_vpc all_addresses)
                 else lift_exc (unassociated_standard all_addresses))
                (\<lambda>unassociated_addresses.
                   case unassociated_addresses of
                     [] \<Rightarrow> return None
                   | a # _ \<Rightarrow> return (Some a)))"

text \<open>\<open>if not domain: domain = "standard"\<close>\<close>

definition domain_or_standard :: "string option \<Rightarrow> string" where
  "domain_or_standard domain0 =
     (case domain0 of None \<Rightarrow> ''standard'' | Some d \<Rightarrow> if d = [] then ''standard'' else d)"

definition allocate_address ::
  "'w ec2_client \<Rightarrow> string option \<Rightarrow> bool \<Rightarrow> bool \<Rightarrow> tags option \<Rightarrow> pydict option
     \<Rightarrow> string option \<Rightarrow> ('w, address option \<times> bool) run" where
  "allocate_address ec2 domain0 reuse_existing_ip_allowed' check_mode' tags' search_tags
       public_ipv4_pool' =
     (let domain = domain_or_standard domain0
      in then_do
           (if reuse_existing_ip_allowed' then reuse_scan ec2 domain search_tags
            else return None)
           (\<lambda>reused.
              case reused of
                Some a \<Rightarrow> return (Some a, False)
              | None \<Rightarrow>
                  if truthy public_ipv4_pool' then
                    then_do
                      (allocate_address_from_pool ec2 (Some domain) check_mode'
                         public_ipv4_pool' tags')
                      (\<lambda>a. return (a, True))
                  else
                    (let params =
                       \<lparr>alloc_Domain = Some domain, alloc_PublicIpv4Pool = None,
                        alloc_TagSpecifications = tag_specifications tags'\<rparr>
                     in if \<not> check_mode' then
                          then_do
                            (api_call (AllocateAddress params) (allocate_ip_address ec2 params))
                            (\<lambda>r. case r of
                                 Inl e \<Rightarrow> fail_json (Fail_aws e msg_allocate)
                               | Inr a \<Rightarrow> return (Some a, True))
                        else return (None, True))))"

definition release_ip_address ::
  "'w ec2_client \<Rightarrow> module_params \<Rightarrow> address option \<Rightarrow> ('w, bool) run" where
  "release_ip_address ec2 module address =
     (if \<not> check_mode module then
        then_do (lift_exc (subscript address ''AllocationId''))
          (\<lambda>allocation_id.
             then_do (api_call (ReleaseAddress allocation_id) (release_address ec2 allocation_id))
               (\<lambda>r. case r of
                    Inl e \<Rightarrow> fail_json (Fail_aws e msg_release)
                  | Inr changed' \<Rightarrow> return changed'))
      else return True)"

section \<open>ec2_eip: the reconciler\<close>

definition msg_instances :: string where
  "msg_instances = ''Couldn'' @ apostrophe @ ''t get list of instances''"

definition msg_interfaces :: string where
  "msg_interfaces = ''Couldn'' @ apostrophe @ ''t get list of network interfaces.''"

definition find_device :: "'w ec2_client \<Rightarrow> string \<Rightarrow> bool \<Rightarrow> ('w, pydict option) run" where
  "find_device ec2 device_id' is_instance =
     (if is_instance then
        then_do (api_call (DescribeInstances [device_id']) (describe_instances ec2 [device_id']))
          (\<lambda>r. case r of
               Inl e \<Rightarrow> fail_json (Fail_aws e msg_instances)
             | Inr reservations \<Rightarrow>
                 (case reservations of
                    [reservation] \<Rightarrow>
                      (case reservation of
                         None \<Rightarrow> stop (Raised (KeyError ''Instances''))
                       | Some instances \<Rightarrow>
                           (case instances of [i] \<Rightarrow> return (Some i) | _ \<Rightarrow> return None))
                  | _ \<Rightarrow> return None))
      else
        then_do
          (api_call (DescribeNetworkInterfaces [device_id'])
             (describe_network_interfaces ec2 [device_id']))
          (\<lambda>r. case r of
               Inl e \<Rightarrow> fail_json (Fail_aws e msg_interfaces)
             | Inr interfaces \<Rightarrow>
                 (case interfaces of [i] \<Rightarrow> return (Some i) | _ \<Rightarrow> return None)))"

definition ensure_present ::
  "'w ec2_client \<Rightarrow> module_params \<Rightarrow> string option \<Rightarrow> address option \<Rightarrow> string option
     \<Rightarrow> string option \<Rightarrow> bool \<Rightarrow> bool \<Rightarrow> bool \<Rightarrow> tags option \<Rightarrow> bool \<Rightarrow> ('w, result) run" where
  "ensure_present ec2 module domain address0 private_ip_address' device_id'
       reuse_existing_ip_allowed' allow_reassociation' check_mode' tags' is_instance =
     (if \<not> dict_truthy address0 \<and> check_mode' then
        return \<lparr>changed = True, res_public_ip = None, res_allocation_id = None,
                disassociated = None, released = None\<rparr>
      else
        then_do
          (if \<not> dict_truthy address0 then
             allocate_address ec2 domain reuse_existing_ip_allowed' check_mode' tags' None None
           else return (address0, False))
          (\<lambda>(address, changed0).
             then_do
               (case device_id' of
                  None \<Rightarrow> return changed0
                | Some d \<Rightarrow>
                    if d = [] then return changed0
                    else if is_instance then
                      then_do (find_device ec2 d True)
                        (\<lambda>instance.
                           then_do
                             (if reuse_existing_ip_allowed' then
                                then_do (lift_exc (subscript instance ''VpcId''))
                                  (\<lambda>vpc_id.
                                     if vpc_id \<noteq> [] \<and> domain = None
                                     then fail_json (Fail_msg msg_in_vpc)
                                     else return ())
                              else return ())
                             (\<lambda>_. then_do
                                (associate_ip_and_device ec2 module address
                                   private_ip_address' d allow_reassociation' True)
                                (\<lambda>c. return (changed0 \<or> c))))
                    else
                      then_do (find_device ec2 d False)
                        (\<lambda>instance.
                           then_do
                             (associate_ip_and_device ec2 module address
                                private_ip_address' d allow_reassociation' False)
                             (\<lambda>c. return (changed0 \<or> c))))
               (\<lambda>changed1.
                  then_do (lift_exc (subscript address ''PublicIp''))
                    (\<lambda>ip. then_do (lift_exc (subscript address ''AllocationId''))
                       (\<lambda>aid. return
                          \<lparr>changed = changed1, res_public_ip = Some ip,
                           res_allocation_id = Some aid,
                           disassociated = None, released = None\<rparr>)))))"

definition ensure_absent ::
  "'w ec2_client \<Rightarrow> module_params \<Rightarrow> address option \<Rightarrow> string option \<Rightarrow> bool \<Rightarrow> ('w, bool) run" where
  "ensure_absent ec2 module address device_id' is_instance =
     (if \<not> dict_truthy address then return False
      else
        (case device_id' of
           None \<Rightarrow> release_ip_address ec2 module address
         | Some d \<Rightarrow>
             if d = [] then release_ip_address ec2 module address
             else if is_instance then disassociate_ip_and_device ec2 module address d True
             else disassociate_ip_and_device ec2 module address d False))"

definition str_of :: "string option \<Rightarrow> string" where
  "str_of v = (case v of None \<Rightarrow> [] | Some s \<Rightarrow> s)"

definition generate_tag_dict :: "string option \<Rightarrow> string option \<Rightarrow> ('w, pydict option) run" where
  "generate_tag_dict tag_name' tag_value' =
     (if truthy tag_name' \<and> \<not> truthy tag_value' then
        return (Some [(''tag-key'',
          if startswith (str_of tag_name') ''tag:'' then py_strip (str_of tag_name') ''tag:''
          else str_of tag_name')])
      else if truthy tag_name' \<and> truthy tag_value' then
        return (Some [(if \<not> startswith (str_of tag_name') ''tag:''
                       then ''tag:'' @ str_of tag_name' else str_of tag_name',
                      str_of tag_value')])
      else if truthy tag_value' \<and> \<not> truthy tag_name' then
        fail_json (Fail_msg msg_required_together)
      else return None)"

datatype eip_error = EipError string

definition check_is_instance :: "string option \<Rightarrow> bool \<Rightarrow> eip_error + bool" where
  "check_is_instance device_id' in_vpc' =
     (if \<not> truthy device_id' then Inr False
      else if startswith (str_of device_id') ''i-'' then Inr True
      else if startswith (str_of device_id') ''eni-'' \<and> \<not> in_vpc'
      then Inl (EipError ''If you are specifying an ENI, in_vpc must be true'')
      else Inr False)"

text \<open>
  The body of \<open>main\<close> after the locator has run, in its two blocks: \<open>state == "present"\<close>
  (lines 654 to 703) and \<open>state == "absent"\<close> (lines 704 to 723).
\<close>

definition main_present ::
  "'w ec2_client \<Rightarrow> module_params \<Rightarrow> string option \<Rightarrow> bool \<Rightarrow> pydict option \<Rightarrow> address option
     \<Rightarrow> ('w, result) run" where
  "main_present ec2 module domain is_instance search_tags address =
     then_do
       (if truthy (device_id module) then
          then_do
            (ensure_present ec2 module domain address (private_ip_address module)
               (device_id module) (reuse_existing_ip_allowed module)
               (allow_reassociation module) (check_mode module) (tags module) is_instance)
            (\<lambda>result.
               if res_allocation_id result = None then exit_json result else return result)
        else if dict_truthy address then
          then_do (lift_exc (subscript address ''PublicIp''))
            (\<lambda>ip. then_do (lift_exc (subscript address ''AllocationId''))
               (\<lambda>aid. return
                  \<lparr>changed = False, res_public_ip = Some ip, res_allocation_id = Some aid,
                   disassociated = None, released = None\<rparr>))
        else
          then_do
            (allocate_address ec2 domain (reuse_existing_ip_allowed module)
               (check_mode module) (tags module) search_tags (public_ipv4_pool module))
            (\<lambda>(address1, changed1).
               if dict_truthy address1 then
                 then_do (lift_exc (subscript address1 ''PublicIp''))
                   (\<lambda>ip. then_do (lift_exc (subscript address1 ''AllocationId''))
                      (\<lambda>aid. return
                         \<lparr>changed = changed1, res_public_ip = Some ip,
                          res_allocation_id = Some aid,
                          disassociated = None, released = None\<rparr>))
               else
                 exit_json
                   \<lparr>changed = changed1, res_public_ip = None, res_allocation_id = None,
                    disassociated = None, released = None\<rparr>))
       (\<lambda>result.
          then_do
            (api_call
               (EnsureEc2Tags (str_of (res_allocation_id result)) (tags module)
                  (purge_tags module))
               (ensure_ec2_tags ec2 (str_of (res_allocation_id result)) (tags module)
                  (purge_tags module) (check_mode module)))
            (\<lambda>r. case r of
                 Inl e \<Rightarrow> fail_json (Fail_aws_error e)
               | Inr tags_changed \<Rightarrow>
                   exit_json (result\<lparr>changed := changed result \<or> tags_changed\<rparr>)))"

definition main_absent ::
  "'w ec2_client \<Rightarrow> module_params \<Rightarrow> bool \<Rightarrow> address option \<Rightarrow> ('w, result) run" where
  "main_absent ec2 module is_instance address =
     (if truthy (device_id module) then
        then_do (ensure_absent ec2 module address (device_id module) is_instance)
          (\<lambda>disassociated'.
             if release_on_disassociation module \<and> disassociated' then
               then_do (release_ip_address ec2 module address)
                 (\<lambda>changed1. exit_json
                    \<lparr>changed = True, res_public_ip = None, res_allocation_id = None,
                     disassociated = Some disassociated', released = Some changed1\<rparr>)
             else
               exit_json
                 \<lparr>changed = disassociated', res_public_ip = None, res_allocation_id = None,
                  disassociated = Some disassociated', released = Some False\<rparr>)
      else
        then_do (release_ip_address ec2 module address)
          (\<lambda>changed1. exit_json
             \<lparr>changed = changed1, res_public_ip = None, res_allocation_id = None,
              disassociated = Some False, released = Some changed1\<rparr>))"

definition main :: "'w ec2_client \<Rightarrow> module_params \<Rightarrow> ('w, result) run" where
  "main ec2 module =
     (let domain = (if in_vpc module then Some ''vpc'' else None)
      in case check_is_instance (device_id module) (in_vpc module) of
           Inl (EipError e) \<Rightarrow> fail_json (Fail_msg e)
         | Inr is_instance \<Rightarrow>
             then_do (generate_tag_dict (tag_name module) (tag_value module))
               (\<lambda>search_tags.
                  then_do
                    (if truthy (device_id module)
                     then find_address ec2 module (public_ip module) (device_id module)
                            is_instance
                     else find_address ec2 module (public_ip module) None True)
                    (\<lambda>address.
                       if state module = Present
                       then main_present ec2 module domain is_instance search_tags address
                       else main_absent ec2 module is_instance address)))"

section \<open>lambda_layer_info\<close>

text \<open>
  The values of the API's responses: strings, integers, lists and dictionaries. The key of a
  dictionary is a string or an integer, the two kinds of hashable value there are here.
\<close>

datatype jkey = KStr string | KInt int

datatype jval = JStr string | JInt int | JList "jval list" | JDict "(jkey \<times> jval) list"

type_synonym layer = "(jkey \<times> jval) list"

record layer_params =
  name :: "string option"
  compatible_runtime :: "string option"
  compatible_architecture :: "string option"

record list_kwargs =
  LayerName :: "string option"
  CompatibleRuntime :: "string option"
  CompatibleArchitecture :: "string option"

datatype botocore_error = ClientError string | BotoCoreError string

text \<open>
  The paginator of the Lambda client and \<open>camel_dict_to_snake_dict\<close> come from outside the
  module: they are parameters. \<open>paginate\<close> stands for
  \<open>get_paginator(operation).paginate(**params).build_full_result()\<close>, whose value is a
  dictionary from a key to a list of layers.
\<close>

record 'w lambda_client =
  paginate :: "string \<Rightarrow> list_kwargs \<Rightarrow> 'w \<Rightarrow> (botocore_error + (string \<times> layer list) list) \<times> 'w"
  camel_dict_to_snake_dict :: "layer \<Rightarrow> layer"

datatype lambda_call = Paginate string list_kwargs

datatype lambda_failure =
    Unable_to_list_layer_versions botocore_error "string option"
  | Unable_to_list_layers botocore_error list_kwargs

datatype lambda_halt =
    Exit_json bool "layer list"
  | Fail_json_aws lambda_failure
  | Uncaught pyexc

text \<open>\<open>d.pop(key, None)\<close>: the value and the dictionary without the key.\<close>

definition dict_pop :: "layer \<Rightarrow> jkey \<Rightarrow> jval option \<times> layer" where
  "dict_pop d k = (map_of d k, filter (\<lambda>(k', _). k' \<noteq> k) d)"

text \<open>\<open>d[k] = v\<close>: the value of an existing key is replaced where it stands, a new key goes last.\<close>

fun dict_set :: "'k \<Rightarrow> 'v \<Rightarrow> ('k \<times> 'v) list \<Rightarrow> ('k \<times> 'v) list" where
  "dict_set k v [] = [(k, v)]"
| "dict_set k v ((k', v') # d) = (if k' = k then (k, v) # d else (k', v') # dict_set k v d)"

text \<open>
  \<open>d.update(other)\<close>. When \<open>other\<close> is a dictionary its keys replace or extend those of
  \<open>d\<close>. Any other iterable is taken as a sequence of key and value pairs: each of its
  elements has to be a sequence itself (the characters of a string, the items of a list, the
  keys of a dictionary) of length two, or a \<open>ValueError\<close> is raised, and its first element
  has to be hashable. \<open>None\<close> and an integer are not iterable. Of an exception the class is
  kept, its message is shortened.
\<close>

definition dict_update :: "layer \<Rightarrow> layer \<Rightarrow> layer" where
  "dict_update d other = fold (\<lambda>(k, v). dict_set k v) other d"

definition key_value :: "jkey \<Rightarrow> jval" where
  "key_value k = (case k of KStr s \<Rightarrow> JStr s | KInt n \<Rightarrow> JInt n)"

definition elements :: "jval \<Rightarrow> jval list option" where
  "elements v =
     (case v of
        JStr s \<Rightarrow> Some (map (\<lambda>c. JStr [c]) s)
      | JInt n \<Rightarrow> None
      | JList xs \<Rightarrow> Some xs
      | JDict d \<Rightarrow> Some (map (\<lambda>(k, _). key_value k) d))"

definition hashable_key :: "jval \<Rightarrow> pyexc + jkey" where
  "hashable_key k =
     (case k of
        JStr s \<Rightarrow> Inr (KStr s)
      | JInt n \<Rightarrow> Inr (KInt n)
      | JList xs \<Rightarrow> Inl (TypeError ''unhashable type: list'')
      | JDict d \<Rightarrow> Inl (TypeError ''unhashable type: dict''))"

definition update_item :: "jval \<Rightarrow> pyexc + (jkey \<times> jval)" where
  "update_item item =
     (case elements item of
        None \<Rightarrow>
          Inl (TypeError ''cannot convert dictionary update sequence element to a sequence'')
      | Some [k, v] \<Rightarrow> (case hashable_key k of Inl e \<Rightarrow> Inl e | Inr k' \<Rightarrow> Inr (k', v))
      | Some _ \<Rightarrow> Inl (ValueError ''dictionary update sequence element: length 2 is required''))"

fun update_items :: "layer \<Rightarrow> jval list \<Rightarrow> pyexc + layer" where
  "update_items d [] = Inr d"
| "update_items d (item # items) =
     (case update_item item of
        Inl e \<Rightarrow> Inl e
      | Inr (k, v) \<Rightarrow> update_items (dict_set k v d) items)"

definition py_update :: "layer \<Rightarrow> jval option \<Rightarrow> pyexc + layer" where
  "py_update d other =
     (case other of
        None \<Rightarrow> Inl (TypeError ''NoneType object is not iterable'')
      | Some (JDict other_dict) \<Rightarrow> Inr (dict_update d other_dict)
      | Some (JInt n) \<Rightarrow> Inl (TypeError ''int object is not iterable'')
      | Some (JStr s) \<Rightarrow> update_items d (map (\<lambda>c. JStr [c]) s)
      | Some (JList xs) \<Rightarrow> update_items d xs)"

definition list_layer_versions ::
  "'w lambda_client \<Rightarrow> layer_params \<Rightarrow> 'w \<Rightarrow> (lambda_halt + layer list) \<times> 'w \<times> lambda_call list" where
  "list_layer_versions lambda_client params w =
     (let kwargs =
        \<lparr>LayerName = name params,
         CompatibleRuntime =
           (if truthy (compatible_runtime params) then compatible_runtime params else None),
         CompatibleArchitecture =
           (if truthy (compatible_architecture params) then compatible_architecture params
            else None)\<rparr>
      in case paginate lambda_client ''list_layer_versions'' kwargs w of
           (Inl e, w1) \<Rightarrow>
             (Inl (Fail_json_aws (Unable_to_list_layer_versions e (name params))), w1,
              [Paginate ''list_layer_versions'' kwargs])
         | (Inr full_result, w1) \<Rightarrow>
             (case map_of full_result ''LayerVersions'' of
                None \<Rightarrow>
                  (Inl (Uncaught (KeyError ''LayerVersions'')), w1,
                   [Paginate ''list_layer_versions'' kwargs])
              | Some layer_versions \<Rightarrow>
                  (Inr (map (camel_dict_to_snake_dict lambda_client) layer_versions), w1,
                   [Paginate ''list_layer_versions'' kwargs])))"

text \<open>
  The loop of \<open>list_layers\<close>: \<open>layer.update(layer.pop("LatestMatchingVersion", None))\<close>
  and then \<open>camel_dict_to_snake_dict(layer)\<close>, layer by layer. An exception of the update is
  a \<open>TypeError\<close> or a \<open>ValueError\<close>, which the \<open>except\<close> clause for botocore errors does
  not catch; it ends the loop at the first layer that raises.
\<close>

fun list_layers_loop :: "(layer \<Rightarrow> layer) \<Rightarrow> layer list \<Rightarrow> pyexc + layer list" where
  "list_layers_loop snake [] = Inr []"
| "list_layers_loop snake (l # ls) =
     (case dict_pop l (KStr ''LatestMatchingVersion'') of
        (other, l') \<Rightarrow>
          (case py_update l' other of
             Inl e \<Rightarrow> Inl e
           | Inr updated \<Rightarrow>
               (case list_layers_loop snake ls of
                  Inl e \<Rightarrow> Inl e
                | Inr rest \<Rightarrow> Inr (snake updated # rest))))"

definition list_layers ::
  "'w lambda_client \<Rightarrow> layer_params \<Rightarrow> 'w \<Rightarrow> (lambda_halt + layer list) \<times> 'w \<times> lambda_call list" where
  "list_layers lambda_client params w =
     (let kwargs =
        \<lparr>LayerName = None,
         CompatibleRuntime =
           (if truthy (compatible_runtime params) then compatible_runtime params else None),
         CompatibleArchitecture =
           (if truthy (compatible_architecture params) then compatible_architecture params
            else None)\<rparr>
      in case paginate lambda_client ''list_layers'' kwargs w of
           (Inl e, w1) \<Rightarrow>
             (Inl (Fail_json_aws (Unable_to_list_layers e kwargs)), w1,
              [Paginate ''list_layers'' kwargs])
         | (Inr full_result, w1) \<Rightarrow>
             (case map_of full_result ''Layers'' of
                None \<Rightarrow> (Inl (Uncaught (KeyError ''Layers'')), w1, [Paginate ''list_layers'' kwargs])
              | Some layers \<Rightarrow>
                  (case list_layers_loop (camel_dict_to_snake_dict lambda_client) layers of
                     Inl e \<Rightarrow> (Inl (Uncaught e), w1, [Paginate ''list_layers'' kwargs])
                   | Inr layer_versions \<Rightarrow>
                       (Inr layer_versions, w1, [Paginate ''list_layers'' kwargs]))))"

definition execute_module ::
  "'w lambda_client \<Rightarrow> layer_params \<Rightarrow> 'w \<Rightarrow> lambda_halt \<times> 'w \<times> lambda_call list" where
  "execute_module lambda_client params w =
     (let operation = (if name params \<noteq> None then list_layer_versions else list_layers)
      in case operation lambda_client params w of
           (Inl h, w1, cs) \<Rightarrow> (h, w1, cs)
         | (Inr layers_versions, w1, cs) \<Rightarrow> (Exit_json False layers_versions, w1, cs))"

section \<open>An in-memory cloud\<close>

text \<open>
  A small cloud on which the modules run on concrete inputs: it holds the allocated addresses,
  the addresses that the next allocations hand out, and the instances and interfaces. It
  refuses to release an address that is associated, as EC2 does in a VPC.
\<close>

record cloud =
  cloud_addresses :: "address list"
  cloud_free :: "(string \<times> string) list"
  cloud_instances :: "pydict list"
  cloud_interfaces :: "pydict list"

definition dict_del :: "string \<Rightarrow> pydict \<Rightarrow> pydict" where
  "dict_del k d = filter (\<lambda>(k', _). k' \<noteq> k) d"

definition value_in :: "pydict \<Rightarrow> string \<Rightarrow> string list \<Rightarrow> bool" where
  "value_in a k vs = (case map_of a k of None \<Rightarrow> False | Some v \<Rightarrow> v \<in> set vs)"

text \<open>
  The tags of an address are kept in its dictionary under the keys \<open>tag:<key>\<close>, which is
  also the name of the filter that asks for a tag's value; the filter \<open>tag-key\<close> asks for
  the presence of a tag. The module itself never reads the tags of an address.
\<close>

definition filter_matches :: "address \<Rightarrow> string \<times> string list \<Rightarrow> bool" where
  "filter_matches a f =
     (case f of (n, vs) \<Rightarrow>
        if n = ''instance-id'' then value_in a ''InstanceId'' vs
        else if n = ''network-interface-id'' then value_in a ''NetworkInterfaceId'' vs
        else if n = ''domain'' then value_in a ''Domain'' vs
        else if n = ''tag-key'' then list_ex (\<lambda>k. map_of a (''tag:'' @ k) \<noteq> None) vs
        else if startswith n ''tag:'' then value_in a n vs
        else True)"

definition cloud_describe_addresses ::
  "describe_kwargs \<Rightarrow> cloud \<Rightarrow> (ec2_error + address list) \<times> cloud" where
  "cloud_describe_addresses kwargs c =
     (Inr (filter
        (\<lambda>a. (case PublicIps kwargs of None \<Rightarrow> True | Some ips \<Rightarrow> value_in a ''PublicIp'' ips)
            \<and> (case Filters kwargs of None \<Rightarrow> True | Some fs \<Rightarrow> list_all (filter_matches a) fs))
        (cloud_addresses c)), c)"

definition cloud_allocate_ip_address ::
  "allocate_params \<Rightarrow> cloud \<Rightarrow> (ec2_error + address) \<times> cloud" where
  "cloud_allocate_ip_address params c =
     (case cloud_free c of
        [] \<Rightarrow> (Inl (AnsibleEC2Error ''AddressLimitExceeded''), c)
      | (ip, aid) # rest \<Rightarrow>
          (let a = (if alloc_Domain params = Some ''vpc''
                    then [(''PublicIp'', ip), (''AllocationId'', aid), (''Domain'', ''vpc'')]
                    else [(''PublicIp'', ip), (''Domain'', ''standard''), (''InstanceId'', [])])
           in (Inr a, c\<lparr>cloud_addresses := cloud_addresses c @ [a], cloud_free := rest\<rparr>)))"

definition refers_to :: "address_ref \<Rightarrow> address \<Rightarrow> bool" where
  "refers_to r a =
     (case r of
        AllocationId v \<Rightarrow> v \<noteq> None \<and> map_of a ''AllocationId'' = v
      | PublicIp v \<Rightarrow> v \<noteq> None \<and> map_of a ''PublicIp'' = v)"

definition is_associated :: "address \<Rightarrow> bool" where
  "is_associated a =
     (truthy (map_of a ''AssociationId'') \<or> truthy (map_of a ''InstanceId'')
        \<or> truthy (map_of a ''NetworkInterfaceId''))"

definition associate_one :: "associate_params \<Rightarrow> address \<Rightarrow> address" where
  "associate_one params a =
     (let a1 = dict_set ''AssociationId'' (''eipassoc-'' @ str_of (map_of a ''PublicIp'')) a
      in case assoc_InstanceId params of
           Some i \<Rightarrow> dict_set ''InstanceId'' i (dict_del ''NetworkInterfaceId'' a1)
         | None \<Rightarrow>
             dict_set ''NetworkInterfaceId'' (str_of (assoc_NetworkInterfaceId params))
               (dict_del ''InstanceId'' a1))"

definition cloud_associate_address ::
  "associate_params \<Rightarrow> cloud \<Rightarrow> (ec2_error + bool) \<times> cloud" where
  "cloud_associate_address params c =
     (case filter (refers_to (assoc_address params)) (cloud_addresses c) of
        [] \<Rightarrow> (Inl (AnsibleEC2Error ''InvalidAddress.NotFound''), c)
      | a # _ \<Rightarrow>
          if is_associated a \<and> \<not> assoc_AllowReassociation params
          then (Inl (AnsibleEC2Error ''Resource.AlreadyAssociated''), c)
          else (Inr True,
                c\<lparr>cloud_addresses :=
                    map (\<lambda>b. if refers_to (assoc_address params) b
                              then associate_one params b else b) (cloud_addresses c)\<rparr>))"

definition disassociates :: "disassociate_arg \<Rightarrow> address \<Rightarrow> bool" where
  "disassociates arg a =
     (case arg of
        association_id v \<Rightarrow> v \<noteq> None \<and> map_of a ''AssociationId'' = v
      | public_ip_arg v \<Rightarrow> v \<noteq> None \<and> map_of a ''PublicIp'' = v)"

definition disassociate_one :: "address \<Rightarrow> address" where
  "disassociate_one a =
     (let a1 = dict_del ''AssociationId'' (dict_del ''NetworkInterfaceId'' a)
      in if map_of a ''Domain'' = Some ''vpc'' then dict_del ''InstanceId'' a1
         else dict_set ''InstanceId'' [] a1)"

definition cloud_disassociate_address ::
  "disassociate_arg \<Rightarrow> cloud \<Rightarrow> (ec2_error + unit) \<times> cloud" where
  "cloud_disassociate_address arg c =
     (if list_ex (disassociates arg) (cloud_addresses c)
      then (Inr (),
            c\<lparr>cloud_addresses :=
                map (\<lambda>b. if disassociates arg b then disassociate_one b else b)
                  (cloud_addresses c)\<rparr>)
      else (Inl (AnsibleEC2Error ''InvalidAssociationID.NotFound''), c))"

definition cloud_release_address :: "string \<Rightarrow> cloud \<Rightarrow> (ec2_error + bool) \<times> cloud" where
  "cloud_release_address allocation_id c =
     (case filter (\<lambda>a. map_of a ''AllocationId'' = Some allocation_id) (cloud_addresses c) of
        [] \<Rightarrow> (Inl (AnsibleEC2Error ''InvalidAllocationID.NotFound''), c)
      | a # _ \<Rightarrow>
          if is_associated a then (Inl (AnsibleEC2Error ''InvalidIPAddress.InUse''), c)
          else (Inr True,
                c\<lparr>cloud_addresses :=
                    filter (\<lambda>b. map_of b ''AllocationId'' \<noteq> Some allocation_id)
                      (cloud_addresses c)\<rparr>))"

definition cloud_describe_instances ::
  "string list \<Rightarrow> cloud \<Rightarrow> (ec2_error + reservation list) \<times> cloud" where
  "cloud_describe_instances ids c =
     (Inr (map (\<lambda>i. Some [i])
        (filter (\<lambda>i. value_in i ''InstanceId'' ids) (cloud_instances c))), c)"

definition cloud_describe_network_interfaces ::
  "string list \<Rightarrow> cloud \<Rightarrow> (ec2_error + pydict list) \<times> cloud" where
  "cloud_describe_network_interfaces ids c =
     (Inr (filter (\<lambda>i. value_in i ''NetworkInterfaceId'' ids) (cloud_interfaces c)), c)"

text \<open>Tags are not stored: the tag reconciliation has nothing to change.\<close>

definition cloud_ensure_ec2_tags ::
  "string \<Rightarrow> tags option \<Rightarrow> bool \<Rightarrow> bool \<Rightarrow> cloud \<Rightarrow> (ec2_error + bool) \<times> cloud" where
  "cloud_ensure_ec2_tags resource_id tags' purge check c = (Inr False, c)"

definition cloud_client :: "cloud ec2_client" where
  "cloud_client =
     \<lparr>describe_addresses = cloud_describe_addresses,
      allocate_ip_address = cloud_allocate_ip_address,
      associate_address = cloud_associate_address,
      disassociate_address = cloud_disassociate_address,
      release_address = cloud_release_address,
      describe_instances = cloud_describe_instances,
      describe_network_interfaces = cloud_describe_network_interfaces,
      ensure_ec2_tags = cloud_ensure_ec2_tags\<rparr>"

text \<open>The defaults of the argument specification.\<close>

definition default_params :: module_params where
  "default_params =
     \<lparr>device_id = None, public_ip = None, state = Present, in_vpc = False,
      reuse_existing_ip_allowed = False, release_on_disassociation = False,
      allow_reassociation = False, private_ip_address = None, tags = None,
      purge_tags = True, tag_name = None, tag_value = None, public_ipv4_pool = None,
      check_mode = False\<rparr>"

section \<open>Concrete inputs\<close>

text \<open>
  One VPC address associated with the instance \<open>i-1\<close>, two addresses left to allocate, two
  instances and one network interface.
\<close>

definition example_cloud :: cloud where
  "example_cloud =
     \<lparr>cloud_addresses =
        [[(''PublicIp'', ''93.184.216.119''), (''AllocationId'', ''eipalloc-1''),
          (''Domain'', ''vpc''), (''AssociationId'', ''eipassoc-1''),
          (''InstanceId'', ''i-1212f003'')]],
      cloud_free = [(''52.88.159.209'', ''eipalloc-2''), (''52.88.159.210'', ''eipalloc-3'')],
      cloud_instances =
        [[(''InstanceId'', ''i-1212f003''), (''VpcId'', ''vpc-1'')],
         [(''InstanceId'', ''i-2''), (''VpcId'', ''vpc-1'')]],
      cloud_interfaces = [[(''NetworkInterfaceId'', ''eni-c8ad70f3'')]]\<rparr>"

text \<open>Two standard-domain addresses; the first carries no \<open>InstanceId\<close> key.\<close>

definition standard_cloud :: cloud where
  "standard_cloud =
     \<lparr>cloud_addresses =
        [[(''PublicIp'', ''198.51.100.1''), (''Domain'', ''standard'')],
         [(''PublicIp'', ''198.51.100.2''), (''Domain'', ''standard''), (''InstanceId'', [])]],
      cloud_free = [(''198.51.100.3'', ''eipalloc-9'')],
      cloud_instances = [],
      cloud_interfaces = []\<rparr>"

text \<open>Two addresses associated with the same instance.\<close>

definition ambiguous_cloud :: cloud where
  "ambiguous_cloud =
     \<lparr>cloud_addresses =
        [[(''PublicIp'', ''203.0.113.1''), (''AllocationId'', ''eipalloc-a''),
          (''Domain'', ''vpc''), (''AssociationId'', ''eipassoc-a''), (''InstanceId'', ''i-7'')],
         [(''PublicIp'', ''203.0.113.2''), (''AllocationId'', ''eipalloc-b''),
          (''Domain'', ''vpc''), (''AssociationId'', ''eipassoc-b''), (''InstanceId'', ''i-7'')]],
      cloud_free = [],
      cloud_instances = [[(''InstanceId'', ''i-7''), (''VpcId'', ''vpc-1'')]],
      cloud_interfaces = []\<rparr>"

text \<open>A Lambda client over a fixed list of layers and of layer versions.\<close>

definition example_layers :: "(string \<times> layer list) list" where
  "example_layers =
     [(''Layers'',
       [[(KStr ''LayerName'', JStr ''layer1''),
         (KStr ''LatestMatchingVersion'', JDict [(KStr ''Version'', JInt 2)])],
        [(KStr ''LayerName'', JStr ''layer2''), (KStr ''LatestMatchingVersion'', JList [])],
        [(KStr ''LayerName'', JStr ''layer3''),
         (KStr ''LatestMatchingVersion'', JList [JList [JStr ''Version'', JInt 7]])]]),
      (''LayerVersions'', [[(KStr ''Version'', JInt 1)], [(KStr ''Version'', JInt 2)]])]"

definition example_lambda_client :: "unit lambda_client" where
  "example_lambda_client =
     \<lparr>paginate = (\<lambda>operation kwargs w. (Inr example_layers, w)),
      camel_dict_to_snake_dict = (\<lambda>l. l)\<rparr>"

text \<open>
  A cloud in which the address is released by someone else after the first listing: the state
  counts the listings, the first one shows the address and the later ones show nothing.
\<close>

definition vanishing_address :: address where
  "vanishing_address =
     [(''PublicIp'', ''203.0.113.9''), (''AllocationId'', ''eipalloc-v''), (''Domain'', ''vpc''),
      (''AssociationId'', ''eipassoc-v''), (''InstanceId'', ''i-9'')]"

definition vanishing_client :: "nat ec2_client" where
  "vanishing_client =
     \<lparr>describe_addresses =
        (\<lambda>kwargs n. (if n = 0 then Inr [vanishing_address] else Inr [], Suc n)),
      allocate_ip_address = (\<lambda>params n. (Inl (AnsibleEC2Error ''AddressLimitExceeded''), n)),
      associate_address = (\<lambda>params n. (Inl (AnsibleEC2Error ''InvalidAddress.NotFound''), n)),
      disassociate_address =
        (\<lambda>arg n. (Inl (AnsibleEC2Error ''InvalidAssociationID.NotFound''), n)),
      release_address = (\<lambda>aid n. (Inl (AnsibleEC2Error ''InvalidAllocationID.NotFound''), n)),
      describe_instances = (\<lambda>ids n. (Inr [], n)),
      describe_network_interfaces = (\<lambda>ids n. (Inr [], n)),
      ensure_ec2_tags = (\<lambda>resource_id tags' purge check n. (Inr False, n))\<rparr>"

text \<open>Three VPC addresses: the first is associated, the other two are not.\<close>

definition reuse_cloud :: cloud where
  "reuse_cloud =
     \<lparr>cloud_addresses =
        [[(''PublicIp'', ''192.0.2.1''), (''AllocationId'', ''eipalloc-r1''), (''Domain'', ''vpc''),
          (''AssociationId'', ''eipassoc-r1''), (''InstanceId'', ''i-5'')],
         [(''PublicIp'', ''192.0.2.2''), (''AllocationId'', ''eipalloc-r2''), (''Domain'', ''vpc'')],
         [(''PublicIp'', ''192.0.2.3''), (''AllocationId'', ''eipalloc-r3''), (''Domain'', ''vpc'')]],
      cloud_free = [(''192.0.2.4'', ''eipalloc-r4'')],
      cloud_instances = [[(''InstanceId'', ''i-5''), (''VpcId'', ''vpc-1'')]],
      cloud_interfaces = []\<rparr>"

text \<open>A computation that, from every cloud state, issues only calls that satisfy \<open>P\<close>.\<close>

definition issues_only :: "(call \<Rightarrow> bool) \<Rightarrow> ('w, 'a) run \<Rightarrow> bool" where
  "issues_only P m = (\<forall>w. list_all P (snd (snd (m w))))"

text \<open>
  A computation whose returned values all satisfy \<open>R\<close> and whose \<open>exit_json\<close> results all
  satisfy \<open>Q\<close>.
\<close>

definition ends_only :: "('a \<Rightarrow> bool) \<Rightarrow> (result \<Rightarrow> bool) \<Rightarrow> ('w, 'a) run \<Rightarrow> bool" where
  "ends_only R Q m =
     (\<forall>w. case fst (m w) of
             Return a \<Rightarrow> R a
           | Stop h \<Rightarrow> (case h of ExitJson r \<Rightarrow> Q r | FailJson f \<Rightarrow> True | Raised e \<Rightarrow> True))"

fun is_release :: "call \<Rightarrow> bool" where
  "is_release (ReleaseAddress _) = True"
| "is_release _ = False"



text \<open>
  The cloud state after a call, and after a list of calls in order. The calls change the
  state through the client only, so the state in which a call of a run was issued is the
  replay of the calls before it. \<open>check\<close> is the check mode, which the tag reconciliation is
  told.
\<close>

definition perform :: "'w ec2_client \<Rightarrow> bool \<Rightarrow> call \<Rightarrow> 'w \<Rightarrow> 'w" where
  "perform ec2 check c w =
     (case c of
        DescribeAddresses kwargs \<Rightarrow> snd (describe_addresses ec2 kwargs w)
      | AllocateAddress params \<Rightarrow> snd (allocate_ip_address ec2 params w)
      | AssociateAddress params \<Rightarrow> snd (associate_address ec2 params w)
      | DisassociateAddress arg \<Rightarrow> snd (disassociate_address ec2 arg w)
      | ReleaseAddress allocation_id \<Rightarrow> snd (release_address ec2 allocation_id w)
      | DescribeInstances ids \<Rightarrow> snd (describe_instances ec2 ids w)
      | DescribeNetworkInterfaces ids \<Rightarrow> snd (describe_network_interfaces ec2 ids w)
      | EnsureEc2Tags resource_id tags' purge \<Rightarrow>
          snd (ensure_ec2_tags ec2 resource_id tags' purge check w))"

definition replay :: "'w ec2_client \<Rightarrow> bool \<Rightarrow> call list \<Rightarrow> 'w \<Rightarrow> 'w" where
  "replay ec2 check cs w = fold (perform ec2 check) cs w"

text \<open>A computation whose final state is the replay of the calls it issued.\<close>

definition traced :: "'w ec2_client \<Rightarrow> bool \<Rightarrow> ('w, 'a) run \<Rightarrow> bool" where
  "traced ec2 check m = (\<forall>w. fst (snd (m w)) = replay ec2 check (snd (snd (m w))) w)"

text \<open>
  The listing of the reuse scan is told from a query of the locator by its first filter, which
  is the domain: the locator asks by public IP, by instance id, by network interface id, or
  with no argument at all.
\<close>

definition reuse_listing :: "describe_kwargs \<Rightarrow> bool" where
  "reuse_listing kwargs =
     (case Filters kwargs of
        None \<Rightarrow> False
      | Some fs \<Rightarrow> (case fs of [] \<Rightarrow> False | (n, vs) # _ \<Rightarrow> n = ''domain''))"

text \<open>
  A computation in which a query of the locator that is answered with more than one address
  is the last call, and ends the run in the failure that carries the query and the addresses.
\<close>

definition ambiguity_fatal :: "'w ec2_client \<Rightarrow> bool \<Rightarrow> ('w, 'a) run \<Rightarrow> bool" where
  "ambiguity_fatal ec2 check m =
     (\<forall>w out w' pre kwargs rest addresses.
        m w = (out, w', pre @ DescribeAddresses kwargs # rest)
        \<and> \<not> reuse_listing kwargs
        \<and> fst (describe_addresses ec2 kwargs (replay ec2 check pre w)) = Inr addresses
        \<and> 1 < length addresses
        \<longrightarrow> out = Stop (FailJson (Fail_ambiguous kwargs addresses)) \<and> rest = [])"

text \<open>
  Two addresses with the same public IP, of which the first is associated with the instance
  \<open>i-7\<close>: the query by instance id finds one address, the query by its public IP finds two.
\<close>

definition shared_ip_cloud :: cloud where
  "shared_ip_cloud =
     \<lparr>cloud_addresses =
        [[(''PublicIp'', ''203.0.113.1''), (''AllocationId'', ''eipalloc-a''),
          (''Domain'', ''vpc''), (''AssociationId'', ''eipassoc-a''), (''InstanceId'', ''i-7'')],
         [(''PublicIp'', ''203.0.113.1''), (''AllocationId'', ''eipalloc-b''),
          (''Domain'', ''vpc'')]],
      cloud_free = [],
      cloud_instances = [[(''InstanceId'', ''i-7''), (''VpcId'', ''vpc-1'')]],
      cloud_interfaces = []\<rparr>"

text \<open>
  Three unassociated VPC addresses with a \<open>Name\<close> tag: the first is tagged \<open>db\<close>, the other
  two \<open>web\<close>.
\<close>

definition tagged_cloud :: cloud where
  "tagged_cloud =
     \<lparr>cloud_addresses =
        [[(''PublicIp'', ''192.0.2.11''), (''AllocationId'', ''eipalloc-t1''),
          (''Domain'', ''vpc''), (''tag:Name'', ''db'')],
         [(''PublicIp'', ''192.0.2.12''), (''AllocationId'', ''eipalloc-t2''),
          (''Domain'', ''vpc''), (''tag:Name'', ''web'')],
         [(''PublicIp'', ''192.0.2.13''), (''AllocationId'', ''eipalloc-t3''),
          (''Domain'', ''vpc''), (''tag:Name'', ''web'')]],
      cloud_free = [(''192.0.2.14'', ''eipalloc-t4'')],
      cloud_instances = [],
      cloud_interfaces = []\<rparr>"

text \<open>
  An answer of the cloud API that lets a run in check mode go on to its verdict. A describe
  call is answered without error; a query of the locator with at most one address; with
  \<open>state=present\<close> the addresses carry the fields \<open>PublicIp\<close> and \<open>AllocationId\<close> that the
  module subscripts, and in a listing of the standard domain also \<open>InstanceId\<close>. The
  reservation of an instance has its \<open>Instances\<close>, and when reuse is allowed the one instance
  is found, carries \<open>VpcId\<close> and passes the check on \<open>in_vpc\<close>. The tag reconciliation returns
  without error. \<open>answered\<close> says this of every call of a list, each in the state that the
  calls before it left.
\<close>

definition usable :: "'w ec2_client \<Rightarrow> module_params \<Rightarrow> call \<Rightarrow> 'w \<Rightarrow> bool" where
  "usable ec2 module c w =
     (case c of
        DescribeAddresses kwargs \<Rightarrow>
          (case fst (describe_addresses ec2 kwargs w) of
             Inl e \<Rightarrow> False
           | Inr addresses \<Rightarrow>
               (if reuse_listing kwargs
                then (if in_vpc module then True
                      else list_all (\<lambda>a. map_of a ''InstanceId'' \<noteq> None) addresses)
                else length addresses \<le> 1)
               \<and> (if state module = Present
                  then list_all (\<lambda>a. map_of a ''PublicIp'' \<noteq> None
                                     \<and> map_of a ''AllocationId'' \<noteq> None) addresses
                  else True))
      | DescribeInstances ids \<Rightarrow>
          (case fst (describe_instances ec2 ids w) of
             Inl e \<Rightarrow> False
           | Inr reservations \<Rightarrow>
               (case reservations of
                  [reservation] \<Rightarrow>
                    (case reservation of
                       None \<Rightarrow> False
                     | Some instances \<Rightarrow>
                         (case instances of
                            [i] \<Rightarrow>
                              (if reuse_existing_ip_allowed module
                               then (case map_of i ''VpcId'' of
                                       None \<Rightarrow> False
                                     | Some v \<Rightarrow> v = [] \<or> in_vpc module)
                               else True)
                          | _ \<Rightarrow> \<not> reuse_existing_ip_allowed module))
                | _ \<Rightarrow> \<not> reuse_existing_ip_allowed module))
      | DescribeNetworkInterfaces ids \<Rightarrow>
          (case fst (describe_network_interfaces ec2 ids w) of
             Inl e \<Rightarrow> False
           | Inr interfaces \<Rightarrow> True)
      | EnsureEc2Tags resource_id tags' purge \<Rightarrow>
          (case fst (ensure_ec2_tags ec2 resource_id tags' purge (check_mode module) w) of
             Inl e \<Rightarrow> False
           | Inr tags_changed \<Rightarrow> True)
      | _ \<Rightarrow> True)"

fun answered :: "'w ec2_client \<Rightarrow> module_params \<Rightarrow> call list \<Rightarrow> 'w \<Rightarrow> bool" where
  "answered ec2 module [] w = True"
| "answered ec2 module (c # cs) w =
     (usable ec2 module c w \<and> answered ec2 module cs (perform ec2 (check_mode module) c w))"

text \<open>
  A computation that, when every call it issued was answered usably, returns a value that
  satisfies \<open>R\<close> or ends through \<open>exit_json\<close>.
\<close>

definition verdicts ::
  "'w ec2_client \<Rightarrow> module_params \<Rightarrow> ('a \<Rightarrow> bool) \<Rightarrow> ('w, 'a) run \<Rightarrow> bool" where
  "verdicts ec2 module R m =
     (\<forall>w. answered ec2 module (snd (snd (m w))) w \<longrightarrow>
        (case fst (m w) of
           Return a \<Rightarrow> R a
         | Stop h \<Rightarrow> (case h of ExitJson r \<Rightarrow> True | FailJson f \<Rightarrow> False | Raised e \<Rightarrow> False)))"

text \<open>The fields of an address that the module subscripts when the desired state is present.\<close>

definition identified :: "module_params \<Rightarrow> address option \<Rightarrow> bool" where
  "identified module a =
     (case a of
        None \<Rightarrow> True
      | Some d \<Rightarrow>
          (if state module = Present
           then map_of d ''PublicIp'' \<noteq> None \<and> map_of d ''AllocationId'' \<noteq> None
           else True))"

text \<open>
  The addresses that a describe request lists in the in-memory cloud, and the clouds in which
  an allocation id and a public IP each name one address: the ids and the IPs of the allocated
  addresses and of the addresses still to be handed out are all different.
\<close>

definition listed :: "describe_kwargs \<Rightarrow> address \<Rightarrow> bool" where
  "listed kwargs a =
     ((case PublicIps kwargs of None \<Rightarrow> True | Some ips \<Rightarrow> value_in a ''PublicIp'' ips)
      \<and> (case Filters kwargs of None \<Rightarrow> True | Some fs \<Rightarrow> list_all (filter_matches a) fs))"

definition key_values :: "string \<Rightarrow> address list \<Rightarrow> string list" where
  "key_values k as = List.map_filter (\<lambda>a. map_of a k) as"

definition well_formed :: "cloud \<Rightarrow> bool" where
  "well_formed c =
     (distinct (key_values ''AllocationId'' (cloud_addresses c) @ map snd (cloud_free c))
      \<and> distinct (key_values ''PublicIp'' (cloud_addresses c) @ map fst (cloud_free c)))"

section \<open>Properties of the run combinators\<close>

lemma then_do_return [simp]: "then_do (return a) f w = f a w"
  by (simp add: then_do_def return_def split: prod.splits)

lemma then_do_stop [simp]: "then_do (stop h) f w = (Stop h, w, [])"
  by (simp add: then_do_def stop_def)

text \<open>
  A sequence either stops where its first part stops, or its first part returns and the
  calls of the second part follow those of the first.
\<close>

lemma then_do_cases:
  assumes "then_do m f w = (out, w', cs)"
  obtains (stopped) h where "m w = (Stop h, w', cs)" "out = Stop h"
    | (returned) a w1 cs1 cs2 where
        "m w = (Return a, w1, cs1)" "f a w1 = (out, w', cs2)" "cs = cs1 @ cs2"
proof (cases "m w")
  case (fields o1 w1 cs1)
  show ?thesis
  proof (cases o1)
    case (Return a)
    obtain o2 w2 cs2 where f: "f a w1 = (o2, w2, cs2)" by (cases "f a w1")
    with assms fields Return have "out = o2" "w' = w2" "cs = cs1 @ cs2"
      by (simp_all add: then_do_def)
    with f fields Return returned show ?thesis by blast
  next
    case (Stop h)
    with assms fields have "m w = (Stop h, w', cs)" "out = Stop h"
      by (simp_all add: then_do_def)
    with stopped show ?thesis by blast
  qed
qed

lemma startswith_Nil: "startswith s [] = True"
  by (simp add: startswith_def)

lemma startswith_Cons:
  "startswith s (c # p) = (case s of [] \<Rightarrow> False | x # xs \<Rightarrow> x = c \<and> startswith xs p)"
  by (cases s) (auto simp: startswith_def)

section \<open>ec2_eip: an ENI needs the VPC domain\<close>

text \<open>
  C8. For every parameter set whose \<open>device_id\<close> starts with \<open>eni-\<close> while \<open>in_vpc\<close> is false,
  the invocation fails with the message of \<open>check_is_instance\<close>, from any cloud state: no call
  to the cloud API is issued and the cloud state is the one it started from.
\<close>

theorem eni_requires_vpc:
  assumes "device_id module = Some d" and "startswith d ''eni-''" and "\<not> in_vpc module"
  shows "main ec2 module w =
    (Stop (FailJson (Fail_msg ''If you are specifying an ENI, in_vpc must be true'')), w, [])"
proof -
  from assms(2) have n: "\<not> startswith d ''i-''" and "d \<noteq> []"
    by (auto simp: startswith_Cons startswith_Nil split: list.splits)
  with assms have "check_is_instance (device_id module) (in_vpc module) =
     Inl (EipError ''If you are specifying an ENI, in_vpc must be true'')"
    by (simp add: check_is_instance_def truthy_def str_of_def)
  then show ?thesis by (simp add: main_def fail_json_def stop_def)
qed

theorem eni_requires_vpc_witness:
  "device_id (default_params\<lparr>device_id := Some ''eni-c8ad70f3''\<rparr>) = Some ''eni-c8ad70f3''
   \<and> startswith ''eni-c8ad70f3'' ''eni-''
   \<and> \<not> in_vpc (default_params\<lparr>device_id := Some ''eni-c8ad70f3''\<rparr>)
   \<and> main cloud_client (default_params\<lparr>device_id := Some ''eni-c8ad70f3''\<rparr>) example_cloud =
       (Stop (FailJson (Fail_msg ''If you are specifying an ENI, in_vpc must be true'')),
        example_cloud, [])"
  using eni_requires_vpc [of "default_params\<lparr>device_id := Some ''eni-c8ad70f3''\<rparr>"
      "''eni-c8ad70f3''" cloud_client example_cloud]
  by (simp add: default_params_def startswith_Cons startswith_Nil)

lemmas run_defs =
  return_def stop_def exit_json_def fail_json_def lift_exc_def api_call_def then_do_def

lemma then_do_api_call:
  "then_do (api_call c f) g w =
     (case f w of (r, w1) \<Rightarrow> (case g r w1 of (out, w2, cs) \<Rightarrow> (out, w2, c # cs)))"
  by (simp add: then_do_def api_call_def split: prod.splits)

lemma then_do_lift_exc:
  "then_do (lift_exc v) g w = (case v of Inl e \<Rightarrow> (Stop (Raised e), w, []) | Inr a \<Rightarrow> g a w)"
  by (cases v) (simp_all add: lift_exc_def)

lemmas step_simps = then_do_api_call then_do_lift_exc fail_json_def exit_json_def stop_def return_def

section \<open>ec2_eip: what the locator does\<close>

lemma find_address_skip:
  "Filters (find_address_kwargs ip dev inst) = None \<Longrightarrow> ip = None \<Longrightarrow>
     find_address ec2 module ip dev inst w = (Return None, w, [])"
  by (simp add: find_address_def return_def)

lemma find_address_query:
  assumes "\<not> (Filters (find_address_kwargs ip dev inst) = None \<and> ip = None)"
    and "describe_addresses ec2 (find_address_kwargs ip dev inst) w = (r, w1)"
  shows "find_address ec2 module ip dev inst w =
    ((case r of
        Inl e \<Rightarrow> Stop (FailJson (Fail_aws e msg_describe_addresses))
      | Inr [] \<Rightarrow> if state module = Absent then Stop (ExitJson no_change) else Return None
      | Inr [a] \<Rightarrow> Return (Some a)
      | Inr addresses \<Rightarrow> Stop (FailJson (Fail_ambiguous (find_address_kwargs ip dev inst) addresses))),
     w1, [DescribeAddresses (find_address_kwargs ip dev inst)])"
  using assms
  by (simp add: find_address_def Let_def run_defs split: sum.splits list.splits)

lemma find_address_result:
  assumes "find_address ec2 module ip dev inst w = (out, w', cs)"
  shows "(cs = [] \<and> out = Return None \<and> w' = w) \<or>
         (\<exists>kw r. cs = [DescribeAddresses kw] \<and> describe_addresses ec2 kw w = (r, w') \<and>
            out = (case r of
        Inl e \<Rightarrow> Stop (FailJson (Fail_aws e msg_describe_addresses))
      | Inr [] \<Rightarrow> if state module = Absent then Stop (ExitJson no_change) else Return None
      | Inr [a] \<Rightarrow> Return (Some a)
      | Inr addresses \<Rightarrow> Stop (FailJson (Fail_ambiguous kw addresses))))"
proof (cases "Filters (find_address_kwargs ip dev inst) = None \<and> ip = None")
  case True
  then have f: "Filters (find_address_kwargs ip dev inst) = None" and i: "ip = None"
    by blast+
  from find_address_skip [OF f i, of ec2 "module" w] assms show ?thesis by simp
next
  case False
  obtain r w1 where d: "describe_addresses ec2 (find_address_kwargs ip dev inst) w = (r, w1)"
    by (cases "describe_addresses ec2 (find_address_kwargs ip dev inst) w")
  from find_address_query [OF False d, of "module"] assms d show ?thesis by auto
qed

lemma release_none_no_call:
  "release_ip_address ec2 module None w = (out, w', cs) \<Longrightarrow> cs = [] \<and> w' = w \<and> out \<noteq> Return False"
  by (auto simp: release_ip_address_def subscript_def run_defs split: if_splits)

lemma ensure_absent_none:
  "\<not> dict_truthy a \<Longrightarrow> ensure_absent ec2 module a dev inst w = (Return False, w, [])"
  by (simp add: ensure_absent_def return_def)

lemma main_absent_none_no_call:
  "main_absent ec2 module inst None w = (out, w', cs) \<Longrightarrow> cs = [] \<and> w' = w"
  by (auto simp: main_absent_def ensure_absent_none dict_truthy_def release_ip_address_def subscript_def run_defs split: if_splits)

lemma generate_tag_dict_no_call:
  "generate_tag_dict n v w = (out, w', cs) \<Longrightarrow> cs = [] \<and> w' = w"
  by (auto simp: generate_tag_dict_def run_defs split: if_splits)


lemma find_address_zero:
  assumes "find_address ec2 module ip dev inst w = (out, w', DescribeAddresses kw # rest)"
    and "describe_addresses ec2 kw w = (Inr [], w1)" and "state module = Absent"
  shows "out = Stop (ExitJson no_change) \<and> w' = w1 \<and> rest = []"
  using find_address_result [OF assms(1)] assms(2,3) by auto

lemma find_address_calls:
  assumes "find_address ec2 module ip dev inst w = (out, w', cs)"
  shows "cs = [] \<or> (\<exists>kw. cs = [DescribeAddresses kw])"
  using find_address_result [OF assms] by auto

lemma find_address_Return_zero:
  assumes "find_address ec2 module ip dev inst w = (Return a, w', DescribeAddresses kw # rest)"
    and "state module = Absent"
  shows "fst (describe_addresses ec2 kw w) \<noteq> Inr []"
proof
  assume z: "fst (describe_addresses ec2 kw w) = Inr []"
  then obtain w1 where "describe_addresses ec2 kw w = (Inr [], w1)"
    by (cases "describe_addresses ec2 kw w") simp
  from find_address_zero [OF assms(1) this assms(2)] show False by simp
qed

lemma associated_zero:
  assumes "address_is_associated_with_device ec2 module a d inst w =
             (out, w', DescribeAddresses kw # rest)"
    and "describe_addresses ec2 kw w = (Inr [], w1)" and "state module = Absent"
  shows "out = Stop (ExitJson no_change) \<and> w' = w1 \<and> rest = []"
  using assms(1) unfolding address_is_associated_with_device_def
proof (cases rule: then_do_cases)
  case (stopped h)
  from find_address_zero [OF stopped(1) assms(2,3)] stopped(2) show ?thesis by simp
next
  case (returned r w2 cs1 cs2)
  from returned(2) have "cs2 = []" by (simp add: if_distribR return_def split: if_splits)
  with returned(3) have "cs1 = DescribeAddresses kw # rest" by simp
  with returned(1) have
    "find_address ec2 module (or_get a ''PublicIp'') (Some d) inst w =
       (Return r, w2, DescribeAddresses kw # rest)" by simp
  from find_address_Return_zero [OF this assms(3)] assms(2) show ?thesis by simp
qed

lemma associated_calls:
  assumes "address_is_associated_with_device ec2 module a d inst w = (out, w', cs)"
  shows "cs = [] \<or> (\<exists>kw. cs = [DescribeAddresses kw])"
  using assms unfolding address_is_associated_with_device_def
proof (cases rule: then_do_cases)
  case (stopped h)
  from find_address_calls [OF stopped(1)] show ?thesis .
next
  case (returned r w2 cs1 cs2)
  from returned(2) have "cs2 = []" by (simp add: if_distribR return_def split: if_splits)
  with returned(3) find_address_calls [OF returned(1)] show ?thesis by simp
qed

lemma associated_Return_zero:
  assumes "address_is_associated_with_device ec2 module a d inst w =
             (Return b, w', DescribeAddresses kw # rest)"
    and "state module = Absent"
  shows "fst (describe_addresses ec2 kw w) \<noteq> Inr []"
proof
  assume z: "fst (describe_addresses ec2 kw w) = Inr []"
  then obtain w1 where "describe_addresses ec2 kw w = (Inr [], w1)"
    by (cases "describe_addresses ec2 kw w") simp
  from associated_zero [OF assms(1) this assms(2)] show False by simp
qed

lemma disassociate_zero:
  assumes "disassociate_ip_and_device ec2 module a d inst w =
             (out, w', DescribeAddresses kw # rest)"
    and "describe_addresses ec2 kw w = (Inr [], w1)" and "state module = Absent"
  shows "out = Stop (ExitJson no_change) \<and> w' = w1 \<and> rest = []"
  using assms(1) unfolding disassociate_ip_and_device_def
proof (cases rule: then_do_cases)
  case (stopped h)
  from associated_zero [OF stopped(1) assms(2,3)] stopped(2) show ?thesis by simp
next
  case (returned r w2 cs1 cs2)
  from returned(2) have c2: "cs2 = [] \<or> (\<exists>arg. cs2 = [DisassociateAddress arg])"
    by (auto simp: Let_def step_simps split: if_splits sum.splits prod.splits)
  from associated_calls [OF returned(1)] returned(3) c2
  have "cs1 = [DescribeAddresses kw]" "rest = cs2" by auto
  with returned(1) have
    "address_is_associated_with_device ec2 module a d inst w =
       (Return r, w2, DescribeAddresses kw # [])" by simp
  from associated_Return_zero [OF this assms(3)] assms(2) show ?thesis by simp
qed

lemma release_calls:
  "release_ip_address ec2 module a w = (out, w', cs) \<Longrightarrow>
     cs = [] \<or> (\<exists>aid. cs = [ReleaseAddress aid])"
  by (auto simp: release_ip_address_def step_simps split: if_splits sum.splits prod.splits)

lemma ensure_absent_zero:
  assumes "ensure_absent ec2 module a dev inst w = (out, w', DescribeAddresses kw # rest)"
    and "describe_addresses ec2 kw w = (Inr [], w1)" and "state module = Absent"
  shows "out = Stop (ExitJson no_change) \<and> w' = w1 \<and> rest = []"
proof -
  from assms(1) have
    "(\<exists>d i. disassociate_ip_and_device ec2 module a d i w = (out, w', DescribeAddresses kw # rest))
     \<or> release_ip_address ec2 module a w = (out, w', DescribeAddresses kw # rest)"
    by (auto simp: ensure_absent_def return_def split: if_splits option.splits)
  then show ?thesis
  proof
    assume "\<exists>d i. disassociate_ip_and_device ec2 module a d i w = (out, w', DescribeAddresses kw # rest)"
    then obtain d i where
      "disassociate_ip_and_device ec2 module a d i w = (out, w', DescribeAddresses kw # rest)"
      by blast
    from disassociate_zero [OF this assms(2,3)] show ?thesis .
  next
    assume "release_ip_address ec2 module a w = (out, w', DescribeAddresses kw # rest)"
    from release_calls [OF this] show ?thesis by simp
  qed
qed


lemma find_address_no_call:
  assumes "find_address ec2 module ip dev inst w = (out, w', [])"
  shows "out = Return None \<and> w' = w"
  using find_address_result [OF assms] by simp

lemma find_address_world:
  assumes "find_address ec2 module ip dev inst w = (out, w', DescribeAddresses kw # rest)"
  shows "snd (describe_addresses ec2 kw w) = w'"
  using find_address_result [OF assms] by auto

lemma main_absent_zero:
  assumes "main_absent ec2 module inst a w = (out, w', DescribeAddresses kw # rest)"
    and "describe_addresses ec2 kw w = (Inr [], w1)" and "state module = Absent"
  shows "out = Stop (ExitJson no_change) \<and> w' = w1 \<and> rest = []"
proof (cases "truthy (device_id module)")
  case True
  with assms(1) have "then_do (ensure_absent ec2 module a (device_id module) inst)
          (\<lambda>disassociated'.
             if release_on_disassociation module \<and> disassociated' then
               then_do (release_ip_address ec2 module a)
                 (\<lambda>changed1. exit_json
                    \<lparr>changed = True, res_public_ip = None, res_allocation_id = None,
                     disassociated = Some disassociated', released = Some changed1\<rparr>)
             else
               exit_json
                 \<lparr>changed = disassociated', res_public_ip = None, res_allocation_id = None,
                  disassociated = Some disassociated', released = Some False\<rparr>) w
        = (out, w', DescribeAddresses kw # rest)"
    by (simp add: main_absent_def)
  then show ?thesis
  proof (cases rule: then_do_cases)
    case (stopped h)
    from ensure_absent_zero [OF stopped(1) assms(2,3)] stopped(2) show ?thesis by simp
  next
    case (returned d w2 cs1 cs2)
    have "cs2 = [] \<or> (\<exists>aid. cs2 = [ReleaseAddress aid])"
    proof (cases "release_on_disassociation module \<and> d")
      case True
      with returned(2) have "then_do (release_ip_address ec2 module a)
                 (\<lambda>changed1. exit_json
                    \<lparr>changed = True, res_public_ip = None, res_allocation_id = None,
                     disassociated = Some d, released = Some changed1\<rparr>) w2 = (out, w', cs2)"
        by simp
      then show ?thesis
      proof (cases rule: then_do_cases)
        case (stopped h)
        from release_calls [OF stopped(1)] show ?thesis .
      next
        case (returned c w3 cs3 cs4)
        from returned(2) have "cs4 = []" by (simp add: step_simps)
        with returned(3) release_calls [OF returned(1)] show ?thesis by simp
      qed
    next
      case False
      with returned(2) show ?thesis by (auto simp: step_simps)
    qed
    with returned(3) obtain r1 where "cs1 = DescribeAddresses kw # r1"
      by (cases cs1) auto
    with returned(1) have "ensure_absent ec2 module a (device_id module) inst w =
        (Return d, w2, DescribeAddresses kw # r1)" by simp
    from ensure_absent_zero [OF this assms(2,3)] show ?thesis by simp
  qed
next
  case False
  with assms(1) have "then_do (release_ip_address ec2 module a)
          (\<lambda>changed1. exit_json
             \<lparr>changed = changed1, res_public_ip = None, res_allocation_id = None,
              disassociated = Some False, released = Some changed1\<rparr>) w
          = (out, w', DescribeAddresses kw # rest)"
    by (simp add: main_absent_def)
  then show ?thesis
  proof (cases rule: then_do_cases)
    case (stopped h)
    from release_calls [OF stopped(1)] show ?thesis by simp
  next
    case (returned c w3 cs3 cs4)
    from returned(2) have "cs4 = []" by (simp add: step_simps)
    with returned(3) release_calls [OF returned(1)] show ?thesis by auto
  qed
qed

text \<open>What \<open>main\<close> does once the device kind and the tag filter are settled.\<close>

lemma main_cases:
  assumes "main ec2 module w = (out, w', cs)"
  obtains (invalid) "cs = []" "w' = w" "\<exists>f. out = Stop (FailJson f)"
  | (located) inst st where
      "then_do
         (find_address ec2 module (public_ip module)
            (if truthy (device_id module) then device_id module else None)
            (if truthy (device_id module) then inst else True))
         (\<lambda>address.
            if state module = Present
            then main_present ec2 module (if in_vpc module then Some ''vpc'' else None) inst st
                   address
            else main_absent ec2 module inst address) w = (out, w', cs)"
proof (cases "check_is_instance (device_id module) (in_vpc module)")
  case (Inl e)
  with assms have "cs = []" "w' = w" "\<exists>f. out = Stop (FailJson f)"
    by (auto simp: main_def step_simps split: eip_error.splits)
  with invalid show ?thesis by blast
next
  case (Inr inst)
  with assms have m: "then_do (generate_tag_dict (tag_name module) (tag_value module))
               (\<lambda>search_tags.
                  then_do
                    (if truthy (device_id module)
                     then find_address ec2 module (public_ip module) (device_id module) inst
                     else find_address ec2 module (public_ip module) None True)
                    (\<lambda>address.
                       if state module = Present
                       then main_present ec2 module (if in_vpc module then Some ''vpc'' else None)
                              inst search_tags address
                       else main_absent ec2 module inst address)) w = (out, w', cs)"
    by (simp add: main_def Let_def)
  then show ?thesis
  proof (cases rule: then_do_cases)
    case (stopped h)
    from stopped(1) have "cs = []" "w' = w" "\<exists>f. h = FailJson f"
      by (auto simp: generate_tag_dict_def step_simps split: if_splits)
    with stopped(2) invalid show ?thesis by blast
  next
    case (returned st w1 cs1 cs2)
    from generate_tag_dict_no_call [OF returned(1)] returned(3)
    have "cs2 = cs" "w1 = w" by simp_all
    with returned(2) have "then_do
         (find_address ec2 module (public_ip module)
            (if truthy (device_id module) then device_id module else None)
            (if truthy (device_id module) then inst else True))
         (\<lambda>address.
            if state module = Present
            then main_present ec2 module (if in_vpc module then Some ''vpc'' else None) inst st
                   address
            else main_absent ec2 module inst address) w = (out, w', cs)"
      by (auto split: if_splits)
    with located show ?thesis by blast
  qed
qed

section \<open>The state in which a call is issued\<close>

lemma replay_Nil [simp]: "replay ec2 chk [] w = w"
  by (simp add: replay_def)

lemma replay_Cons [simp]: "replay ec2 chk (c # cs) w = replay ec2 chk cs (perform ec2 chk c w)"
  by (simp add: replay_def)

lemma replay_append [simp]:
  "replay ec2 chk (cs1 @ cs2) w = replay ec2 chk cs2 (replay ec2 chk cs1 w)"
  by (simp add: replay_def)

lemma tracedD: "traced ec2 chk m \<Longrightarrow> m w = (out, w', cs) \<Longrightarrow> w' = replay ec2 chk cs w"
  by (auto simp: traced_def dest: spec [of _ w])

lemma traced_return: "traced ec2 chk (return a)"
  by (simp add: traced_def return_def)

lemma traced_stop: "traced ec2 chk (stop h)"
  by (simp add: traced_def stop_def)

lemma traced_exit_json: "traced ec2 chk (exit_json r)"
  by (simp add: exit_json_def traced_stop)

lemma traced_fail_json: "traced ec2 chk (fail_json f)"
  by (simp add: fail_json_def traced_stop)

lemma traced_lift_exc: "traced ec2 chk (lift_exc v)"
  by (cases v) (simp_all add: lift_exc_def traced_stop traced_return)

lemma traced_api_call:
  "(\<And>w. snd (f w) = perform ec2 chk c w) \<Longrightarrow> traced ec2 chk (api_call c f)"
  by (auto simp: traced_def api_call_def split: prod.splits dest: arg_cong [where f = snd])

lemma traced_then_do:
  assumes "traced ec2 chk m" and "\<And>a. traced ec2 chk (f a)"
  shows "traced ec2 chk (then_do m f)"
  unfolding traced_def
proof
  fix w
  obtain out w1 cs1 where m: "m w = (out, w1, cs1)" by (cases "m w")
  from tracedD [OF assms(1) m] have w1: "w1 = replay ec2 chk cs1 w" .
  show "fst (snd (then_do m f w)) = replay ec2 chk (snd (snd (then_do m f w))) w"
  proof (cases out)
    case (Return a)
    obtain o2 w2 cs2 where f: "f a w1 = (o2, w2, cs2)" by (cases "f a w1")
    from tracedD [OF assms(2) f] w1 m Return f show ?thesis by (simp add: then_do_def)
  next
    case (Stop h)
    with w1 m show ?thesis by (simp add: then_do_def)
  qed
qed

lemma traced_if:
  "(c \<Longrightarrow> traced ec2 chk x) \<Longrightarrow> (\<not> c \<Longrightarrow> traced ec2 chk y) \<Longrightarrow>
     traced ec2 chk (if c then x else y)"
  by simp

lemma traced_sum:
  "(\<And>e. traced ec2 chk (f e)) \<Longrightarrow> (\<And>a. traced ec2 chk (g a)) \<Longrightarrow>
     traced ec2 chk (case r of Inl e \<Rightarrow> f e | Inr a \<Rightarrow> g a)"
  by (cases r) simp_all

lemma traced_option:
  "traced ec2 chk x \<Longrightarrow> (\<And>a. traced ec2 chk (g a)) \<Longrightarrow>
     traced ec2 chk (case r of None \<Rightarrow> x | Some a \<Rightarrow> g a)"
  by (cases r) simp_all

lemma traced_prod:
  "(\<And>a b. traced ec2 chk (f a b)) \<Longrightarrow> traced ec2 chk (case r of (a, b) \<Rightarrow> f a b)"
  by (cases r) simp_all

lemma traced_list:
  "traced ec2 chk x \<Longrightarrow> (\<And>a as. traced ec2 chk (g a as)) \<Longrightarrow>
     traced ec2 chk (case r of [] \<Rightarrow> x | a # as \<Rightarrow> g a as)"
  by (cases r) simp_all

lemmas traced_rules =
  traced_return traced_stop traced_exit_json traced_fail_json traced_lift_exc
  traced_then_do traced_if traced_sum traced_option traced_prod traced_list

lemma traced_find_address: "traced ec2 chk (find_address ec2 module ip dev inst)"
  unfolding find_address_def Let_def
  by (intro traced_rules traced_api_call) (simp add: perform_def)

lemma traced_associated:
  "traced ec2 chk (address_is_associated_with_device ec2 module a d inst)"
  unfolding address_is_associated_with_device_def
  by (intro traced_rules traced_find_address)

lemma traced_associate:
  "traced ec2 chk (associate_ip_and_device ec2 module a p d allow inst)"
  unfolding associate_ip_and_device_def Let_def
  by (intro traced_rules traced_associated traced_api_call) (simp add: perform_def)

lemma traced_disassociate:
  "traced ec2 chk (disassociate_ip_and_device ec2 module a d inst)"
  unfolding disassociate_ip_and_device_def Let_def
  by (intro traced_rules traced_associated traced_api_call) (simp add: perform_def)

lemma traced_release: "traced ec2 chk (release_ip_address ec2 module a)"
  unfolding release_ip_address_def
  by (intro traced_rules traced_api_call) (simp add: perform_def)

lemma traced_reuse_scan: "traced ec2 chk (reuse_scan ec2 domain search)"
  unfolding reuse_scan_def
  by (intro traced_rules traced_api_call) (simp add: perform_def)

lemma traced_allocate:
  "traced ec2 chk (allocate_address ec2 domain reuse check tags' search pool)"
  unfolding allocate_address_def allocate_address_from_pool_def Let_def
  by (intro traced_rules traced_reuse_scan traced_api_call) (simp_all add: perform_def)

lemma traced_find_device: "traced ec2 chk (find_device ec2 d inst)"
  unfolding find_device_def
  by (intro traced_rules traced_api_call) (simp_all add: perform_def)

lemma traced_ensure_present:
  "traced ec2 chk (ensure_present ec2 module domain a p dev reuse allow check tags' inst)"
  unfolding ensure_present_def
  by (intro traced_rules traced_allocate traced_find_device traced_associate)

lemma traced_ensure_absent: "traced ec2 chk (ensure_absent ec2 module a dev inst)"
  unfolding ensure_absent_def
  by (intro traced_rules traced_release traced_disassociate)

lemma traced_main_present:
  "traced ec2 (check_mode module) (main_present ec2 module domain inst search a)"
  unfolding main_present_def
  by (intro traced_rules traced_ensure_present traced_allocate traced_api_call)
     (simp add: perform_def)

lemma traced_main_absent: "traced ec2 chk (main_absent ec2 module inst a)"
  unfolding main_absent_def
  by (intro traced_rules traced_ensure_absent traced_release)

lemma traced_generate_tag_dict: "traced ec2 chk (generate_tag_dict n v)"
  unfolding generate_tag_dict_def
  by (intro traced_rules)

lemma traced_main: "traced ec2 (check_mode module) (main ec2 module)"
  unfolding main_def Let_def
  by (intro traced_rules traced_generate_tag_dict traced_find_address traced_main_present
        traced_main_absent)
     (auto split: eip_error.splits intro: traced_fail_json)

section \<open>ec2_eip: nothing found while the desired state is absent\<close>

text \<open>
  C7. When a query of the locator returns zero addresses and the desired state is \<open>absent\<close>,
  the invocation ends through \<open>exit_json\<close> with \<open>changed\<close>, \<open>disassociated\<close> and \<open>released\<close>
  all false, and issues no further call. This holds for \<open>find_address\<close> itself, for the query
  that \<open>main\<close> makes first, and for the query that the disassociation step makes after it
  (from the cloud state \<open>w\<close> that the first query left).
\<close>

theorem zero_matches_absent:
  assumes "state module = Absent" and "describe_addresses ec2 kw w = (Inr [], w1)"
  shows "(find_address ec2 module ip dev inst w = (found, w', DescribeAddresses kw # rest) \<longrightarrow>
            found = Stop (ExitJson \<lparr>changed = False, res_public_ip = None,
                     res_allocation_id = None, disassociated = Some False,
                     released = Some False\<rparr>) \<and> w' = w1 \<and> rest = [])
       \<and> (main ec2 module w = (out, w', DescribeAddresses kw # rest) \<longrightarrow>
            out = Stop (ExitJson \<lparr>changed = False, res_public_ip = None,
                     res_allocation_id = None, disassociated = Some False,
                     released = Some False\<rparr>) \<and> w' = w1 \<and> rest = [])
       \<and> (main ec2 module v = (out, w', DescribeAddresses kfirst # DescribeAddresses kw # rest)
            \<and> snd (describe_addresses ec2 kfirst v) = w \<longrightarrow>
            out = Stop (ExitJson \<lparr>changed = False, res_public_ip = None,
                     res_allocation_id = None, disassociated = Some False,
                     released = Some False\<rparr>) \<and> w' = w1 \<and> rest = [])"
proof -
  have A: "found = Stop (ExitJson \<lparr>changed = False, res_public_ip = None,
                     res_allocation_id = None, disassociated = Some False,
                     released = Some False\<rparr>) \<and> w' = w1 \<and> rest = []"
    if "find_address ec2 module ip dev inst w = (found, w', DescribeAddresses kw # rest)"
    using find_address_zero [OF that assms(2,1)] by (simp add: no_change_def)
  have B: "out = Stop (ExitJson no_change) \<and> w' = w1 \<and> rest = []"
    if "main ec2 module w = (out, w', DescribeAddresses kw # rest)"
    using that
  proof (cases rule: main_cases)
    case invalid
    then show ?thesis by simp
  next
    case (located inst' st)
    from located show ?thesis
    proof (cases rule: then_do_cases)
      case (stopped h)
      from find_address_zero [OF stopped(1) assms(2,1)] stopped(2) show ?thesis by simp
    next
      case (returned a w2 cs1 cs2)
      show ?thesis
      proof (cases cs1)
        case Nil
        with returned(1) have "find_address ec2 module (public_ip module)
            (if truthy (device_id module) then device_id module else None)
            (if truthy (device_id module) then inst' else True) w = (Return a, w2, [])" by simp
        from find_address_no_call [OF this] have "a = None" "w2 = w" by simp_all
        with returned(2) assms(1) have "main_absent ec2 module inst' None w = (out, w', cs2)"
          by simp
        from main_absent_none_no_call [OF this] returned(3) Nil show ?thesis by simp
      next
        case (Cons c cs1')
        with returned(3) have "cs1 = DescribeAddresses kw # cs1'" by simp
        with returned(1) have "find_address ec2 module (public_ip module)
            (if truthy (device_id module) then device_id module else None)
            (if truthy (device_id module) then inst' else True) w =
              (Return a, w2, DescribeAddresses kw # cs1')" by simp
        from find_address_Return_zero [OF this assms(1)] assms(2) show ?thesis by simp
      qed
    qed
  qed
  have C: "out = Stop (ExitJson no_change) \<and> w' = w1 \<and> rest = []"
    if m: "main ec2 module v = (out, w', DescribeAddresses kfirst # DescribeAddresses kw # rest)"
      and a: "snd (describe_addresses ec2 kfirst v) = w"
    using m
  proof (cases rule: main_cases)
    case invalid
    then show ?thesis by simp
  next
    case (located inst' st)
    from located show ?thesis
    proof (cases rule: then_do_cases)
      case (stopped h)
      from find_address_calls [OF stopped(1)] show ?thesis by simp
    next
      case (returned a' w2 cs1 cs2)
      show ?thesis
      proof (cases cs1)
        case Nil
        with returned(1) have "find_address ec2 module (public_ip module)
            (if truthy (device_id module) then device_id module else None)
            (if truthy (device_id module) then inst' else True) v = (Return a', w2, [])" by simp
        from find_address_no_call [OF this] have "a' = None" "w2 = v" by simp_all
        with returned(2) assms(1) have "main_absent ec2 module inst' None v = (out, w', cs2)"
          by simp
        from main_absent_none_no_call [OF this] returned(3) Nil show ?thesis by simp
      next
        case (Cons c cs1')
        with find_address_calls [OF returned(1)] returned(3)
        have cs: "cs1 = [DescribeAddresses kfirst]" "cs2 = DescribeAddresses kw # rest"
          by auto
        from returned(1) cs(1) have "find_address ec2 module (public_ip module)
            (if truthy (device_id module) then device_id module else None)
            (if truthy (device_id module) then inst' else True) v =
              (Return a', w2, DescribeAddresses kfirst # [])" by simp
        from find_address_world [OF this] a have "w2 = w" by simp
        with returned(2) assms(1) cs(2)
        have "main_absent ec2 module inst' a' w = (out, w', DescribeAddresses kw # rest)"
          by simp
        from main_absent_zero [OF this assms(2,1)] show ?thesis .
      qed
    qed
  qed
  from A B C show ?thesis by (simp add: no_change_def)
qed

theorem zero_matches_absent_witness:
  "state (default_params\<lparr>state := Absent, public_ip := Some ''198.51.100.7''\<rparr>) = Absent
   \<and> describe_addresses cloud_client \<lparr>PublicIps = Some [''198.51.100.7''], Filters = None\<rparr>
         example_cloud = (Inr [], example_cloud)
   \<and> main cloud_client (default_params\<lparr>state := Absent, public_ip := Some ''198.51.100.7''\<rparr>)
         example_cloud =
       (Stop (ExitJson \<lparr>changed = False, res_public_ip = None, res_allocation_id = None,
                disassociated = Some False, released = Some False\<rparr>),
        example_cloud,
        [DescribeAddresses \<lparr>PublicIps = Some [''198.51.100.7''], Filters = None\<rparr>])
   \<and> state (default_params\<lparr>state := Absent, device_id := Some ''i-9''\<rparr>) = Absent
   \<and> describe_addresses vanishing_client \<lparr>PublicIps = Some [''203.0.113.9''], Filters = None\<rparr>
         (Suc 0) = (Inr [], Suc (Suc 0))
   \<and> main vanishing_client (default_params\<lparr>state := Absent, device_id := Some ''i-9''\<rparr>) 0 =
       (Stop (ExitJson \<lparr>changed = False, res_public_ip = None, res_allocation_id = None,
                disassociated = Some False, released = Some False\<rparr>),
        Suc (Suc 0),
        [DescribeAddresses \<lparr>PublicIps = None, Filters = Some [(''instance-id'', [''i-9''])]\<rparr>,
         DescribeAddresses \<lparr>PublicIps = Some [''203.0.113.9''], Filters = None\<rparr>])"
proof -
  let ?pA = "default_params\<lparr>state := Absent, public_ip := Some ''198.51.100.7''\<rparr>"
  let ?kA = "\<lparr>PublicIps = Some [''198.51.100.7''], Filters = None\<rparr>"
  let ?pV = "default_params\<lparr>state := Absent, device_id := Some ''i-9''\<rparr>"
  let ?k0 = "\<lparr>PublicIps = None, Filters = Some [(''instance-id'', [''i-9''])]\<rparr>"
  let ?kV = "\<lparr>PublicIps = Some [''203.0.113.9''], Filters = None\<rparr>"
  have sA: "state ?pA = Absent" by (simp add: default_params_def)
  have dA: "describe_addresses cloud_client ?kA example_cloud = (Inr [], example_cloud)"
    by code_simp
  obtain out w' cs where runA: "main cloud_client ?pA example_cloud = (out, w', cs)"
    by (cases "main cloud_client ?pA example_cloud")
  have csA: "snd (snd (main cloud_client ?pA example_cloud)) = [DescribeAddresses ?kA]"
    by code_simp
  with runA have cs: "cs = [DescribeAddresses ?kA]" by simp
  from zero_matches_absent [OF sA dA, where out = out and w' = w' and rest = "[]"]
  have "main cloud_client ?pA example_cloud = (out, w', [DescribeAddresses ?kA]) \<longrightarrow>
     out = Stop (ExitJson \<lparr>changed = False, res_public_ip = None, res_allocation_id = None,
                disassociated = Some False, released = Some False\<rparr>)
     \<and> w' = example_cloud \<and> [] = ([] :: call list)"
    by (rule conjunct1 [OF conjunct2])
  with runA cs have A: "main cloud_client ?pA example_cloud =
       (Stop (ExitJson \<lparr>changed = False, res_public_ip = None, res_allocation_id = None,
                disassociated = Some False, released = Some False\<rparr>),
        example_cloud, [DescribeAddresses ?kA])"
    by blast
  have sV: "state ?pV = Absent" by (simp add: default_params_def)
  have dV: "describe_addresses vanishing_client ?kV (Suc 0) = (Inr [], Suc (Suc 0))"
    by (simp add: vanishing_client_def)
  have d0: "snd (describe_addresses vanishing_client ?k0 0) = Suc 0"
    by (simp add: vanishing_client_def)
  obtain outV wV csV where runV: "main vanishing_client ?pV 0 = (outV, wV, csV)"
    by (cases "main vanishing_client ?pV 0")
  have "snd (snd (main vanishing_client ?pV 0)) = [DescribeAddresses ?k0, DescribeAddresses ?kV]"
    by code_simp
  with runV have csV: "csV = [DescribeAddresses ?k0, DescribeAddresses ?kV]" by simp
  from zero_matches_absent [OF sV dV, where out = outV and w' = wV and rest = "[]"
      and v = 0 and kfirst = ?k0]
  have "main vanishing_client ?pV 0 = (outV, wV, [DescribeAddresses ?k0, DescribeAddresses ?kV])
      \<and> snd (describe_addresses vanishing_client ?k0 0) = Suc 0 \<longrightarrow>
     outV = Stop (ExitJson \<lparr>changed = False, res_public_ip = None, res_allocation_id = None,
                disassociated = Some False, released = Some False\<rparr>)
     \<and> wV = Suc (Suc 0) \<and> [] = ([] :: call list)"
    by (rule conjunct2 [OF conjunct2])
  with runV csV d0 have V: "main vanishing_client ?pV 0 =
       (Stop (ExitJson \<lparr>changed = False, res_public_ip = None, res_allocation_id = None,
                disassociated = Some False, released = Some False\<rparr>),
        Suc (Suc 0), [DescribeAddresses ?k0, DescribeAddresses ?kV])"
    by blast
  from sA dA A sV dV V show ?thesis by (intro conjI)
qed

section \<open>ec2_eip: more than one address found\<close>

lemma find_address_ambiguous:
  assumes "find_address ec2 module ip dev inst w = (found, w', DescribeAddresses kw # rest)"
    and "describe_addresses ec2 kw w = (Inr addresses, w1)" and "1 < length addresses"
  shows "found = Stop (FailJson (Fail_ambiguous kw addresses)) \<and> w' = w1 \<and> rest = []"
proof -
  from assms(3) obtain a b bs where "addresses = a # b # bs"
    by (cases addresses; cases "tl addresses") auto
  with find_address_result [OF assms(1)] assms(2) show ?thesis by auto
qed

lemma find_address_Return_unambiguous:
  assumes "find_address ec2 module ip dev inst w = (Return a, w', DescribeAddresses kw # rest)"
    and "describe_addresses ec2 kw w = (Inr addresses, w1)"
  shows "\<not> 1 < length addresses"
proof
  assume "1 < length addresses"
  from find_address_ambiguous [OF assms(1,2) this] show False by simp
qed

lemma find_address_queries:
  assumes "find_address ec2 module ip dev inst w = (found, w', cs)"
    and "truthy ip \<or> truthy dev"
  shows "cs \<noteq> []"
proof -
  from assms(2) have n: "\<not> (Filters (find_address_kwargs ip dev inst) = None \<and> ip = None)"
    by (cases ip; cases dev) (auto simp: find_address_kwargs_def truthy_def)
  obtain r w1 where "describe_addresses ec2 (find_address_kwargs ip dev inst) w = (r, w1)"
    by (cases "describe_addresses ec2 (find_address_kwargs ip dev inst) w")
  from find_address_query [OF n this, of "module"] assms(1) show ?thesis by simp
qed

lemma associated_ambiguous:
  assumes "address_is_associated_with_device ec2 module a d inst w =
             (out, w', DescribeAddresses kw # rest)"
    and "describe_addresses ec2 kw w = (Inr addresses, w1)" and "1 < length addresses"
  shows "out = Stop (FailJson (Fail_ambiguous kw addresses)) \<and> w' = w1 \<and> rest = []"
  using assms(1) unfolding address_is_associated_with_device_def
proof (cases rule: then_do_cases)
  case (stopped h)
  from find_address_ambiguous [OF stopped(1) assms(2,3)] stopped(2) show ?thesis by simp
next
  case (returned r w2 cs1 cs2)
  from returned(2) have "cs2 = []" by (simp add: if_distribR return_def split: if_splits)
  with returned(3) have "cs1 = DescribeAddresses kw # rest" by simp
  with returned(1) have
    "find_address ec2 module (or_get a ''PublicIp'') (Some d) inst w =
       (Return r, w2, DescribeAddresses kw # rest)" by simp
  from find_address_Return_unambiguous [OF this assms(2)] assms(3) show ?thesis by simp
qed

lemma associated_Return_unambiguous:
  assumes "address_is_associated_with_device ec2 module a d inst w =
             (Return b, w', DescribeAddresses kw # rest)"
    and "describe_addresses ec2 kw w = (Inr addresses, w1)"
  shows "\<not> 1 < length addresses"
proof
  assume "1 < length addresses"
  from associated_ambiguous [OF assms(1,2) this] show False by simp
qed

lemma associate_ambiguous:
  assumes "associate_ip_and_device ec2 module a priv d allow inst w =
             (out, w', DescribeAddresses kw # rest)"
    and "describe_addresses ec2 kw w = (Inr addresses, w1)" and "1 < length addresses"
  shows "out = Stop (FailJson (Fail_ambiguous kw addresses)) \<and> w' = w1 \<and> rest = []"
  using assms(1) unfolding associate_ip_and_device_def
proof (cases rule: then_do_cases)
  case (stopped h)
  from associated_ambiguous [OF stopped(1) assms(2,3)] stopped(2) show ?thesis by simp
next
  case (returned r w2 cs1 cs2)
  from returned(2) have c2: "cs2 = [] \<or> (\<exists>p. cs2 = [AssociateAddress p])"
    by (auto simp: Let_def step_simps split: if_splits sum.splits prod.splits)
  from associated_calls [OF returned(1)] returned(3) c2
  have "cs1 = [DescribeAddresses kw]" by auto
  with returned(1) have
    "address_is_associated_with_device ec2 module a d inst w =
       (Return r, w2, DescribeAddresses kw # [])" by simp
  from associated_Return_unambiguous [OF this assms(2)] assms(3) show ?thesis by simp
qed

lemma disassociate_ambiguous:
  assumes "disassociate_ip_and_device ec2 module a d inst w =
             (out, w', DescribeAddresses kw # rest)"
    and "describe_addresses ec2 kw w = (Inr addresses, w1)" and "1 < length addresses"
  shows "out = Stop (FailJson (Fail_ambiguous kw addresses)) \<and> w' = w1 \<and> rest = []"
  using assms(1) unfolding disassociate_ip_and_device_def
proof (cases rule: then_do_cases)
  case (stopped h)
  from associated_ambiguous [OF stopped(1) assms(2,3)] stopped(2) show ?thesis by simp
next
  case (returned r w2 cs1 cs2)
  from returned(2) have c2: "cs2 = [] \<or> (\<exists>arg. cs2 = [DisassociateAddress arg])"
    by (auto simp: Let_def step_simps split: if_splits sum.splits prod.splits)
  from associated_calls [OF returned(1)] returned(3) c2
  have "cs1 = [DescribeAddresses kw]" by auto
  with returned(1) have
    "address_is_associated_with_device ec2 module a d inst w =
       (Return r, w2, DescribeAddresses kw # [])" by simp
  from associated_Return_unambiguous [OF this assms(2)] assms(3) show ?thesis by simp
qed

lemma ambiguity_fatalD:
  assumes "ambiguity_fatal ec2 chk m"
    and "m w = (out, w', pre @ DescribeAddresses kw # rest)"
    and "\<not> reuse_listing kw"
    and "fst (describe_addresses ec2 kw (replay ec2 chk pre w)) = Inr addresses"
    and "1 < length addresses"
  shows "out = Stop (FailJson (Fail_ambiguous kw addresses)) \<and> rest = []"
  using assms unfolding ambiguity_fatal_def by blast

lemma ambiguity_fatal_silent:
  "(\<And>w. snd (snd (m w)) = []) \<Longrightarrow> ambiguity_fatal ec2 chk m"
  unfolding ambiguity_fatal_def
  by (metis Nil_is_append_conv list.distinct(1) snd_conv)

lemma ambiguity_fatal_return: "ambiguity_fatal ec2 chk (return a)"
  by (rule ambiguity_fatal_silent) (simp add: return_def)

lemma ambiguity_fatal_stop: "ambiguity_fatal ec2 chk (stop h)"
  by (rule ambiguity_fatal_silent) (simp add: stop_def)

lemma ambiguity_fatal_exit_json: "ambiguity_fatal ec2 chk (exit_json r)"
  by (simp add: exit_json_def ambiguity_fatal_stop)

lemma ambiguity_fatal_fail_json: "ambiguity_fatal ec2 chk (fail_json f)"
  by (simp add: fail_json_def ambiguity_fatal_stop)

lemma ambiguity_fatal_lift_exc: "ambiguity_fatal ec2 chk (lift_exc v)"
  by (cases v) (simp_all add: lift_exc_def ambiguity_fatal_stop ambiguity_fatal_return)

text \<open>A call that is not a query of the locator.\<close>

lemma ambiguity_fatal_api_call:
  assumes "\<And>kw. c = DescribeAddresses kw \<Longrightarrow> reuse_listing kw"
  shows "ambiguity_fatal ec2 chk (api_call c f)"
  unfolding ambiguity_fatal_def
proof (intro allI impI)
  fix w out w' pre kw rest addresses
  assume a: "api_call c f w = (out, w', pre @ DescribeAddresses kw # rest)
        \<and> \<not> reuse_listing kw
        \<and> fst (describe_addresses ec2 kw (replay ec2 chk pre w)) = Inr addresses
        \<and> 1 < length addresses"
  then have "[c] = pre @ DescribeAddresses kw # rest"
    by (auto simp: api_call_def split: prod.splits)
  then have "c = DescribeAddresses kw" by (cases pre) auto
  from assms [OF this] a show "out = Stop (FailJson (Fail_ambiguous kw addresses)) \<and> rest = []"
    by simp
qed

lemma ambiguity_fatal_then_do:
  assumes "traced ec2 chk m" and "ambiguity_fatal ec2 chk m"
    and "\<And>a. ambiguity_fatal ec2 chk (f a)"
  shows "ambiguity_fatal ec2 chk (then_do m f)"
  unfolding ambiguity_fatal_def
proof (intro allI impI, elim conjE)
  fix w out w' pre kw rest addresses
  assume run: "then_do m f w = (out, w', pre @ DescribeAddresses kw # rest)"
    and k: "\<not> reuse_listing kw"
    and d: "fst (describe_addresses ec2 kw (replay ec2 chk pre w)) = Inr addresses"
    and l: "1 < length addresses"
  from run show "out = Stop (FailJson (Fail_ambiguous kw addresses)) \<and> rest = []"
  proof (cases rule: then_do_cases)
    case (stopped h)
    from ambiguity_fatalD [OF assms(2) stopped(1) k d l] stopped(2) show ?thesis by simp
  next
    case (returned a w1 cs1 cs2)
    from tracedD [OF assms(1) returned(1)] have w1: "w1 = replay ec2 chk cs1 w" .
    from returned(3) have "pre @ DescribeAddresses kw # rest = cs1 @ cs2" by simp
    then obtain us where
      "(pre = cs1 @ us \<and> us @ DescribeAddresses kw # rest = cs2)
       \<or> (pre @ us = cs1 \<and> DescribeAddresses kw # rest = us @ cs2)"
      by (auto simp: append_eq_append_conv2)
    then show ?thesis
    proof
      assume "pre = cs1 @ us \<and> us @ DescribeAddresses kw # rest = cs2"
      then have p: "pre = cs1 @ us" and c: "cs2 = us @ DescribeAddresses kw # rest" by simp_all
      from d p w1 have "fst (describe_addresses ec2 kw (replay ec2 chk us w1)) = Inr addresses"
        by simp
      from ambiguity_fatalD [OF assms(3) returned(2) [unfolded c] k this l] show ?thesis .
    next
      assume b: "pre @ us = cs1 \<and> DescribeAddresses kw # rest = us @ cs2"
      show ?thesis
      proof (cases us)
        case Nil
        with b have p: "pre = cs1" and c: "cs2 = [] @ DescribeAddresses kw # rest" by simp_all
        from d p w1 have "fst (describe_addresses ec2 kw (replay ec2 chk [] w1)) = Inr addresses"
          by simp
        from ambiguity_fatalD [OF assms(3) returned(2) [unfolded c] k this l] show ?thesis .
      next
        case (Cons u us')
        with b have "cs1 = pre @ DescribeAddresses kw # us'" by auto
        with returned(1) have "m w = (Return a, w1, pre @ DescribeAddresses kw # us')" by simp
        from ambiguity_fatalD [OF assms(2) this k d l] show ?thesis by simp
      qed
    qed
  qed
qed

lemma ambiguity_fatal_if:
  "(c \<Longrightarrow> ambiguity_fatal ec2 chk x) \<Longrightarrow> (\<not> c \<Longrightarrow> ambiguity_fatal ec2 chk y) \<Longrightarrow>
     ambiguity_fatal ec2 chk (if c then x else y)"
  by simp

lemma ambiguity_fatal_sum:
  "(\<And>e. ambiguity_fatal ec2 chk (f e)) \<Longrightarrow> (\<And>a. ambiguity_fatal ec2 chk (g a)) \<Longrightarrow>
     ambiguity_fatal ec2 chk (case r of Inl e \<Rightarrow> f e | Inr a \<Rightarrow> g a)"
  by (cases r) simp_all

lemma ambiguity_fatal_option:
  "ambiguity_fatal ec2 chk x \<Longrightarrow> (\<And>a. ambiguity_fatal ec2 chk (g a)) \<Longrightarrow>
     ambiguity_fatal ec2 chk (case r of None \<Rightarrow> x | Some a \<Rightarrow> g a)"
  by (cases r) simp_all

lemma ambiguity_fatal_prod:
  "(\<And>a b. ambiguity_fatal ec2 chk (f a b)) \<Longrightarrow>
     ambiguity_fatal ec2 chk (case r of (a, b) \<Rightarrow> f a b)"
  by (cases r) simp_all

lemma ambiguity_fatal_list:
  "ambiguity_fatal ec2 chk x \<Longrightarrow> (\<And>a as. ambiguity_fatal ec2 chk (g a as)) \<Longrightarrow>
     ambiguity_fatal ec2 chk (case r of [] \<Rightarrow> x | a # as \<Rightarrow> g a as)"
  by (cases r) simp_all

lemmas ambiguity_fatal_rules =
  ambiguity_fatal_return ambiguity_fatal_stop ambiguity_fatal_exit_json
  ambiguity_fatal_fail_json ambiguity_fatal_lift_exc ambiguity_fatal_if ambiguity_fatal_sum
  ambiguity_fatal_option ambiguity_fatal_prod ambiguity_fatal_list

lemma ambiguity_fatal_find_address:
  "ambiguity_fatal ec2 chk (find_address ec2 module ip dev inst)"
  unfolding ambiguity_fatal_def
proof (intro allI impI, elim conjE)
  fix w out w' pre kw rest addresses
  assume run: "find_address ec2 module ip dev inst w = (out, w', pre @ DescribeAddresses kw # rest)"
    and d: "fst (describe_addresses ec2 kw (replay ec2 chk pre w)) = Inr addresses"
    and l: "1 < length addresses"
  from find_address_calls [OF run] have p: "pre = []" by (cases pre) auto
  with d obtain w1 where d': "describe_addresses ec2 kw w = (Inr addresses, w1)"
    by (cases "describe_addresses ec2 kw w") simp
  from run p have "find_address ec2 module ip dev inst w = (out, w', DescribeAddresses kw # rest)"
    by simp
  from find_address_ambiguous [OF this d' l]
  show "out = Stop (FailJson (Fail_ambiguous kw addresses)) \<and> rest = []" by simp
qed

lemma ambiguity_fatal_associated:
  "ambiguity_fatal ec2 chk (address_is_associated_with_device ec2 module a d inst)"
  unfolding address_is_associated_with_device_def
  by (intro ambiguity_fatal_then_do traced_find_address ambiguity_fatal_find_address
        ambiguity_fatal_rules)

lemma ambiguity_fatal_associate:
  "ambiguity_fatal ec2 chk (associate_ip_and_device ec2 module a p d allow inst)"
  unfolding associate_ip_and_device_def Let_def
  by (intro ambiguity_fatal_then_do traced_associated ambiguity_fatal_associated
        ambiguity_fatal_rules ambiguity_fatal_api_call traced_api_call)
     (simp_all add: perform_def)

lemma ambiguity_fatal_disassociate:
  "ambiguity_fatal ec2 chk (disassociate_ip_and_device ec2 module a d inst)"
  unfolding disassociate_ip_and_device_def Let_def
  by (intro ambiguity_fatal_then_do traced_associated ambiguity_fatal_associated
        ambiguity_fatal_rules ambiguity_fatal_api_call traced_api_call)
     (simp_all add: perform_def)

lemma ambiguity_fatal_release:
  "ambiguity_fatal ec2 chk (release_ip_address ec2 module a)"
  unfolding release_ip_address_def
  by (intro ambiguity_fatal_then_do ambiguity_fatal_rules ambiguity_fatal_api_call
        traced_api_call traced_lift_exc)
     (simp_all add: perform_def)

lemma reuse_listing_reuse_kwargs: "reuse_listing (reuse_kwargs domain search)"
  by (simp add: reuse_listing_def reuse_kwargs_def)

lemma ambiguity_fatal_reuse_scan:
  "ambiguity_fatal ec2 chk (reuse_scan ec2 domain search)"
  unfolding reuse_scan_def
  by (intro ambiguity_fatal_then_do ambiguity_fatal_rules ambiguity_fatal_api_call
        traced_api_call traced_rules)
     (simp_all add: perform_def reuse_listing_reuse_kwargs)

lemma ambiguity_fatal_allocate:
  "ambiguity_fatal ec2 chk (allocate_address ec2 domain reuse check tags' search pool)"
  unfolding allocate_address_def allocate_address_from_pool_def Let_def
  by (intro ambiguity_fatal_then_do ambiguity_fatal_rules ambiguity_fatal_api_call
        traced_api_call traced_rules traced_reuse_scan ambiguity_fatal_reuse_scan)
     (simp_all add: perform_def)

lemma ambiguity_fatal_find_device:
  "ambiguity_fatal ec2 chk (find_device ec2 d inst)"
  unfolding find_device_def
  by (intro ambiguity_fatal_then_do ambiguity_fatal_rules ambiguity_fatal_api_call
        traced_api_call)
     (simp_all add: perform_def)

lemma ambiguity_fatal_ensure_present:
  "ambiguity_fatal ec2 chk
     (ensure_present ec2 module domain a p dev reuse allow check tags' inst)"
  unfolding ensure_present_def
  by (intro ambiguity_fatal_then_do ambiguity_fatal_rules traced_rules traced_allocate
        traced_find_device traced_associate ambiguity_fatal_allocate
        ambiguity_fatal_find_device ambiguity_fatal_associate)

lemma ambiguity_fatal_ensure_absent:
  "ambiguity_fatal ec2 chk (ensure_absent ec2 module a dev inst)"
  unfolding ensure_absent_def
  by (intro ambiguity_fatal_rules ambiguity_fatal_release ambiguity_fatal_disassociate)

lemma ambiguity_fatal_main_present:
  "ambiguity_fatal ec2 (check_mode module) (main_present ec2 module domain inst search a)"
  unfolding main_present_def
  by (intro ambiguity_fatal_then_do ambiguity_fatal_rules traced_rules traced_allocate
        traced_ensure_present ambiguity_fatal_allocate ambiguity_fatal_ensure_present
        ambiguity_fatal_api_call traced_api_call)
     (simp_all add: perform_def)

lemma ambiguity_fatal_main_absent:
  "ambiguity_fatal ec2 chk (main_absent ec2 module inst a)"
  unfolding main_absent_def
  by (intro ambiguity_fatal_then_do ambiguity_fatal_rules traced_ensure_absent traced_release
        ambiguity_fatal_ensure_absent ambiguity_fatal_release)

lemma ambiguity_fatal_generate_tag_dict: "ambiguity_fatal ec2 chk (generate_tag_dict n v)"
  unfolding generate_tag_dict_def
  by (intro ambiguity_fatal_rules)

lemma ambiguity_fatal_main: "ambiguity_fatal ec2 (check_mode module) (main ec2 module)"
  unfolding main_def Let_def
  by (intro ambiguity_fatal_then_do ambiguity_fatal_rules traced_rules
        traced_generate_tag_dict traced_find_address ambiguity_fatal_generate_tag_dict
        ambiguity_fatal_find_address ambiguity_fatal_main_present ambiguity_fatal_main_absent)
     (auto split: eip_error.splits intro: ambiguity_fatal_fail_json)

text \<open>
  C6. When a query of the locator returns more than one address, the invocation fails through
  \<open>fail_json\<close> with a failure that carries the arguments of the query and the addresses
  matched, and the query is the last call issued: \<open>find_address\<close> returns none of the
  matches, \<open>associate_ip_and_device\<close> and \<open>disassociate_ip_and_device\<close> issue no
  associate or disassociate call, and \<open>main\<close>, called with a public IP or a device id, stops
  at its first query. The same holds for every later query of the locator that \<open>main\<close>
  issues, in the presence and in the absence branch: whatever calls \<open>pre\<close> came before,
  when the query is answered with more than one address in the state that these calls left,
  \<open>main\<close> fails with the query and the addresses, and no call follows. The listing of the
  reuse scan is not a query of the locator: there, several addresses are what is asked for.
\<close>

theorem ambiguous_match_is_fatal:
  assumes "describe_addresses ec2 kw w = (Inr addresses, w1)" and "1 < length addresses"
  shows "(find_address ec2 module ip dev inst w = (found, w', DescribeAddresses kw # rest) \<longrightarrow>
            found = Stop (FailJson (Fail_ambiguous kw addresses)) \<and> w' = w1 \<and> rest = [])
       \<and> (associate_ip_and_device ec2 module a priv d allow inst w =
             (assoc, w', DescribeAddresses kw # rest) \<longrightarrow>
            assoc = Stop (FailJson (Fail_ambiguous kw addresses)) \<and> w' = w1 \<and> rest = [])
       \<and> (disassociate_ip_and_device ec2 module a d inst w =
             (assoc, w', DescribeAddresses kw # rest) \<longrightarrow>
            assoc = Stop (FailJson (Fail_ambiguous kw addresses)) \<and> w' = w1 \<and> rest = [])
       \<and> (main ec2 module w = (out, w', DescribeAddresses kw # rest)
            \<and> (truthy (public_ip module) \<or> truthy (device_id module)) \<longrightarrow>
            out = Stop (FailJson (Fail_ambiguous kw addresses)) \<and> w' = w1 \<and> rest = [])
       \<and> (main ec2 module v = (out, w', pre @ DescribeAddresses kw # rest)
            \<and> replay ec2 (check_mode module) pre v = w \<and> \<not> reuse_listing kw \<longrightarrow>
            out = Stop (FailJson (Fail_ambiguous kw addresses)) \<and> w' = w1 \<and> rest = [])"
proof -
  have M: "out = Stop (FailJson (Fail_ambiguous kw addresses)) \<and> w' = w1 \<and> rest = []"
    if m: "main ec2 module w = (out, w', DescribeAddresses kw # rest)"
      and c: "truthy (public_ip module) \<or> truthy (device_id module)"
    using m
  proof (cases rule: main_cases)
    case invalid
    then show ?thesis by simp
  next
    case (located inst' st)
    from c have c': "truthy (public_ip module)
        \<or> truthy (if truthy (device_id module) then device_id module else None)"
      by auto
    from located show ?thesis
    proof (cases rule: then_do_cases)
      case (stopped h)
      from find_address_ambiguous [OF stopped(1) assms] stopped(2) show ?thesis by simp
    next
      case (returned a' w2 cs1 cs2)
      from find_address_queries [OF returned(1) c'] find_address_calls [OF returned(1)]
        returned(3)
      have "cs1 = DescribeAddresses kw # []" by auto
      with returned(1) have "find_address ec2 module (public_ip module)
            (if truthy (device_id module) then device_id module else None)
            (if truthy (device_id module) then inst' else True) w =
              (Return a', w2, DescribeAddresses kw # [])" by simp
      from find_address_Return_unambiguous [OF this assms(1)] assms(2) show ?thesis by simp
    qed
  qed
  have A: "found = Stop (FailJson (Fail_ambiguous kw addresses)) \<and> w' = w1 \<and> rest = []"
    if "find_address ec2 module ip dev inst w = (found, w', DescribeAddresses kw # rest)"
    using find_address_ambiguous [OF that assms] .
  have B: "assoc = Stop (FailJson (Fail_ambiguous kw addresses)) \<and> w' = w1 \<and> rest = []"
    if "associate_ip_and_device ec2 module a priv d allow inst w =
             (assoc, w', DescribeAddresses kw # rest)"
    using associate_ambiguous [OF that assms] .
  have C: "assoc = Stop (FailJson (Fail_ambiguous kw addresses)) \<and> w' = w1 \<and> rest = []"
    if "disassociate_ip_and_device ec2 module a d inst w =
             (assoc, w', DescribeAddresses kw # rest)"
    using disassociate_ambiguous [OF that assms] .
  have L: "out = Stop (FailJson (Fail_ambiguous kw addresses)) \<and> w' = w1 \<and> rest = []"
    if m: "main ec2 module v = (out, w', pre @ DescribeAddresses kw # rest)"
      and r: "replay ec2 (check_mode module) pre v = w" and k: "\<not> reuse_listing kw"
  proof -
    from assms(1) r
    have d: "fst (describe_addresses ec2 kw (replay ec2 (check_mode module) pre v)) =
        Inr addresses" by simp
    from ambiguity_fatalD [OF ambiguity_fatal_main m k d assms(2)]
    have o: "out = Stop (FailJson (Fail_ambiguous kw addresses))" and e: "rest = []"
      by simp_all
    from tracedD [OF traced_main m] e r assms(1) have "w' = w1"
      by (simp add: perform_def)
    with o e show ?thesis by simp
  qed
  from A B C M L show ?thesis by simp
qed

theorem ambiguous_match_is_fatal_witness:
  "describe_addresses cloud_client
       \<lparr>PublicIps = None, Filters = Some [(''instance-id'', [''i-7''])]\<rparr> ambiguous_cloud =
     (Inr (cloud_addresses ambiguous_cloud), ambiguous_cloud)
   \<and> 1 < length (cloud_addresses ambiguous_cloud)
   \<and> (truthy (public_ip (default_params\<lparr>device_id := Some ''i-7''\<rparr>))
        \<or> truthy (device_id (default_params\<lparr>device_id := Some ''i-7''\<rparr>)))
   \<and> find_address cloud_client (default_params\<lparr>device_id := Some ''i-7''\<rparr>) None
         (Some ''i-7'') True ambiguous_cloud =
       (Stop (FailJson (Fail_ambiguous
          \<lparr>PublicIps = None, Filters = Some [(''instance-id'', [''i-7''])]\<rparr>
          (cloud_addresses ambiguous_cloud))),
        ambiguous_cloud,
        [DescribeAddresses \<lparr>PublicIps = None, Filters = Some [(''instance-id'', [''i-7''])]\<rparr>])
   \<and> associate_ip_and_device cloud_client (default_params\<lparr>device_id := Some ''i-7''\<rparr>) None
         None ''i-7'' False True ambiguous_cloud =
       (Stop (FailJson (Fail_ambiguous
          \<lparr>PublicIps = None, Filters = Some [(''instance-id'', [''i-7''])]\<rparr>
          (cloud_addresses ambiguous_cloud))),
        ambiguous_cloud,
        [DescribeAddresses \<lparr>PublicIps = None, Filters = Some [(''instance-id'', [''i-7''])]\<rparr>])
   \<and> disassociate_ip_and_device cloud_client (default_params\<lparr>device_id := Some ''i-7''\<rparr>)
         None ''i-7'' True ambiguous_cloud =
       (Stop (FailJson (Fail_ambiguous
          \<lparr>PublicIps = None, Filters = Some [(''instance-id'', [''i-7''])]\<rparr>
          (cloud_addresses ambiguous_cloud))),
        ambiguous_cloud,
        [DescribeAddresses \<lparr>PublicIps = None, Filters = Some [(''instance-id'', [''i-7''])]\<rparr>])
   \<and> main cloud_client (default_params\<lparr>device_id := Some ''i-7''\<rparr>) ambiguous_cloud =
       (Stop (FailJson (Fail_ambiguous
          \<lparr>PublicIps = None, Filters = Some [(''instance-id'', [''i-7''])]\<rparr>
          (cloud_addresses ambiguous_cloud))),
        ambiguous_cloud,
        [DescribeAddresses \<lparr>PublicIps = None, Filters = Some [(''instance-id'', [''i-7''])]\<rparr>])
   \<and> describe_addresses cloud_client
       \<lparr>PublicIps = Some [''203.0.113.1''], Filters = None\<rparr> shared_ip_cloud =
     (Inr (cloud_addresses shared_ip_cloud), shared_ip_cloud)
   \<and> 1 < length (cloud_addresses shared_ip_cloud)
   \<and> \<not> reuse_listing \<lparr>PublicIps = Some [''203.0.113.1''], Filters = None\<rparr>
   \<and> replay cloud_client False
         [DescribeAddresses \<lparr>PublicIps = None, Filters = Some [(''instance-id'', [''i-7''])]\<rparr>,
          DescribeInstances [''i-7'']] shared_ip_cloud = shared_ip_cloud
   \<and> main cloud_client (default_params\<lparr>device_id := Some ''i-7'', in_vpc := True\<rparr>)
         shared_ip_cloud =
       (Stop (FailJson (Fail_ambiguous
          \<lparr>PublicIps = Some [''203.0.113.1''], Filters = None\<rparr>
          (cloud_addresses shared_ip_cloud))),
        shared_ip_cloud,
        [DescribeAddresses \<lparr>PublicIps = None, Filters = Some [(''instance-id'', [''i-7''])]\<rparr>,
         DescribeInstances [''i-7'']]
        @ [DescribeAddresses \<lparr>PublicIps = Some [''203.0.113.1''], Filters = None\<rparr>])
   \<and> replay cloud_client False
         [DescribeAddresses \<lparr>PublicIps = None, Filters = Some [(''instance-id'', [''i-7''])]\<rparr>]
         shared_ip_cloud = shared_ip_cloud
   \<and> main cloud_client
         (default_params\<lparr>state := Absent, device_id := Some ''i-7'',
            release_on_disassociation := True\<rparr>)
         shared_ip_cloud =
       (Stop (FailJson (Fail_ambiguous
          \<lparr>PublicIps = Some [''203.0.113.1''], Filters = None\<rparr>
          (cloud_addresses shared_ip_cloud))),
        shared_ip_cloud,
        [DescribeAddresses \<lparr>PublicIps = None, Filters = Some [(''instance-id'', [''i-7''])]\<rparr>]
        @ [DescribeAddresses \<lparr>PublicIps = Some [''203.0.113.1''], Filters = None\<rparr>])"
proof -
  let ?p = "default_params\<lparr>device_id := Some ''i-7''\<rparr>"
  let ?k = "\<lparr>PublicIps = None, Filters = Some [(''instance-id'', [''i-7''])]\<rparr>"
  let ?as = "cloud_addresses ambiguous_cloud"
  let ?fail = "Stop (FailJson (Fail_ambiguous ?k ?as))"
  have d: "describe_addresses cloud_client ?k ambiguous_cloud = (Inr ?as, ambiguous_cloud)"
    by code_simp
  have l: "1 < length ?as" by (simp add: ambiguous_cloud_def)
  have c: "truthy (public_ip ?p) \<or> truthy (device_id ?p)"
    by (simp add: default_params_def truthy_def)
  obtain o1 w1 c1 where r1:
    "find_address cloud_client ?p None (Some ''i-7'') True ambiguous_cloud = (o1, w1, c1)"
    by (cases "find_address cloud_client ?p None (Some ''i-7'') True ambiguous_cloud")
  have "snd (snd (find_address cloud_client ?p None (Some ''i-7'') True ambiguous_cloud)) =
      [DescribeAddresses ?k]" by code_simp
  with r1 have "c1 = [DescribeAddresses ?k]" by simp
  with r1 ambiguous_match_is_fatal [OF d l, where rest = "[]" and module = ?p
      and found = o1 and w' = w1 and ip = None and dev = "Some ''i-7''" and inst = True,
      THEN conjunct1]
  have F: "find_address cloud_client ?p None (Some ''i-7'') True ambiguous_cloud =
      (?fail, ambiguous_cloud, [DescribeAddresses ?k])" by blast
  obtain o2 w2 c2 where r2:
    "associate_ip_and_device cloud_client ?p None None ''i-7'' False True ambiguous_cloud =
       (o2, w2, c2)"
    by (cases "associate_ip_and_device cloud_client ?p None None ''i-7'' False True
                 ambiguous_cloud")
  have "snd (snd (associate_ip_and_device cloud_client ?p None None ''i-7'' False True
      ambiguous_cloud)) = [DescribeAddresses ?k]" by code_simp
  with r2 have "c2 = [DescribeAddresses ?k]" by simp
  with r2 ambiguous_match_is_fatal [OF d l, where rest = "[]" and module = ?p
      and assoc = o2 and w' = w2 and a = None and priv = None and d = "''i-7''"
      and allow = False and inst = True, THEN conjunct2, THEN conjunct1]
  have A: "associate_ip_and_device cloud_client ?p None None ''i-7'' False True ambiguous_cloud =
      (?fail, ambiguous_cloud, [DescribeAddresses ?k])" by blast
  obtain o3 w3 c3 where r3:
    "disassociate_ip_and_device cloud_client ?p None ''i-7'' True ambiguous_cloud = (o3, w3, c3)"
    by (cases "disassociate_ip_and_device cloud_client ?p None ''i-7'' True ambiguous_cloud")
  have "snd (snd (disassociate_ip_and_device cloud_client ?p None ''i-7'' True
      ambiguous_cloud)) = [DescribeAddresses ?k]" by code_simp
  with r3 have "c3 = [DescribeAddresses ?k]" by simp
  with r3 ambiguous_match_is_fatal [OF d l, where rest = "[]" and module = ?p
      and assoc = o3 and w' = w3 and a = None and d = "''i-7''" and inst = True,
      THEN conjunct2, THEN conjunct2, THEN conjunct1]
  have D: "disassociate_ip_and_device cloud_client ?p None ''i-7'' True ambiguous_cloud =
      (?fail, ambiguous_cloud, [DescribeAddresses ?k])" by blast
  obtain o4 w4 c4 where r4: "main cloud_client ?p ambiguous_cloud = (o4, w4, c4)"
    by (cases "main cloud_client ?p ambiguous_cloud")
  have "snd (snd (main cloud_client ?p ambiguous_cloud)) = [DescribeAddresses ?k]"
    by code_simp
  with r4 have "c4 = [DescribeAddresses ?k]" by simp
  with r4 c ambiguous_match_is_fatal [OF d l, where rest = "[]" and module = ?p
      and out = o4 and w' = w4, THEN conjunct2, THEN conjunct2, THEN conjunct2, THEN conjunct1]
  have M: "main cloud_client ?p ambiguous_cloud =
      (?fail, ambiguous_cloud, [DescribeAddresses ?k])" by blast
  let ?q = "default_params\<lparr>device_id := Some ''i-7'', in_vpc := True\<rparr>"
  let ?u = "default_params\<lparr>state := Absent, device_id := Some ''i-7'',
            release_on_disassociation := True\<rparr>"
  let ?k2 = "\<lparr>PublicIps = Some [''203.0.113.1''], Filters = None\<rparr>"
  let ?bs = "cloud_addresses shared_ip_cloud"
  let ?pre = "[DescribeAddresses ?k, DescribeInstances [''i-7'']]"
  have d2: "describe_addresses cloud_client ?k2 shared_ip_cloud = (Inr ?bs, shared_ip_cloud)"
    by code_simp
  have l2: "1 < length ?bs" by (simp add: shared_ip_cloud_def)
  have n2: "\<not> reuse_listing ?k2" by (simp add: reuse_listing_def)
  have cq: "check_mode ?q = False" and cu: "check_mode ?u = False"
    by (simp_all add: default_params_def)
  have rp: "replay cloud_client False ?pre shared_ip_cloud = shared_ip_cloud"
    by code_simp
  have rp1: "replay cloud_client False [DescribeAddresses ?k] shared_ip_cloud = shared_ip_cloud"
    by code_simp
  obtain o5 w5 c5 where r5: "main cloud_client ?q shared_ip_cloud = (o5, w5, c5)"
    by (cases "main cloud_client ?q shared_ip_cloud")
  have "snd (snd (main cloud_client ?q shared_ip_cloud)) = ?pre @ [DescribeAddresses ?k2]"
    by code_simp
  with r5 have "c5 = ?pre @ [DescribeAddresses ?k2]" by simp
  with r5 rp n2 cq ambiguous_match_is_fatal [OF d2 l2, where rest = "[]" and module = ?q
      and out = o5 and w' = w5 and v = shared_ip_cloud and pre = ?pre,
      THEN conjunct2, THEN conjunct2, THEN conjunct2, THEN conjunct2]
  have P: "main cloud_client ?q shared_ip_cloud =
      (Stop (FailJson (Fail_ambiguous ?k2 ?bs)), shared_ip_cloud,
       ?pre @ [DescribeAddresses ?k2])" by simp
  obtain o6 w6 c6 where r6: "main cloud_client ?u shared_ip_cloud = (o6, w6, c6)"
    by (cases "main cloud_client ?u shared_ip_cloud")
  have "snd (snd (main cloud_client ?u shared_ip_cloud)) =
      [DescribeAddresses ?k] @ [DescribeAddresses ?k2]"
    by code_simp
  with r6 have "c6 = [DescribeAddresses ?k] @ [DescribeAddresses ?k2]" by simp
  with r6 rp1 n2 cu ambiguous_match_is_fatal [OF d2 l2, where rest = "[]" and module = ?u
      and out = o6 and w' = w6 and v = shared_ip_cloud and pre = "[DescribeAddresses ?k]",
      THEN conjunct2, THEN conjunct2, THEN conjunct2, THEN conjunct2]
  have Q: "main cloud_client ?u shared_ip_cloud =
      (Stop (FailJson (Fail_ambiguous ?k2 ?bs)), shared_ip_cloud,
       [DescribeAddresses ?k] @ [DescribeAddresses ?k2])" by simp
  from d l c F A D M d2 l2 n2 rp P rp1 Q show ?thesis by (intro conjI)
qed

section \<open>ec2_eip: the reuse scan of the allocator\<close>

lemma unassociated_standard_eq:
  "unassociated_standard as =
     (if list_all (\<lambda>a. map_of a ''InstanceId'' \<noteq> None) as
      then Inr (filter (\<lambda>a. map_of a ''InstanceId'' = Some []) as)
      else Inl (KeyError ''InstanceId''))"
  by (induction as) (auto simp: subscript_def split: option.splits sum.splits)

lemma reuse_scan_eq:
  assumes "describe_addresses ec2 (reuse_kwargs domain search) w = (r, w1)"
  shows "reuse_scan ec2 domain search w =
    ((case r of
        Inl e \<Rightarrow> Stop (FailJson (Fail_aws e msg_describe_addresses))
      | Inr listing \<Rightarrow>
          (case (if domain = ''vpc'' then Inr (unassociated_vpc listing)
                 else unassociated_standard listing) of
             Inl e \<Rightarrow> Stop (Raised e)
           | Inr [] \<Rightarrow> Return None
           | Inr (a # _) \<Rightarrow> Return (Some a))),
     w1, [DescribeAddresses (reuse_kwargs domain search)])"
  using assms
  by (simp add: reuse_scan_def step_simps split: sum.splits list.splits)

lemma allocate_address_reuse_eq:
  "allocate_address ec2 domain0 True check tags' search pool w =
     (case reuse_scan ec2 (domain_or_standard domain0) search w of
        (Return (Some a), w1, cs1) \<Rightarrow> (Return (Some a, False), w1, cs1)
      | (Return None, w1, cs1) \<Rightarrow>
          (case allocate_address ec2 domain0 False check tags' search pool w1 of
             (out, w2, cs2) \<Rightarrow> (out, w2, cs1 @ cs2))
      | (Stop h, w1, cs1) \<Rightarrow> (Stop h, w1, cs1))"
  by (simp add: allocate_address_def Let_def then_do_def return_def
        split: prod.splits outcome.splits option.splits)

lemma then_do_assoc:
  "then_do (then_do m f) g = then_do m (\<lambda>x. then_do (f x) g)"
  by (rule ext) (simp add: then_do_def split: prod.splits outcome.splits)

lemma allocate_address_new:
  assumes "allocate_address ec2 domain0 False check tags' search pool w = (out, w', cs)"
  shows "(cs = [] \<or> (\<exists>p. cs = [AllocateAddress p] \<and> \<not> check
            \<and> alloc_PublicIpv4Pool p = (if truthy pool then pool else None)))
       \<and> (\<forall>r. out = Return r \<longrightarrow> snd r) \<and> (\<forall>e. out \<noteq> Stop (Raised e))"
  using assms
  by (auto simp: allocate_address_def allocate_address_from_pool_def Let_def then_do_assoc
        step_simps split: if_splits sum.splits prod.splits)

lemma first_of_filter:
  "(case filter P xs of [] \<Rightarrow> x | a # _ \<Rightarrow> f a) = (case find P xs of None \<Rightarrow> x | Some a \<Rightarrow> f a)"
  by (induction xs) auto

lemma allocate_address_scan:
  assumes "describe_addresses ec2 (reuse_kwargs (domain_or_standard domain0) search) w =
             (Inr listing, w1)"
  shows "allocate_address ec2 domain0 True check tags' search pool w =
     (case (if domain_or_standard domain0 = ''vpc'' then Inr (unassociated_vpc listing)
            else unassociated_standard listing) of
        Inl e \<Rightarrow> (Stop (Raised e), w1,
                   [DescribeAddresses (reuse_kwargs (domain_or_standard domain0) search)])
      | Inr [] \<Rightarrow>
          (case allocate_address ec2 domain0 False check tags' search pool w1 of
             (out, w2, cs) \<Rightarrow>
               (out, w2,
                DescribeAddresses (reuse_kwargs (domain_or_standard domain0) search) # cs))
      | Inr (a # _) \<Rightarrow> (Return (Some a, False), w1,
                   [DescribeAddresses (reuse_kwargs (domain_or_standard domain0) search)]))"
  by (simp add: allocate_address_reuse_eq reuse_scan_eq [OF assms]
        split: sum.splits list.splits)

text \<open>
  C9. In the standard domain the reuse scan reads \<open>a["InstanceId"]\<close> of every listed
  address by subscript. When some listed address has no such key, \<open>allocate_address\<close> stops
  with an uncaught \<open>KeyError\<close> right after the listing, whatever the other addresses are.
  When every listed address carries the key, the scan is the filter of the addresses whose
  \<open>InstanceId\<close> is empty, and \<open>allocate_address\<close> raises no exception.
\<close>

theorem standard_scan_requires_instance_id:
  assumes "domain_or_standard domain0 \<noteq> ''vpc''"
    and "describe_addresses ec2 (reuse_kwargs (domain_or_standard domain0) search) w =
           (Inr listing, w1)"
  shows "((\<exists>a\<in>set listing. map_of a ''InstanceId'' = None) \<longrightarrow>
            allocate_address ec2 domain0 True check tags' search pool w =
              (Stop (Raised (KeyError ''InstanceId'')), w1,
               [DescribeAddresses (reuse_kwargs (domain_or_standard domain0) search)]))
       \<and> ((\<forall>a\<in>set listing. map_of a ''InstanceId'' \<noteq> None) \<longrightarrow>
            unassociated_standard listing =
              Inr (filter (\<lambda>a. map_of a ''InstanceId'' = Some []) listing)
            \<and> (\<forall>e. fst (allocate_address ec2 domain0 True check tags' search pool w) \<noteq>
                  Stop (Raised e)))"
proof (intro conjI impI)
  assume "\<exists>a\<in>set listing. map_of a ''InstanceId'' = None"
  then have "unassociated_standard listing = Inl (KeyError ''InstanceId'')"
    by (auto simp: unassociated_standard_eq list_all_iff)
  with assms(1) show "allocate_address ec2 domain0 True check tags' search pool w =
              (Stop (Raised (KeyError ''InstanceId'')), w1,
               [DescribeAddresses (reuse_kwargs (domain_or_standard domain0) search)])"
    by (simp add: allocate_address_scan [OF assms(2)])
next
  assume c: "\<forall>a\<in>set listing. map_of a ''InstanceId'' \<noteq> None"
  then show u: "unassociated_standard listing =
              Inr (filter (\<lambda>a. map_of a ''InstanceId'' = Some []) listing)"
    by (simp add: unassociated_standard_eq list_all_iff)
  show "\<forall>e. fst (allocate_address ec2 domain0 True check tags' search pool w) \<noteq>
                  Stop (Raised e)"
  proof (cases "filter (\<lambda>a. map_of a ''InstanceId'' = Some []) listing")
    case Nil
    obtain out w2 cs where n:
      "allocate_address ec2 domain0 False check tags' search pool w1 = (out, w2, cs)"
      by (cases "allocate_address ec2 domain0 False check tags' search pool w1")
    from allocate_address_new [OF n] have "\<forall>e. out \<noteq> Stop (Raised e)" by simp
    with assms(1) u Nil n show ?thesis
      by (simp add: allocate_address_scan [OF assms(2)])
  next
    case (Cons a as)
    with assms(1) u show ?thesis
      by (simp add: allocate_address_scan [OF assms(2)])
  qed
qed

lemma reuse_kwargs_eq:
  "reuse_kwargs domain search =
     \<lparr>PublicIps = None,
      Filters = Some ((''domain'', [domain])
        # (case search of None \<Rightarrow> [] | Some t \<Rightarrow> map (\<lambda>(k, v). (k, [v])) t))\<rparr>"
  by (cases search) (simp_all add: reuse_kwargs_def ansible_dict_to_boto3_filter_list_def)

text \<open>
  C3. With reuse allowed, \<open>allocate_address\<close> first lists the addresses of the target
  domain, narrowed by the tag filter when one is given: the request carries the filter on the
  domain and then one filter per entry of the tag filter. If the listing holds an unassociated
  address (in the vpc domain no or an empty \<open>AssociationId\<close>, in the standard domain an
  empty \<open>InstanceId\<close>), \<open>allocate_address\<close> returns the first one in the order of the
  listing with \<open>changed = False\<close> and issues the listing call only; otherwise it goes on as
  without reuse, where it issues at most one allocation call, carrying the pool when one is
  given, and returns \<open>changed = True\<close>. This holds in the vpc domain, and in the standard
  domain when every listed address carries an \<open>InstanceId\<close> key. On a standard-domain
  listing in which some address has no such key the scan raises a \<open>KeyError\<close>, whether
  or not the listing holds an unassociated address: there the claim fails. The vpc line of the
  scan reads the association id with \<open>get\<close>, the standard line subscripts.
\<close>

theorem reuse_first_unassociated:
  assumes "describe_addresses ec2
             \<lparr>PublicIps = None,
              Filters = Some ((''domain'', [domain_or_standard domain0])
                # (case search of None \<Rightarrow> [] | Some t \<Rightarrow> map (\<lambda>(k, v). (k, [v])) t))\<rparr> w =
             (Inr listing, w1)"
  shows "(domain_or_standard domain0 = ''vpc''
          \<or> (\<forall>a\<in>set listing. map_of a ''InstanceId'' \<noteq> None) \<longrightarrow>
          allocate_address ec2 domain0 True check tags' search pool w =
            (case find (\<lambda>a. if domain_or_standard domain0 = ''vpc''
                             then \<not> truthy (map_of a ''AssociationId'')
                             else map_of a ''InstanceId'' = Some []) listing of
               Some a \<Rightarrow>
                 (Return (Some a, False), w1,
                  [DescribeAddresses
                     \<lparr>PublicIps = None,
                      Filters = Some ((''domain'', [domain_or_standard domain0])
                        # (case search of None \<Rightarrow> []
                           | Some t \<Rightarrow> map (\<lambda>(k, v). (k, [v])) t))\<rparr>])
             | None \<Rightarrow>
                 (case allocate_address ec2 domain0 False check tags' search pool w1 of
                    (out, w2, cs) \<Rightarrow>
                      (out, w2,
                       DescribeAddresses
                         \<lparr>PublicIps = None,
                          Filters = Some ((''domain'', [domain_or_standard domain0])
                            # (case search of None \<Rightarrow> []
                               | Some t \<Rightarrow> map (\<lambda>(k, v). (k, [v])) t))\<rparr> # cs))))
   \<and> (domain_or_standard domain0 \<noteq> ''vpc''
        \<and> (\<exists>a\<in>set listing. map_of a ''InstanceId'' = None) \<longrightarrow>
        allocate_address ec2 domain0 True check tags' search pool w =
          (Stop (Raised (KeyError ''InstanceId'')), w1,
           [DescribeAddresses
              \<lparr>PublicIps = None,
               Filters = Some ((''domain'', [domain_or_standard domain0])
                 # (case search of None \<Rightarrow> []
                    | Some t \<Rightarrow> map (\<lambda>(k, v). (k, [v])) t))\<rparr>]))
   \<and> (\<forall>out w2 cs.
         allocate_address ec2 domain0 False check tags' search pool w1 = (out, w2, cs) \<longrightarrow>
           (cs = [] \<or> (\<exists>p. cs = [AllocateAddress p] \<and> \<not> check
               \<and> alloc_PublicIpv4Pool p = (if truthy pool then pool else None)))
           \<and> (\<forall>r. out = Return r \<longrightarrow> snd r))"
proof -
  note d = assms [folded reuse_kwargs_eq]
  have A: "allocate_address ec2 domain0 True check tags' search pool w =
     (case find (\<lambda>a. if domain_or_standard domain0 = ''vpc''
                      then \<not> truthy (map_of a ''AssociationId'')
                      else map_of a ''InstanceId'' = Some []) listing of
        Some a \<Rightarrow>
          (Return (Some a, False), w1,
           [DescribeAddresses (reuse_kwargs (domain_or_standard domain0) search)])
      | None \<Rightarrow>
          (case allocate_address ec2 domain0 False check tags' search pool w1 of
             (out, w2, cs) \<Rightarrow>
               (out, w2,
                DescribeAddresses (reuse_kwargs (domain_or_standard domain0) search) # cs)))"
    if c: "domain_or_standard domain0 = ''vpc''
         \<or> (\<forall>a\<in>set listing. map_of a ''InstanceId'' \<noteq> None)"
  proof -
    have scan: "(if domain_or_standard domain0 = ''vpc'' then Inr (unassociated_vpc listing)
               else unassociated_standard listing) =
     Inr (filter (\<lambda>a. if domain_or_standard domain0 = ''vpc''
                      then \<not> truthy (map_of a ''AssociationId'')
                      else map_of a ''InstanceId'' = Some []) listing)"
      using c
      by (auto simp: unassociated_vpc_def unassociated_standard_eq list_all_iff)
    show ?thesis
      unfolding allocate_address_scan [OF d] scan
      by (simp add: first_of_filter)
  qed
  have B: "allocate_address ec2 domain0 True check tags' search pool w =
          (Stop (Raised (KeyError ''InstanceId'')), w1,
           [DescribeAddresses (reuse_kwargs (domain_or_standard domain0) search)])"
    if n: "domain_or_standard domain0 \<noteq> ''vpc''"
      and e: "\<exists>a\<in>set listing. map_of a ''InstanceId'' = None"
  proof -
    from e have "unassociated_standard listing = Inl (KeyError ''InstanceId'')"
      by (auto simp: unassociated_standard_eq list_all_iff)
    with n show ?thesis by (simp add: allocate_address_scan [OF d])
  qed
  have C: "(cs = [] \<or> (\<exists>p. cs = [AllocateAddress p] \<and> \<not> check
               \<and> alloc_PublicIpv4Pool p = (if truthy pool then pool else None)))
           \<and> (\<forall>r. out = Return r \<longrightarrow> snd r)"
    if "allocate_address ec2 domain0 False check tags' search pool w1 = (out, w2, cs)"
    for out w2 cs
    using allocate_address_new [OF that] by blast
  from A B C show ?thesis unfolding reuse_kwargs_eq by blast
qed


theorem reuse_first_unassociated_witness:
  "describe_addresses cloud_client
       \<lparr>PublicIps = None,
        Filters = Some [(''domain'', [''vpc'']), (''tag:Name'', [''web''])]\<rparr> tagged_cloud =
     (Inr (tl (cloud_addresses tagged_cloud)), tagged_cloud)
   \<and> allocate_address cloud_client (Some ''vpc'') True False None
         (Some [(''tag:Name'', ''web'')]) None tagged_cloud =
       (Return
          (Some [(''PublicIp'', ''192.0.2.12''), (''AllocationId'', ''eipalloc-t2''),
                 (''Domain'', ''vpc''), (''tag:Name'', ''web'')], False),
        tagged_cloud,
        [DescribeAddresses
           \<lparr>PublicIps = None,
            Filters = Some [(''domain'', [''vpc'']), (''tag:Name'', [''web''])]\<rparr>])
   \<and> describe_addresses cloud_client
       \<lparr>PublicIps = None, Filters = Some [(''domain'', [''vpc''])]\<rparr> tagged_cloud =
     (Inr (cloud_addresses tagged_cloud), tagged_cloud)
   \<and> allocate_address cloud_client (Some ''vpc'') True False None None None tagged_cloud =
       (Return
          (Some [(''PublicIp'', ''192.0.2.11''), (''AllocationId'', ''eipalloc-t1''),
                 (''Domain'', ''vpc''), (''tag:Name'', ''db'')], False),
        tagged_cloud,
        [DescribeAddresses \<lparr>PublicIps = None, Filters = Some [(''domain'', [''vpc''])]\<rparr>])
   \<and> describe_addresses cloud_client
       \<lparr>PublicIps = None, Filters = Some [(''domain'', [''vpc''])]\<rparr> reuse_cloud =
     (Inr (cloud_addresses reuse_cloud), reuse_cloud)
   \<and> allocate_address cloud_client (Some ''vpc'') True False None None None reuse_cloud =
       (Return
          (Some [(''PublicIp'', ''192.0.2.2''), (''AllocationId'', ''eipalloc-r2''),
                 (''Domain'', ''vpc'')], False),
        reuse_cloud,
        [DescribeAddresses \<lparr>PublicIps = None, Filters = Some [(''domain'', [''vpc''])]\<rparr>])
   \<and> describe_addresses cloud_client
       \<lparr>PublicIps = None, Filters = Some [(''domain'', [''standard''])]\<rparr> standard_cloud =
     (Inr [[(''PublicIp'', ''198.51.100.1''), (''Domain'', ''standard'')],
           [(''PublicIp'', ''198.51.100.2''), (''Domain'', ''standard''), (''InstanceId'', [])]],
      standard_cloud)
   \<and> allocate_address cloud_client None True False None None None standard_cloud =
       (Stop (Raised (KeyError ''InstanceId'')), standard_cloud,
        [DescribeAddresses \<lparr>PublicIps = None, Filters = Some [(''domain'', [''standard''])]\<rparr>])"
proof -
  let ?web = "Some [(''tag:Name'', ''web'')]"
  let ?kw = "\<lparr>PublicIps = None,
        Filters = Some [(''domain'', [''vpc'']), (''tag:Name'', [''web''])]\<rparr>"
  let ?kv = "\<lparr>PublicIps = None, Filters = Some [(''domain'', [''vpc''])]\<rparr>"
  let ?ks = "\<lparr>PublicIps = None, Filters = Some [(''domain'', [''standard''])]\<rparr>"
  have v: "domain_or_standard (Some ''vpc'') = ''vpc''"
    and n: "domain_or_standard None = ''standard''"
    by (simp_all add: domain_or_standard_def)
  have d1: "describe_addresses cloud_client ?kw tagged_cloud =
     (Inr (tl (cloud_addresses tagged_cloud)), tagged_cloud)"
    by code_simp
  have f1: "find (\<lambda>a. \<not> truthy (map_of a ''AssociationId'')) (tl (cloud_addresses tagged_cloud)) =
     Some [(''PublicIp'', ''192.0.2.12''), (''AllocationId'', ''eipalloc-t2''),
           (''Domain'', ''vpc''), (''tag:Name'', ''web'')]"
    by code_simp
  from reuse_first_unassociated [of cloud_client "Some ''vpc''" ?web tagged_cloud
      "tl (cloud_addresses tagged_cloud)" tagged_cloud False None None, THEN conjunct1]
    d1 f1
  have A: "allocate_address cloud_client (Some ''vpc'') True False None ?web None tagged_cloud =
       (Return
          (Some [(''PublicIp'', ''192.0.2.12''), (''AllocationId'', ''eipalloc-t2''),
                 (''Domain'', ''vpc''), (''tag:Name'', ''web'')], False),
        tagged_cloud, [DescribeAddresses ?kw])"
    by (simp add: v)
  have d2: "describe_addresses cloud_client ?kv tagged_cloud =
     (Inr (cloud_addresses tagged_cloud), tagged_cloud)"
    by code_simp
  have f2: "find (\<lambda>a. \<not> truthy (map_of a ''AssociationId'')) (cloud_addresses tagged_cloud) =
     Some [(''PublicIp'', ''192.0.2.11''), (''AllocationId'', ''eipalloc-t1''),
           (''Domain'', ''vpc''), (''tag:Name'', ''db'')]"
    by code_simp
  from reuse_first_unassociated [of cloud_client "Some ''vpc''" None tagged_cloud
      "cloud_addresses tagged_cloud" tagged_cloud False None None, THEN conjunct1]
    d2 f2
  have B: "allocate_address cloud_client (Some ''vpc'') True False None None None tagged_cloud =
       (Return
          (Some [(''PublicIp'', ''192.0.2.11''), (''AllocationId'', ''eipalloc-t1''),
                 (''Domain'', ''vpc''), (''tag:Name'', ''db'')], False),
        tagged_cloud, [DescribeAddresses ?kv])"
    by (simp add: v)
  have d3: "describe_addresses cloud_client ?kv reuse_cloud =
     (Inr (cloud_addresses reuse_cloud), reuse_cloud)"
    by code_simp
  have f3: "find (\<lambda>a. \<not> truthy (map_of a ''AssociationId'')) (cloud_addresses reuse_cloud) =
     Some [(''PublicIp'', ''192.0.2.2''), (''AllocationId'', ''eipalloc-r2''),
           (''Domain'', ''vpc'')]"
    by code_simp
  from reuse_first_unassociated [of cloud_client "Some ''vpc''" None reuse_cloud
      "cloud_addresses reuse_cloud" reuse_cloud False None None, THEN conjunct1]
    d3 f3
  have C: "allocate_address cloud_client (Some ''vpc'') True False None None None reuse_cloud =
       (Return
          (Some [(''PublicIp'', ''192.0.2.2''), (''AllocationId'', ''eipalloc-r2''),
                 (''Domain'', ''vpc'')], False),
        reuse_cloud, [DescribeAddresses ?kv])"
    by (simp add: v)
  have d4: "describe_addresses cloud_client ?ks standard_cloud =
     (Inr [[(''PublicIp'', ''198.51.100.1''), (''Domain'', ''standard'')],
           [(''PublicIp'', ''198.51.100.2''), (''Domain'', ''standard''), (''InstanceId'', [])]],
      standard_cloud)"
    by code_simp
  from reuse_first_unassociated [of cloud_client None None standard_cloud
      "[[(''PublicIp'', ''198.51.100.1''), (''Domain'', ''standard'')],
        [(''PublicIp'', ''198.51.100.2''), (''Domain'', ''standard''), (''InstanceId'', [])]]"
      standard_cloud False None None, THEN conjunct2, THEN conjunct1]
    d4
  have D: "allocate_address cloud_client None True False None None None standard_cloud =
       (Stop (Raised (KeyError ''InstanceId'')), standard_cloud, [DescribeAddresses ?ks])"
    by (simp add: n)
  from d1 A d2 B d3 C d4 D show ?thesis by (intro conjI)
qed

theorem standard_scan_requires_instance_id_witness:
  "domain_or_standard None \<noteq> ''vpc''
   \<and> describe_addresses cloud_client (reuse_kwargs (domain_or_standard None) None)
         standard_cloud = (Inr (cloud_addresses standard_cloud), standard_cloud)
   \<and> map_of (hd (cloud_addresses standard_cloud)) ''InstanceId'' = None
   \<and> allocate_address cloud_client None True False None None None standard_cloud =
       (Stop (Raised (KeyError ''InstanceId'')), standard_cloud,
        [DescribeAddresses (reuse_kwargs (domain_or_standard None) None)])
   \<and> describe_addresses cloud_client (reuse_kwargs (domain_or_standard None) None)
         (standard_cloud\<lparr>cloud_addresses := tl (cloud_addresses standard_cloud)\<rparr>) =
       (Inr (tl (cloud_addresses standard_cloud)),
        standard_cloud\<lparr>cloud_addresses := tl (cloud_addresses standard_cloud)\<rparr>)
   \<and> list_all (\<lambda>a. map_of a ''InstanceId'' \<noteq> None) (tl (cloud_addresses standard_cloud))
   \<and> unassociated_standard (tl (cloud_addresses standard_cloud)) =
       Inr (filter (\<lambda>a. map_of a ''InstanceId'' = Some []) (tl (cloud_addresses standard_cloud)))
   \<and> fst (allocate_address cloud_client None True False None None None
           (standard_cloud\<lparr>cloud_addresses := tl (cloud_addresses standard_cloud)\<rparr>)) \<noteq>
         Stop (Raised (KeyError ''InstanceId''))"
proof -
  let ?c2 = "standard_cloud\<lparr>cloud_addresses := tl (cloud_addresses standard_cloud)\<rparr>"
  have n: "domain_or_standard None \<noteq> ''vpc''" by (simp add: domain_or_standard_def)
  have d1: "describe_addresses cloud_client (reuse_kwargs (domain_or_standard None) None)
         standard_cloud = (Inr (cloud_addresses standard_cloud), standard_cloud)"
    by code_simp
  have h: "map_of (hd (cloud_addresses standard_cloud)) ''InstanceId'' = None"
    by (simp add: standard_cloud_def)
  then have l: "\<exists>a\<in>set (cloud_addresses standard_cloud). map_of a ''InstanceId'' = None"
    by (auto simp: standard_cloud_def)
  have d2: "describe_addresses cloud_client (reuse_kwargs (domain_or_standard None) None) ?c2 =
       (Inr (tl (cloud_addresses standard_cloud)), ?c2)"
    by code_simp
  have la: "list_all (\<lambda>a. map_of a ''InstanceId'' \<noteq> None) (tl (cloud_addresses standard_cloud))"
    by (simp add: standard_cloud_def)
  then have c: "\<forall>a\<in>set (tl (cloud_addresses standard_cloud)). map_of a ''InstanceId'' \<noteq> None"
    by (simp add: list_all_iff)
  from standard_scan_requires_instance_id [OF n d1, where check = False and tags' = None
      and pool = None, THEN conjunct1] l
  have A: "allocate_address cloud_client None True False None None None standard_cloud =
       (Stop (Raised (KeyError ''InstanceId'')), standard_cloud,
        [DescribeAddresses (reuse_kwargs (domain_or_standard None) None)])"
    by (rule mp)
  from standard_scan_requires_instance_id [OF n d2, where check = False and tags' = None
      and pool = None, THEN conjunct2] c
  have B: "unassociated_standard (tl (cloud_addresses standard_cloud)) =
       Inr (filter (\<lambda>a. map_of a ''InstanceId'' = Some []) (tl (cloud_addresses standard_cloud)))
   \<and> (\<forall>e. fst (allocate_address cloud_client None True False None None None ?c2) \<noteq>
         Stop (Raised e))"
    by (rule mp)
  from B have B2: "fst (allocate_address cloud_client None True False None None None ?c2) \<noteq>
         Stop (Raised (KeyError ''InstanceId''))"
    by blast
  from n d1 h A d2 la B [THEN conjunct1] B2 show ?thesis by (intro conjI)
qed

section \<open>lambda_layer_info: a read-only listing\<close>

lemma list_layer_versions_calls:
  "list_layer_versions client params w = (r, w', cs) \<Longrightarrow>
     \<exists>kw. cs = [Paginate ''list_layer_versions'' kw] \<and> LayerName kw = name params"
  by (auto simp: list_layer_versions_def Let_def split: prod.splits sum.splits option.splits)

lemma list_layers_calls:
  "list_layers client params w = (r, w', cs) \<Longrightarrow>
     \<exists>kw. cs = [Paginate ''list_layers'' kw] \<and> LayerName kw = None"
  by (auto simp: list_layers_def Let_def split: prod.splits sum.splits option.splits)

text \<open>
  C10. Every invocation of \<open>execute_module\<close> that ends through \<open>exit_json\<close> reports
  \<open>changed = False\<close>, with the layers that the selected operation returned. The operation
  is \<open>list_layer_versions\<close>, paginating \<open>list_layer_versions\<close> for the given layer name,
  exactly when \<open>name\<close> is not \<open>None\<close>, and \<open>list_layers\<close> otherwise; the one paginator call
  is all the module issues.
\<close>

theorem layer_info_read_only:
  assumes "execute_module client params w = (out, w', cs)"
  shows "(\<forall>c layers. out = Exit_json c layers \<longrightarrow>
            \<not> c \<and> (if name params \<noteq> None then list_layer_versions client params w
                     else list_layers client params w) = (Inr layers, w', cs))
       \<and> (name params \<noteq> None \<longrightarrow>
            (\<exists>kw. cs = [Paginate ''list_layer_versions'' kw] \<and> LayerName kw = name params))
       \<and> (name params = None \<longrightarrow>
            (\<exists>kw. cs = [Paginate ''list_layers'' kw] \<and> LayerName kw = None))"
proof -
  obtain r w1 cs1 where op:
    "(if name params \<noteq> None then list_layer_versions client params w
      else list_layers client params w) = (r, w1, cs1)"
    by (cases "if name params \<noteq> None then list_layer_versions client params w
               else list_layers client params w")
  have halts: "\<And>h c l. r = Inl h \<Longrightarrow> h \<noteq> Exit_json c l"
    using op
    by (auto simp: list_layer_versions_def list_layers_def Let_def
          split: if_splits prod.splits sum.splits option.splits)
  from assms op have e: "w' = w1" "cs = cs1"
    "out = (case r of Inl h \<Rightarrow> h | Inr layers \<Rightarrow> Exit_json False layers)"
    by (auto simp: execute_module_def Let_def split: if_splits sum.splits)
  have A: "\<forall>c layers. out = Exit_json c layers \<longrightarrow>
            \<not> c \<and> (if name params \<noteq> None then list_layer_versions client params w
                     else list_layers client params w) = (Inr layers, w', cs)"
    using e op halts by (cases r) auto
  have B: "name params \<noteq> None \<longrightarrow>
            (\<exists>kw. cs = [Paginate ''list_layer_versions'' kw] \<and> LayerName kw = name params)"
    using op e list_layer_versions_calls [of client params w r w1 cs1] by auto
  have C: "name params = None \<longrightarrow>
            (\<exists>kw. cs = [Paginate ''list_layers'' kw] \<and> LayerName kw = None)"
    using op e list_layers_calls [of client params w r w1 cs1] by auto
  from A B C show ?thesis by blast
qed

theorem layer_info_read_only_witness:
  "execute_module example_lambda_client
     \<lparr>name = Some ''layer1'', compatible_runtime = None, compatible_architecture = None\<rparr> () =
     (Exit_json False [[(KStr ''Version'', JInt 1)], [(KStr ''Version'', JInt 2)]], (),
      [Paginate ''list_layer_versions''
         \<lparr>LayerName = Some ''layer1'', CompatibleRuntime = None,
          CompatibleArchitecture = None\<rparr>])
   \<and> list_layer_versions example_lambda_client
     \<lparr>name = Some ''layer1'', compatible_runtime = None, compatible_architecture = None\<rparr> () =
     (Inr [[(KStr ''Version'', JInt 1)], [(KStr ''Version'', JInt 2)]], (),
      [Paginate ''list_layer_versions''
         \<lparr>LayerName = Some ''layer1'', CompatibleRuntime = None,
          CompatibleArchitecture = None\<rparr>])
   \<and> execute_module example_lambda_client
     \<lparr>name = None, compatible_runtime = Some ''python3.7'', compatible_architecture = None\<rparr> () =
     (Exit_json False
       [[(KStr ''LayerName'', JStr ''layer1''), (KStr ''Version'', JInt 2)],
        [(KStr ''LayerName'', JStr ''layer2'')],
        [(KStr ''LayerName'', JStr ''layer3''), (KStr ''Version'', JInt 7)]], (),
      [Paginate ''list_layers''
         \<lparr>LayerName = None, CompatibleRuntime = Some ''python3.7'',
          CompatibleArchitecture = None\<rparr>])
   \<and> list_layers example_lambda_client
     \<lparr>name = None, compatible_runtime = Some ''python3.7'', compatible_architecture = None\<rparr> () =
     (Inr
       [[(KStr ''LayerName'', JStr ''layer1''), (KStr ''Version'', JInt 2)],
        [(KStr ''LayerName'', JStr ''layer2'')],
        [(KStr ''LayerName'', JStr ''layer3''), (KStr ''Version'', JInt 7)]], (),
      [Paginate ''list_layers''
         \<lparr>LayerName = None, CompatibleRuntime = Some ''python3.7'',
          CompatibleArchitecture = None\<rparr>])"
proof -
  let ?p1 = "\<lparr>name = Some ''layer1'', compatible_runtime = None,
              compatible_architecture = None\<rparr>"
  let ?p2 = "\<lparr>name = None, compatible_runtime = Some ''python3.7'',
              compatible_architecture = None\<rparr>"
  have r1: "execute_module example_lambda_client ?p1 () =
     (Exit_json False [[(KStr ''Version'', JInt 1)], [(KStr ''Version'', JInt 2)]], (),
      [Paginate ''list_layer_versions''
         \<lparr>LayerName = Some ''layer1'', CompatibleRuntime = None,
          CompatibleArchitecture = None\<rparr>])"
    by code_simp
  have r2: "execute_module example_lambda_client ?p2 () =
     (Exit_json False
       [[(KStr ''LayerName'', JStr ''layer1''), (KStr ''Version'', JInt 2)],
        [(KStr ''LayerName'', JStr ''layer2'')],
        [(KStr ''LayerName'', JStr ''layer3''), (KStr ''Version'', JInt 7)]], (),
      [Paginate ''list_layers''
         \<lparr>LayerName = None, CompatibleRuntime = Some ''python3.7'',
          CompatibleArchitecture = None\<rparr>])"
    by code_simp
  from layer_info_read_only [OF r1, THEN conjunct1]
  have l1: "list_layer_versions example_lambda_client ?p1 () =
     (Inr [[(KStr ''Version'', JInt 1)], [(KStr ''Version'', JInt 2)]], (),
      [Paginate ''list_layer_versions''
         \<lparr>LayerName = Some ''layer1'', CompatibleRuntime = None,
          CompatibleArchitecture = None\<rparr>])"
    by auto
  from layer_info_read_only [OF r2, THEN conjunct1]
  have l2: "list_layers example_lambda_client ?p2 () =
     (Inr
       [[(KStr ''LayerName'', JStr ''layer1''), (KStr ''Version'', JInt 2)],
        [(KStr ''LayerName'', JStr ''layer2'')],
        [(KStr ''LayerName'', JStr ''layer3''), (KStr ''Version'', JInt 7)]], (),
      [Paginate ''list_layers''
         \<lparr>LayerName = None, CompatibleRuntime = Some ''python3.7'',
          CompatibleArchitecture = None\<rparr>])"
    by auto
  from r1 l1 r2 l2 show ?thesis by (intro conjI)
qed

section \<open>ec2_eip: check mode issues no mutating call\<close>

lemma issues_only_return [intro!]: "issues_only P (return a)"
  by (simp add: issues_only_def return_def)

lemma issues_only_stop [intro!]: "issues_only P (stop h)"
  by (simp add: issues_only_def stop_def)

lemma issues_only_exit_json [intro!]: "issues_only P (exit_json r)"
  by (simp add: exit_json_def issues_only_stop)

lemma issues_only_fail_json [intro!]: "issues_only P (fail_json f)"
  by (simp add: fail_json_def issues_only_stop)

lemma issues_only_lift_exc [intro!]: "issues_only P (lift_exc v)"
  by (cases v) (simp_all add: lift_exc_def issues_only_stop issues_only_return)

lemma issues_only_api_call [intro!]: "P c \<Longrightarrow> issues_only P (api_call c f)"
  by (simp add: issues_only_def api_call_def split: prod.splits)

lemma issues_only_then_do [intro!]:
  assumes "issues_only P m" and "\<And>a. issues_only P (f a)"
  shows "issues_only P (then_do m f)"
  unfolding issues_only_def
proof
  fix w
  obtain out w1 cs1 where m: "m w = (out, w1, cs1)" by (cases "m w")
  from assms(1) m have c1: "list_all P cs1" by (auto simp: issues_only_def dest: spec [of _ w])
  show "list_all P (snd (snd (then_do m f w)))"
  proof (cases out)
    case (Return a)
    obtain o2 w2 cs2 where f: "f a w1 = (o2, w2, cs2)" by (cases "f a w1")
    from assms(2) [of a] f have "list_all P cs2"
      by (auto simp: issues_only_def dest: spec [of _ w1])
    with c1 m Return f show ?thesis by (simp add: then_do_def)
  next
    case (Stop h)
    with c1 m show ?thesis by (simp add: then_do_def)
  qed
qed

lemma issues_onlyD:
  "issues_only P m \<Longrightarrow> m w = (out, w', cs) \<Longrightarrow> list_all P cs"
  by (auto simp: issues_only_def dest: spec [of _ w])

lemma issues_only_sum [intro!]:
  "(\<And>e. issues_only P (f e)) \<Longrightarrow> (\<And>a. issues_only P (g a)) \<Longrightarrow>
     issues_only P (case r of Inl e \<Rightarrow> f e | Inr a \<Rightarrow> g a)"
  by (cases r) simp_all

lemma issues_only_option [intro!]:
  "issues_only P x \<Longrightarrow> (\<And>a. issues_only P (g a)) \<Longrightarrow>
     issues_only P (case r of None \<Rightarrow> x | Some a \<Rightarrow> g a)"
  by (cases r) simp_all

lemma issues_only_prod [intro!]:
  "(\<And>a b. issues_only P (f a b)) \<Longrightarrow> issues_only P (case r of (a, b) \<Rightarrow> f a b)"
  by (cases r) simp_all

lemma issues_only_if [intro!]:
  "(c \<Longrightarrow> issues_only P x) \<Longrightarrow> (\<not> c \<Longrightarrow> issues_only P y) \<Longrightarrow>
     issues_only P (if c then x else y)"
  by simp

lemma not_mutating_find_address:
  "issues_only (\<lambda>c. \<not> mutating c) (find_address ec2 module ip dev inst)"
  unfolding find_address_def Let_def
  by (intro issues_only_if issues_only_return issues_only_then_do issues_only_api_call
        issues_only_sum issues_only_fail_json)
     (auto split: list.splits)

lemma not_mutating_associated:
  "issues_only (\<lambda>c. \<not> mutating c) (address_is_associated_with_device ec2 module a d inst)"
  unfolding address_is_associated_with_device_def
  by (intro issues_only_then_do not_mutating_find_address issues_only_if issues_only_return)

lemma quiet_associate:
  "check_mode module \<Longrightarrow>
     issues_only (\<lambda>c. \<not> mutating c) (associate_ip_and_device ec2 module a p d allow inst)"
  unfolding associate_ip_and_device_def
  by (intro issues_only_then_do not_mutating_associated issues_only_if issues_only_return) simp

lemma quiet_disassociate:
  "check_mode module \<Longrightarrow>
     issues_only (\<lambda>c. \<not> mutating c) (disassociate_ip_and_device ec2 module a d inst)"
  unfolding disassociate_ip_and_device_def
  by (intro issues_only_then_do not_mutating_associated issues_only_if issues_only_return) simp

lemma quiet_release:
  "check_mode module \<Longrightarrow> issues_only (\<lambda>c. \<not> mutating c) (release_ip_address ec2 module a)"
  by (simp add: release_ip_address_def issues_only_return)

lemma not_mutating_reuse_scan:
  "issues_only (\<lambda>c. \<not> mutating c) (reuse_scan ec2 domain search)"
  unfolding reuse_scan_def
  by (intro issues_only_then_do issues_only_api_call issues_only_sum issues_only_fail_json
        issues_only_if issues_only_return issues_only_lift_exc)
     (auto split: list.splits)

lemma quiet_allocate:
  "issues_only (\<lambda>c. \<not> mutating c) (allocate_address ec2 domain reuse True tags' search pool)"
  unfolding allocate_address_def allocate_address_from_pool_def Let_def
  by (intro issues_only_then_do issues_only_if not_mutating_reuse_scan issues_only_return
        issues_only_option)
     simp_all

lemma not_mutating_find_device:
  "issues_only (\<lambda>c. \<not> mutating c) (find_device ec2 d inst)"
  unfolding find_device_def
  by (intro issues_only_then_do issues_only_if issues_only_api_call issues_only_sum
        issues_only_fail_json)
     (auto split: list.splits option.splits)


lemma quiet_ensure_present:
  "check_mode module \<Longrightarrow>
     issues_only (\<lambda>c. \<not> mutating c)
       (ensure_present ec2 module domain a p dev reuse allow True tags' inst)"
  unfolding ensure_present_def
  by (intro issues_only_if issues_only_return issues_only_then_do quiet_allocate
        issues_only_prod issues_only_option not_mutating_find_device issues_only_lift_exc
        issues_only_fail_json quiet_associate)

lemma quiet_ensure_absent:
  "check_mode module \<Longrightarrow>
     issues_only (\<lambda>c. \<not> mutating c) (ensure_absent ec2 module a dev inst)"
  unfolding ensure_absent_def
  by (intro issues_only_if issues_only_return issues_only_option quiet_release
        quiet_disassociate)

lemma quiet_main_present:
  "check_mode module \<Longrightarrow>
     issues_only (\<lambda>c. \<not> mutating c) (main_present ec2 module domain inst search a)"
  unfolding main_present_def
  by (intro issues_only_then_do issues_only_if issues_only_return issues_only_exit_json
        issues_only_lift_exc issues_only_prod issues_only_api_call issues_only_sum
        issues_only_fail_json)
     (simp_all add: quiet_ensure_present quiet_allocate)

lemma quiet_main_absent:
  "check_mode module \<Longrightarrow>
     issues_only (\<lambda>c. \<not> mutating c) (main_absent ec2 module inst a)"
  unfolding main_absent_def
  by (intro issues_only_then_do issues_only_if issues_only_exit_json quiet_ensure_absent
        quiet_release)

lemma not_mutating_generate_tag_dict:
  "issues_only (\<lambda>c. \<not> mutating c) (generate_tag_dict n v)"
  unfolding generate_tag_dict_def
  by (intro issues_only_if issues_only_return issues_only_fail_json)

lemma quiet_main:
  "check_mode module \<Longrightarrow> issues_only (\<lambda>c. \<not> mutating c) (main ec2 module)"
  unfolding main_def Let_def
  by (intro issues_only_sum issues_only_then_do issues_only_if not_mutating_generate_tag_dict
        not_mutating_find_address quiet_main_present quiet_main_absent)
     (auto split: eip_error.splits)

lemma then_do_halts:
  assumes "\<And>a w. \<exists>h. fst (f a w) = Stop h"
  shows "\<exists>h. fst (then_do m f w) = Stop h"
proof (cases "m w")
  case (fields out w1 cs1)
  show ?thesis
  proof (cases out)
    case (Return a)
    from assms [of a w1] obtain h where "fst (f a w1) = Stop h" by blast
    with fields Return show ?thesis by (auto simp: then_do_def split: prod.splits)
  next
    case (Stop h)
    with fields show ?thesis by (simp add: then_do_def)
  qed
qed

lemma main_present_halts: "\<exists>h. fst (main_present ec2 module domain inst search a w) = Stop h"
  unfolding main_present_def
  by (intro then_do_halts)
     (auto simp: exit_json_def fail_json_def stop_def split: sum.splits)

lemma main_absent_halts: "\<exists>h. fst (main_absent ec2 module inst a w) = Stop h"
  unfolding main_absent_def
  by (auto intro!: then_do_halts simp: exit_json_def stop_def)

lemma main_halts: "\<exists>h. fst (main ec2 module w) = Stop h"
proof (cases "check_is_instance (device_id module) (in_vpc module)")
  case (Inl e)
  then show ?thesis
    by (cases e) (simp add: main_def fail_json_def stop_def)
next
  case (Inr inst)
  then show ?thesis
    unfolding main_def Let_def
    by (auto intro!: then_do_halts main_present_halts main_absent_halts)
qed

lemma answered_append:
  "answered ec2 module (cs1 @ cs2) w =
     (answered ec2 module cs1 w \<and> answered ec2 module cs2 (replay ec2 (check_mode module) cs1 w))"
  by (induction cs1 arbitrary: w) simp_all

lemma verdictsD:
  assumes "verdicts ec2 module R m" and "m w = (out, w', cs)" and "answered ec2 module cs w"
  shows "(\<forall>a. out = Return a \<longrightarrow> R a) \<and> (\<forall>f. out \<noteq> Stop (FailJson f))
         \<and> (\<forall>e. out \<noteq> Stop (Raised e))"
  using assms
  by (auto simp: verdicts_def dest!: spec [of _ w] split: outcome.splits halt.splits)

lemma verdictsI:
  assumes "\<And>w out w' cs. m w = (out, w', cs) \<Longrightarrow> answered ec2 module cs w \<Longrightarrow>
     (\<forall>a. out = Return a \<longrightarrow> R a) \<and> (\<forall>f. out \<noteq> Stop (FailJson f)) \<and> (\<forall>e. out \<noteq> Stop (Raised e))"
  shows "verdicts ec2 module R m"
  unfolding verdicts_def
proof (intro allI impI)
  fix w
  assume a: "answered ec2 module (snd (snd (m w))) w"
  obtain out w' cs where m: "m w = (out, w', cs)" by (cases "m w")
  from assms [OF m] a m show "case fst (m w) of
           Return a \<Rightarrow> R a
         | Stop h \<Rightarrow> (case h of ExitJson r \<Rightarrow> True | FailJson f \<Rightarrow> False | Raised e \<Rightarrow> False)"
    by (auto split: outcome.splits halt.splits)
qed

lemma verdicts_return: "R a \<Longrightarrow> verdicts ec2 module R (return a)"
  by (simp add: verdicts_def return_def)

lemma verdicts_exit_json: "verdicts ec2 module R (exit_json r)"
  by (simp add: verdicts_def exit_json_def stop_def)

lemma verdicts_lift_exc: "v = Inr a \<Longrightarrow> R a \<Longrightarrow> verdicts ec2 module R (lift_exc v)"
  by (simp add: verdicts_def lift_exc_def return_def)

lemma verdicts_api_call:
  assumes "\<And>w. usable ec2 module c w \<Longrightarrow> R (fst (f w))"
  shows "verdicts ec2 module R (api_call c f)"
  unfolding verdicts_def
proof (intro allI impI)
  fix w
  assume "answered ec2 module (snd (snd (api_call c f w))) w"
  then have "usable ec2 module c w" by (cases "f w") (simp add: api_call_def)
  from assms [OF this] show "case fst (api_call c f w) of
           Return a \<Rightarrow> R a
         | Stop h \<Rightarrow> (case h of ExitJson r \<Rightarrow> True | FailJson f \<Rightarrow> False | Raised e \<Rightarrow> False)"
    by (cases "f w") (simp add: api_call_def)
qed

lemma verdicts_then_do:
  assumes "traced ec2 (check_mode module) m" and "verdicts ec2 module R' m"
    and "\<And>a. R' a \<Longrightarrow> verdicts ec2 module R (f a)"
  shows "verdicts ec2 module R (then_do m f)"
proof (rule verdictsI)
  fix w out w' cs
  assume run: "then_do m f w = (out, w', cs)" and a: "answered ec2 module cs w"
  from run show "(\<forall>a. out = Return a \<longrightarrow> R a) \<and> (\<forall>f. out \<noteq> Stop (FailJson f))
      \<and> (\<forall>e. out \<noteq> Stop (Raised e))"
  proof (cases rule: then_do_cases)
    case (stopped h)
    from verdictsD [OF assms(2) stopped(1) a] stopped(2) show ?thesis by simp
  next
    case (returned x w1 cs1 cs2)
    from a returned(3) have a1: "answered ec2 module cs1 w"
      and a2: "answered ec2 module cs2 (replay ec2 (check_mode module) cs1 w)"
      by (simp_all add: answered_append)
    from verdictsD [OF assms(2) returned(1) a1] have "R' x" by simp
    moreover from tracedD [OF assms(1) returned(1)] a2 have "answered ec2 module cs2 w1" by simp
    ultimately show ?thesis using verdictsD [OF assms(3) returned(2)] by blast
  qed
qed

lemma verdicts_weaken:
  "verdicts ec2 module R m \<Longrightarrow> (\<And>a. R a \<Longrightarrow> R' a) \<Longrightarrow> verdicts ec2 module R' m"
  by (auto simp: verdicts_def split: outcome.splits halt.splits)

lemma verdicts_if:
  "(c \<Longrightarrow> verdicts ec2 module R x) \<Longrightarrow> (\<not> c \<Longrightarrow> verdicts ec2 module R y) \<Longrightarrow>
     verdicts ec2 module R (if c then x else y)"
  by simp

lemma locator_kwargs: "\<not> reuse_listing (find_address_kwargs ip dev inst)"
  by (cases dev) (auto simp: reuse_listing_def find_address_kwargs_def truthy_def)

lemma verdicts_find_address:
  "verdicts ec2 module (identified module) (find_address ec2 module ip dev inst)"
proof -
  let ?kw = "find_address_kwargs ip dev inst"
  let ?R = "\<lambda>r :: ec2_error + address list. \<exists>as. r = Inr as \<and> length as \<le> 1
              \<and> (state module = Present \<longrightarrow>
                   list_all (\<lambda>a. map_of a ''PublicIp'' \<noteq> None
                              \<and> map_of a ''AllocationId'' \<noteq> None) as)"
  have q: "verdicts ec2 module ?R (api_call (DescribeAddresses ?kw) (describe_addresses ec2 ?kw))"
    by (rule verdicts_api_call)
       (auto simp: usable_def locator_kwargs split: sum.splits if_splits)
  have k: "verdicts ec2 module (identified module)
       (case r of
          Inl e \<Rightarrow> fail_json (Fail_aws e msg_describe_addresses)
        | Inr addresses \<Rightarrow>
            (case addresses of
               [] \<Rightarrow> if state module = Absent then exit_json no_change else return None
             | [a] \<Rightarrow> return (Some a)
             | _ \<Rightarrow> fail_json (Fail_ambiguous ?kw addresses)))" if "?R r" for r
  proof -
    from that obtain as where r: "r = Inr as" and l: "length as \<le> 1"
      and p: "state module = Present \<longrightarrow>
                   list_all (\<lambda>a. map_of a ''PublicIp'' \<noteq> None
                              \<and> map_of a ''AllocationId'' \<noteq> None) as" by blast
    show ?thesis
    proof (cases as)
      case Nil
      with r show ?thesis
        by (simp add: verdicts_exit_json verdicts_return identified_def)
    next
      case (Cons a as')
      with l have "as = [a]" by simp
      with r p show ?thesis by (simp add: verdicts_return identified_def)
    qed
  qed
  show ?thesis
    unfolding find_address_def Let_def
    by (intro verdicts_if verdicts_return
          verdicts_then_do [where R' = ?R, OF traced_api_call q k])
       (simp_all add: identified_def perform_def)
qed

lemma verdicts_associated:
  "verdicts ec2 module (\<lambda>_. True) (address_is_associated_with_device ec2 module a d inst)"
  unfolding address_is_associated_with_device_def
  by (intro verdicts_then_do [where R' = "identified module"] traced_find_address
        verdicts_find_address verdicts_if verdicts_return TrueI)

lemma verdicts_associate:
  "check_mode module \<Longrightarrow>
     verdicts ec2 module (\<lambda>_. True) (associate_ip_and_device ec2 module a p d allow inst)"
  unfolding associate_ip_and_device_def
  by (intro verdicts_then_do [where R' = "\<lambda>_. True"] traced_associated verdicts_associated
        verdicts_if verdicts_return TrueI) simp

lemma verdicts_disassociate:
  "check_mode module \<Longrightarrow>
     verdicts ec2 module (\<lambda>_. True) (disassociate_ip_and_device ec2 module a d inst)"
  unfolding disassociate_ip_and_device_def
  by (intro verdicts_then_do [where R' = "\<lambda>_. True"] traced_associated verdicts_associated
        verdicts_if verdicts_return TrueI) simp

lemma verdicts_release:
  "check_mode module \<Longrightarrow> verdicts ec2 module (\<lambda>_. True) (release_ip_address ec2 module a)"
  by (simp add: release_ip_address_def verdicts_return)


lemma then_do_return_fun: "then_do (return a) f = f a"
  by (rule ext) simp

lemma verdicts_reuse_scan:
  assumes "domain = ''vpc'' \<longleftrightarrow> in_vpc module"
  shows "verdicts ec2 module (identified module) (reuse_scan ec2 domain search)"
proof -
  let ?kw = "reuse_kwargs domain search"
  let ?R = "\<lambda>r :: ec2_error + address list. \<exists>as. r = Inr as
              \<and> (\<not> in_vpc module \<longrightarrow> list_all (\<lambda>a. map_of a ''InstanceId'' \<noteq> None) as)
              \<and> (state module = Present \<longrightarrow>
                   list_all (\<lambda>a. map_of a ''PublicIp'' \<noteq> None
                              \<and> map_of a ''AllocationId'' \<noteq> None) as)"
  have q: "verdicts ec2 module ?R (api_call (DescribeAddresses ?kw) (describe_addresses ec2 ?kw))"
    by (rule verdicts_api_call)
       (auto simp: usable_def reuse_listing_reuse_kwargs split: sum.splits if_splits)
  have k: "verdicts ec2 module (identified module)
       (case r of
            Inl e \<Rightarrow> fail_json (Fail_aws e msg_describe_addresses)
          | Inr all_addresses \<Rightarrow>
              then_do
                (if domain = ''vpc'' then return (unassociated_vpc all_addresses)
                 else lift_exc (unassociated_standard all_addresses))
                (\<lambda>unassociated_addresses.
                   case unassociated_addresses of
                     [] \<Rightarrow> return None
                   | a # _ \<Rightarrow> return (Some a)))" if "?R r" for r
  proof -
    from that obtain as where r: "r = Inr as"
      and i: "\<not> in_vpc module \<longrightarrow> list_all (\<lambda>a. map_of a ''InstanceId'' \<noteq> None) as"
      and p: "state module = Present \<longrightarrow>
                   list_all (\<lambda>a. map_of a ''PublicIp'' \<noteq> None
                              \<and> map_of a ''AllocationId'' \<noteq> None) as" by blast
    define P where "P = (\<lambda>a. if domain = ''vpc'' then \<not> truthy (map_of a ''AssociationId'')
                             else map_of a ''InstanceId'' = Some [])"
    have scan: "(if domain = ''vpc'' then return (unassociated_vpc as)
                 else lift_exc (unassociated_standard as)) = return (filter P as)"
      using i assms
      by (auto simp: P_def unassociated_vpc_def unassociated_standard_eq lift_exc_def)
    have id: "identified module (Some a)" if "a \<in> set as" for a
      using that p by (auto simp: identified_def list_all_iff)
    have "verdicts ec2 module (identified module)
        (case filter P as of [] \<Rightarrow> return None | a # _ \<Rightarrow> return (Some a))"
    proof (cases "filter P as")
      case Nil
      then show ?thesis by (simp add: verdicts_return identified_def)
    next
      case (Cons a rest)
      then have "a \<in> set (filter P as)" by simp
      then have "a \<in> set as" by simp
      from id [OF this] Cons show ?thesis by (simp add: verdicts_return)
    qed
    with r show ?thesis by (simp add: scan then_do_return_fun)
  qed
  show ?thesis
    unfolding reuse_scan_def
    by (rule verdicts_then_do [where R' = ?R, OF traced_api_call q k])
       (simp_all add: perform_def)
qed

lemma verdicts_allocate:
  assumes "domain_or_standard domain0 = ''vpc'' \<longleftrightarrow> in_vpc module"
  shows "verdicts ec2 module (\<lambda>r. identified module (fst r))
           (allocate_address ec2 domain0 reuse True tags' search pool)"
proof -
  have k: "verdicts ec2 module (\<lambda>r. identified module (fst r))
      (case reused of
         Some a \<Rightarrow> return (Some a, False)
       | None \<Rightarrow>
           if truthy pool then
             then_do
               (allocate_address_from_pool ec2 (Some (domain_or_standard domain0)) True
                  pool tags')
               (\<lambda>a. return (a, True))
           else if \<not> True then
                   then_do
                     (api_call
                        (AllocateAddress
                           \<lparr>alloc_Domain = Some (domain_or_standard domain0),
                            alloc_PublicIpv4Pool = None,
                            alloc_TagSpecifications = tag_specifications tags'\<rparr>)
                        (allocate_ip_address ec2
                           \<lparr>alloc_Domain = Some (domain_or_standard domain0),
                            alloc_PublicIpv4Pool = None,
                            alloc_TagSpecifications = tag_specifications tags'\<rparr>))
                     (\<lambda>r. case r of
                          Inl e \<Rightarrow> fail_json (Fail_aws e msg_allocate)
                        | Inr a \<Rightarrow> return (Some a, True))
                 else return (None, True))"
    if "identified module reused" for reused
    using that
    by (cases reused)
       (simp_all add: allocate_address_from_pool_def then_do_return_fun verdicts_return
          identified_def)
  show ?thesis
    unfolding allocate_address_def Let_def
    by (rule verdicts_then_do [where R' = "identified module", OF _ _ k])
       (auto intro: traced_reuse_scan traced_return verdicts_reuse_scan [OF assms]
          verdicts_return simp: identified_def)
qed

lemma verdicts_find_instance:
  "verdicts ec2 module
     (\<lambda>i. reuse_existing_ip_allowed module \<longrightarrow>
            (\<exists>d v. i = Some d \<and> map_of d ''VpcId'' = Some v \<and> (v = [] \<or> in_vpc module)))
     (find_device ec2 d True)"
proof -
  let ?R = "\<lambda>r :: ec2_error + reservation list. \<exists>rs. r = Inr rs \<and>
       (case rs of
                  [reservation] \<Rightarrow>
                    (case reservation of
                       None \<Rightarrow> False
                     | Some instances \<Rightarrow>
                         (case instances of
                            [i] \<Rightarrow>
                              (if reuse_existing_ip_allowed module
                               then (case map_of i ''VpcId'' of
                                       None \<Rightarrow> False
                                     | Some v \<Rightarrow> v = [] \<or> in_vpc module)
                               else True)
                          | _ \<Rightarrow> \<not> reuse_existing_ip_allowed module))
                | _ \<Rightarrow> \<not> reuse_existing_ip_allowed module)"
  have q: "verdicts ec2 module ?R
      (api_call (DescribeInstances [d]) (describe_instances ec2 [d]))"
    by (rule verdicts_api_call) (auto simp: usable_def split: sum.splits)
  have k: "verdicts ec2 module
     (\<lambda>i. reuse_existing_ip_allowed module \<longrightarrow>
            (\<exists>d v. i = Some d \<and> map_of d ''VpcId'' = Some v \<and> (v = [] \<or> in_vpc module)))
     (case r of
               Inl e \<Rightarrow> fail_json (Fail_aws e msg_instances)
             | Inr reservations \<Rightarrow>
                 (case reservations of
                    [reservation] \<Rightarrow>
                      (case reservation of
                         None \<Rightarrow> stop (Raised (KeyError ''Instances''))
                       | Some instances \<Rightarrow>
                           (case instances of [i] \<Rightarrow> return (Some i) | _ \<Rightarrow> return None))
                  | _ \<Rightarrow> return None))" if "?R r" for r
  proof -
    from that obtain rs where r: "r = Inr rs" and c: "case rs of
                  [reservation] \<Rightarrow>
                    (case reservation of
                       None \<Rightarrow> False
                     | Some instances \<Rightarrow>
                         (case instances of
                            [i] \<Rightarrow>
                              (if reuse_existing_ip_allowed module
                               then (case map_of i ''VpcId'' of
                                       None \<Rightarrow> False
                                     | Some v \<Rightarrow> v = [] \<or> in_vpc module)
                               else True)
                          | _ \<Rightarrow> \<not> reuse_existing_ip_allowed module))
                | _ \<Rightarrow> \<not> reuse_existing_ip_allowed module" by blast
    show ?thesis
    proof (cases rs)
      case Nil
      with r c show ?thesis by (simp add: verdicts_return)
    next
      case (Cons res rest)
      show ?thesis
      proof (cases rest)
        case more: (Cons x xs)
        with Cons r c show ?thesis by (simp add: verdicts_return)
      next
        case Nil
        show ?thesis
        proof (cases res)
          case None
          with Nil Cons c show ?thesis by simp
        next
          case (Some instances)
          show ?thesis
          proof (cases instances)
            case none: Nil
            with Some Nil Cons r c show ?thesis by (simp add: verdicts_return)
          next
            case one: (Cons i more)
            show ?thesis
            proof (cases more)
              case Nil': Nil
              with one Some Nil Cons r c show ?thesis
                by (auto simp: verdicts_return split: option.splits if_splits)
            next
              case (Cons y ys)
              with one Some Nil \<open>rs = res # rest\<close> r c show ?thesis
                by (simp add: verdicts_return)
            qed
          qed
        qed
      qed
    qed
  qed
  show ?thesis
    unfolding find_device_def if_True
    by (rule verdicts_then_do [where R' = ?R, OF traced_api_call q k])
       (simp_all add: perform_def)
qed

lemma verdicts_find_interface:
  "verdicts ec2 module (\<lambda>i. True) (find_device ec2 d False)"
proof -
  let ?R = "\<lambda>r :: ec2_error + pydict list. \<exists>is. r = Inr is"
  have q: "verdicts ec2 module ?R
      (api_call (DescribeNetworkInterfaces [d]) (describe_network_interfaces ec2 [d]))"
    by (rule verdicts_api_call) (auto simp: usable_def split: sum.splits)
  have k: "verdicts ec2 module (\<lambda>i. True)
     (case r of
               Inl e \<Rightarrow> fail_json (Fail_aws e msg_interfaces)
             | Inr interfaces \<Rightarrow>
                 (case interfaces of [i] \<Rightarrow> return (Some i) | _ \<Rightarrow> return None))" if "?R r" for r
    using that
    by (auto intro!: verdicts_return split: list.splits)
  show ?thesis
    unfolding find_device_def if_False
    by (rule verdicts_then_do [where R' = ?R, OF traced_api_call q k])
       (simp_all add: perform_def)
qed


lemma verdicts_ensure_present:
  assumes "check_mode module" and "identified module address0" and "state module = Present"
    and "domain = None \<longleftrightarrow> \<not> in_vpc module"
  shows "verdicts ec2 module (\<lambda>_. True)
           (ensure_present ec2 module domain address0 p
              dev (reuse_existing_ip_allowed module) allow True tags' inst)"
proof (cases "dict_truthy address0")
  case False
  then show ?thesis by (simp add: ensure_present_def verdicts_return)
next
  case True
  then obtain a where a: "address0 = Some a" by (cases address0) (auto simp: dict_truthy_def)
  with assms(2,3) obtain ip aid where
    sp: "subscript address0 ''PublicIp'' = Inr ip" "subscript address0 ''AllocationId'' = Inr aid"
    by (auto simp: identified_def subscript_def)
  let ?reuse = "reuse_existing_ip_allowed module"
  have tail: "verdicts ec2 module (\<lambda>_. True)
      (then_do (lift_exc (subscript address0 ''PublicIp''))
                    (\<lambda>ip. then_do (lift_exc (subscript address0 ''AllocationId''))
                       (\<lambda>aid. return
                          \<lparr>changed = changed1, res_public_ip = Some ip,
                           res_allocation_id = Some aid,
                           disassociated = None, released = None\<rparr>)))" for changed1
    by (simp add: sp lift_exc_def then_do_return_fun verdicts_return)
  have vpc: "verdicts ec2 module (\<lambda>_. True)
      (if ?reuse then
         then_do (lift_exc (subscript device ''VpcId''))
           (\<lambda>vpc_id.
              if vpc_id \<noteq> [] \<and> domain = None
              then fail_json (Fail_msg msg_in_vpc)
              else return ())
       else return ())"
    if "?reuse \<longrightarrow>
            (\<exists>d v. device = Some d \<and> map_of d ''VpcId'' = Some v \<and> (v = [] \<or> in_vpc module))"
    for device
    using that assms(4)
    by (auto simp: subscript_def lift_exc_def then_do_return_fun verdicts_return)
  have vpc_traced: "traced ec2 (check_mode module)
      (if ?reuse then
         then_do (lift_exc (subscript device ''VpcId''))
           (\<lambda>vpc_id.
              if vpc_id \<noteq> [] \<and> domain = None
              then fail_json (Fail_msg msg_in_vpc)
              else return ())
       else return ())" for device
    by (intro traced_rules)
  have as: "verdicts ec2 module (\<lambda>_. True)
        (then_do (associate_ip_and_device ec2 module address0 p d allow i)
           (\<lambda>c. return (changed0 \<or> c)))" for i d changed0
    by (intro verdicts_then_do [where R' = "\<lambda>_. True"] traced_associate
          verdicts_associate [OF assms(1)] verdicts_return TrueI)
  have dev: "verdicts ec2 module (\<lambda>_. True)
      (case dev of
                  None \<Rightarrow> return changed0
                | Some d \<Rightarrow>
                    if d = [] then return changed0
                    else if inst then
                      then_do (find_device ec2 d True)
                        (\<lambda>instance.
                           then_do
                             (if ?reuse then
                                then_do (lift_exc (subscript instance ''VpcId''))
                                  (\<lambda>vpc_id.
                                     if vpc_id \<noteq> [] \<and> domain = None
                                     then fail_json (Fail_msg msg_in_vpc)
                                     else return ())
                              else return ())
                             (\<lambda>_. then_do
                                (associate_ip_and_device ec2 module address0 p d allow True)
                                (\<lambda>c. return (changed0 \<or> c))))
                    else
                      then_do (find_device ec2 d False)
                        (\<lambda>instance.
                           then_do
                             (associate_ip_and_device ec2 module address0 p d allow False)
                             (\<lambda>c. return (changed0 \<or> c))))" for changed0
  proof (cases dev)
    case None
    then show ?thesis by (simp add: verdicts_return)
  next
    case (Some d)
    show ?thesis
      unfolding Some option.case
      by (intro verdicts_if verdicts_return TrueI
            verdicts_then_do [OF traced_find_device verdicts_find_instance]
            verdicts_then_do [where R' = "\<lambda>_. True", OF vpc_traced vpc as]
            verdicts_then_do [OF traced_find_device verdicts_find_interface as])
  qed
  have dev_traced: "traced ec2 (check_mode module)
      (case dev of
                  None \<Rightarrow> return changed0
                | Some d \<Rightarrow>
                    if d = [] then return changed0
                    else if inst then
                      then_do (find_device ec2 d True)
                        (\<lambda>instance.
                           then_do
                             (if ?reuse then
                                then_do (lift_exc (subscript instance ''VpcId''))
                                  (\<lambda>vpc_id.
                                     if vpc_id \<noteq> [] \<and> domain = None
                                     then fail_json (Fail_msg msg_in_vpc)
                                     else return ())
                              else return ())
                             (\<lambda>_. then_do
                                (associate_ip_and_device ec2 module address0 p d allow True)
                                (\<lambda>c. return (changed0 \<or> c))))
                    else
                      then_do (find_device ec2 d False)
                        (\<lambda>instance.
                           then_do
                             (associate_ip_and_device ec2 module address0 p d allow False)
                             (\<lambda>c. return (changed0 \<or> c))))" for changed0
    by (intro traced_rules traced_find_device traced_associate)
  have first: "verdicts ec2 module (\<lambda>r. fst r = address0)
      (if \<not> dict_truthy address0 then
             allocate_address ec2 domain (reuse_existing_ip_allowed module) True tags' None None
           else return (address0, False))"
    using True by (simp add: verdicts_return)
  have first_traced: "traced ec2 (check_mode module)
      (if \<not> dict_truthy address0 then
             allocate_address ec2 domain (reuse_existing_ip_allowed module) True tags' None None
           else return (address0, False))"
    by (intro traced_rules traced_allocate)
  have rest: "verdicts ec2 module (\<lambda>_. True)
      (case r of (address, changed0) \<Rightarrow>
             then_do
               (case dev of
                  None \<Rightarrow> return changed0
                | Some d \<Rightarrow>
                    if d = [] then return changed0
                    else if inst then
                      then_do (find_device ec2 d True)
                        (\<lambda>instance.
                           then_do
                             (if ?reuse then
                                then_do (lift_exc (subscript instance ''VpcId''))
                                  (\<lambda>vpc_id.
                                     if vpc_id \<noteq> [] \<and> domain = None
                                     then fail_json (Fail_msg msg_in_vpc)
                                     else return ())
                              else return ())
                             (\<lambda>_. then_do
                                (associate_ip_and_device ec2 module address p d allow True)
                                (\<lambda>c. return (changed0 \<or> c))))
                    else
                      then_do (find_device ec2 d False)
                        (\<lambda>instance.
                           then_do
                             (associate_ip_and_device ec2 module address p d allow False)
                             (\<lambda>c. return (changed0 \<or> c))))
               (\<lambda>changed1.
                  then_do (lift_exc (subscript address ''PublicIp''))
                    (\<lambda>ip. then_do (lift_exc (subscript address ''AllocationId''))
                       (\<lambda>aid. return
                          \<lparr>changed = changed1, res_public_ip = Some ip,
                           res_allocation_id = Some aid,
                           disassociated = None, released = None\<rparr>))))"
    if "fst r = address0" for r
  proof (cases r)
    case (Pair address changed0)
    with that have e: "address = address0" by simp
    show ?thesis
      unfolding Pair prod.case e
      by (rule verdicts_then_do [where R' = "\<lambda>_. True", OF dev_traced dev tail])
  qed
  from True assms(1) show ?thesis
    unfolding ensure_present_def
    by (intro verdicts_if verdicts_then_do [OF first_traced first rest]) simp_all
qed


lemma verdicts_ensure_absent:
  "check_mode module \<Longrightarrow>
     verdicts ec2 module (\<lambda>_. True) (ensure_absent ec2 module a dev inst)"
  unfolding ensure_absent_def
  by (cases dev)
     (auto intro!: verdicts_if verdicts_return verdicts_release verdicts_disassociate)

lemma verdicts_main_absent:
  assumes "check_mode module"
  shows "verdicts ec2 module (\<lambda>_. True) (main_absent ec2 module inst a)"
  unfolding main_absent_def
  by (intro verdicts_if verdicts_then_do [where R' = "\<lambda>_. True"] traced_ensure_absent
        traced_release verdicts_ensure_absent [OF assms] verdicts_release [OF assms]
        verdicts_exit_json)

lemma verdicts_tags:
  "verdicts ec2 module (\<lambda>_. True)
     (then_do
        (api_call (EnsureEc2Tags rid (tags module) (purge_tags module))
           (ensure_ec2_tags ec2 rid (tags module) (purge_tags module) (check_mode module)))
        (\<lambda>r. case r of
             Inl e \<Rightarrow> fail_json (Fail_aws_error e)
           | Inr tags_changed \<Rightarrow> exit_json (f tags_changed)))"
proof -
  let ?R = "\<lambda>r :: ec2_error + bool. \<exists>b. r = Inr b"
  have q: "verdicts ec2 module ?R
     (api_call (EnsureEc2Tags rid (tags module) (purge_tags module))
           (ensure_ec2_tags ec2 rid (tags module) (purge_tags module) (check_mode module)))"
    by (rule verdicts_api_call) (auto simp: usable_def split: sum.splits)
  have k: "verdicts ec2 module (\<lambda>_. True)
     (case r of
             Inl e \<Rightarrow> fail_json (Fail_aws_error e)
           | Inr tags_changed \<Rightarrow> exit_json (f tags_changed))" if "?R r" for r
    using that by (auto simp: verdicts_exit_json)
  show ?thesis
    by (rule verdicts_then_do [where R' = ?R, OF traced_api_call q k])
       (simp_all add: perform_def)
qed

lemma verdicts_main_present:
  assumes "check_mode module" and "identified module a" and "state module = Present"
  shows "verdicts ec2 module (\<lambda>_. True)
           (main_present ec2 module (if in_vpc module then Some ''vpc'' else None) inst search a)"
proof -
  define dom where "dom = (if in_vpc module then Some ''vpc'' else None)"
  have dn: "dom = None \<longleftrightarrow> \<not> in_vpc module" by (simp add: dom_def)
  have dv: "domain_or_standard dom = ''vpc'' \<longleftrightarrow> in_vpc module"
    by (simp add: dom_def domain_or_standard_def)
  have result: "verdicts ec2 module (\<lambda>_. True)
      (then_do (lift_exc (subscript x ''PublicIp''))
            (\<lambda>ip. then_do (lift_exc (subscript x ''AllocationId''))
               (\<lambda>aid. return
                  \<lparr>changed = c, res_public_ip = Some ip, res_allocation_id = Some aid,
                   disassociated = None, released = None\<rparr>)))"
    if "identified module x" "dict_truthy x" for x c
  proof -
    from that assms(3) obtain ip aid where
      "subscript x ''PublicIp'' = Inr ip" "subscript x ''AllocationId'' = Inr aid"
      by (cases x) (auto simp: identified_def subscript_def dict_truthy_def)
    then show ?thesis by (simp add: lift_exc_def then_do_return_fun verdicts_return)
  qed
  have alloc: "verdicts ec2 module (\<lambda>_. True)
      (case r of (address1, changed1) \<Rightarrow>
               if dict_truthy address1 then
                 then_do (lift_exc (subscript address1 ''PublicIp''))
                   (\<lambda>ip. then_do (lift_exc (subscript address1 ''AllocationId''))
                      (\<lambda>aid. return
                         \<lparr>changed = changed1, res_public_ip = Some ip,
                          res_allocation_id = Some aid,
                          disassociated = None, released = None\<rparr>))
               else
                 exit_json
                   \<lparr>changed = changed1, res_public_ip = None, res_allocation_id = None,
                    disassociated = None, released = None\<rparr>)"
    if "identified module (fst r)" for r
  proof (cases r)
    case (Pair address1 changed1)
    with that have "identified module address1" by simp
    then show ?thesis
      unfolding Pair prod.case
      by (intro verdicts_if result verdicts_exit_json)
  qed
  have block: "verdicts ec2 module (\<lambda>_. True)
       (if truthy (device_id module) then
          then_do
            (ensure_present ec2 module dom a (private_ip_address module)
               (device_id module) (reuse_existing_ip_allowed module)
               (allow_reassociation module) (check_mode module) (tags module) inst)
            (\<lambda>result.
               if res_allocation_id result = None then exit_json result else return result)
        else if dict_truthy a then
          then_do (lift_exc (subscript a ''PublicIp''))
            (\<lambda>ip. then_do (lift_exc (subscript a ''AllocationId''))
               (\<lambda>aid. return
                  \<lparr>changed = False, res_public_ip = Some ip, res_allocation_id = Some aid,
                   disassociated = None, released = None\<rparr>))
        else
          then_do
            (allocate_address ec2 dom (reuse_existing_ip_allowed module)
               (check_mode module) (tags module) search (public_ipv4_pool module))
            (\<lambda>(address1, changed1).
               if dict_truthy address1 then
                 then_do (lift_exc (subscript address1 ''PublicIp''))
                   (\<lambda>ip. then_do (lift_exc (subscript address1 ''AllocationId''))
                      (\<lambda>aid. return
                         \<lparr>changed = changed1, res_public_ip = Some ip,
                          res_allocation_id = Some aid,
                          disassociated = None, released = None\<rparr>))
               else
                 exit_json
                   \<lparr>changed = changed1, res_public_ip = None, res_allocation_id = None,
                    disassociated = None, released = None\<rparr>))"
    unfolding \<open>check_mode module\<close> [THEN eqTrueI]
    by (intro verdicts_if result assms(2)
          verdicts_then_do [where R' = "\<lambda>_. True", OF traced_ensure_present
            verdicts_ensure_present [OF assms(1,2,3) dn]]
          verdicts_then_do [OF traced_allocate verdicts_allocate [OF dv] alloc]
          verdicts_exit_json verdicts_return TrueI)
       simp_all
  have block_traced: "traced ec2 (check_mode module)
       (if truthy (device_id module) then
          then_do
            (ensure_present ec2 module dom a (private_ip_address module)
               (device_id module) (reuse_existing_ip_allowed module)
               (allow_reassociation module) (check_mode module) (tags module) inst)
            (\<lambda>result.
               if res_allocation_id result = None then exit_json result else return result)
        else if dict_truthy a then
          then_do (lift_exc (subscript a ''PublicIp''))
            (\<lambda>ip. then_do (lift_exc (subscript a ''AllocationId''))
               (\<lambda>aid. return
                  \<lparr>changed = False, res_public_ip = Some ip, res_allocation_id = Some aid,
                   disassociated = None, released = None\<rparr>))
        else
          then_do
            (allocate_address ec2 dom (reuse_existing_ip_allowed module)
               (check_mode module) (tags module) search (public_ipv4_pool module))
            (\<lambda>(address1, changed1).
               if dict_truthy address1 then
                 then_do (lift_exc (subscript address1 ''PublicIp''))
                   (\<lambda>ip. then_do (lift_exc (subscript address1 ''AllocationId''))
                      (\<lambda>aid. return
                         \<lparr>changed = changed1, res_public_ip = Some ip,
                          res_allocation_id = Some aid,
                          disassociated = None, released = None\<rparr>))
               else
                 exit_json
                   \<lparr>changed = changed1, res_public_ip = None, res_allocation_id = None,
                    disassociated = None, released = None\<rparr>))"
    by (intro traced_rules traced_ensure_present traced_allocate)
  show ?thesis
    unfolding main_present_def dom_def [symmetric]
    by (rule verdicts_then_do [where R' = "\<lambda>_. True", OF block_traced block verdicts_tags])
qed

lemma verdicts_main:
  assumes "check_mode module"
    and "check_is_instance (device_id module) (in_vpc module) = Inr inst"
    and "truthy (tag_name module) \<or> \<not> truthy (tag_value module)"
  shows "verdicts ec2 module (\<lambda>_. True) (main ec2 module)"
proof -
  have tags: "verdicts ec2 module (\<lambda>_. True)
      (generate_tag_dict (tag_name module) (tag_value module))"
    using assms(3)
    by (cases "truthy (tag_name module)"; cases "truthy (tag_value module)")
       (simp_all add: generate_tag_dict_def verdicts_return)
  have body: "verdicts ec2 module (\<lambda>_. True)
      (if state module = Present
       then main_present ec2 module (if in_vpc module then Some ''vpc'' else None) inst
              search_tags address
       else main_absent ec2 module inst address)"
    if "identified module address" for search_tags address
    using that
    by (intro verdicts_if verdicts_main_present [OF assms(1)] verdicts_main_absent [OF assms(1)])
  have find: "verdicts ec2 module (identified module)
      (if truthy (device_id module)
                     then find_address ec2 module (public_ip module) (device_id module) inst
                     else find_address ec2 module (public_ip module) None True)"
    by (intro verdicts_if verdicts_find_address)
  have find_traced: "traced ec2 (check_mode module)
      (if truthy (device_id module)
                     then find_address ec2 module (public_ip module) (device_id module) inst
                     else find_address ec2 module (public_ip module) None True)"
    by (intro traced_rules traced_find_address)
  show ?thesis
    unfolding main_def Let_def assms(2) sum.case
    by (intro verdicts_then_do [where R' = "\<lambda>_. True", OF traced_generate_tag_dict tags]
          verdicts_then_do [OF find_traced find body])
qed

text \<open>
  C4, amended. An invocation in check mode issues no allocate, associate, disassociate or
  release call: what remains are the describe queries and the tag reconciliation, which is
  told the check mode. It always ends, through \<open>exit_json\<close>, through \<open>fail_json\<close> or through
  an exception. It ends through \<open>exit_json\<close>, whose result carries the \<open>changed\<close> verdict,
  whenever the arguments pass validation (the device id is no \<open>eni-\<close> id without \<open>in_vpc\<close>,
  and there is no \<open>tag_value\<close> without a \<open>tag_name\<close>) and every call it issued was answered
  usably, each in the state that the calls before it had left.
\<close>

theorem dry_run_issues_no_mutation:
  assumes "check_mode module" and "main ec2 module w = (out, w', cs)"
  shows "filter mutating cs = [] \<and> (\<exists>h. out = Stop h)
       \<and> ((\<exists>inst. check_is_instance (device_id module) (in_vpc module) = Inr inst)
            \<and> (truthy (tag_name module) \<or> \<not> truthy (tag_value module))
            \<and> answered ec2 module cs w \<longrightarrow>
            (\<exists>r. out = Stop (ExitJson r)))"
proof -
  from issues_onlyD [OF quiet_main [OF assms(1)] assms(2)]
  have A: "filter mutating cs = []" by (simp add: list_all_iff filter_empty_conv)
  from main_halts [of ec2 "module" w] assms(2) obtain h where h: "out = Stop h" by auto
  have C: "\<exists>r. out = Stop (ExitJson r)"
    if i: "check_is_instance (device_id module) (in_vpc module) = Inr inst"
      and t: "truthy (tag_name module) \<or> \<not> truthy (tag_value module)"
      and a: "answered ec2 module cs w" for inst
    using verdictsD [OF verdicts_main [OF assms(1) i t] assms(2) a] h
    by (cases h) simp_all
  from A h C show ?thesis by blast
qed

text \<open>
  The claim C4 as stated fails: a run in check mode can end without a verdict. An \<open>eni-\<close>
  device id without \<open>in_vpc\<close> and a query that matches two addresses end in \<open>fail_json\<close>,
  as the module intends; an address of the standard domain, which has no \<open>AllocationId\<close>,
  ends in a \<open>KeyError\<close>.
\<close>

theorem dry_run_issues_no_mutation_counterexample:
  "check_mode (default_params\<lparr>device_id := Some ''eni-c8ad70f3'', check_mode := True\<rparr>)
   \<and> main cloud_client
         (default_params\<lparr>device_id := Some ''eni-c8ad70f3'', check_mode := True\<rparr>)
         example_cloud =
       (Stop (FailJson (Fail_msg ''If you are specifying an ENI, in_vpc must be true'')),
        example_cloud, [])
   \<and> check_mode (default_params\<lparr>device_id := Some ''i-7'', check_mode := True\<rparr>)
   \<and> main cloud_client (default_params\<lparr>device_id := Some ''i-7'', check_mode := True\<rparr>)
         ambiguous_cloud =
       (Stop (FailJson (Fail_ambiguous
          \<lparr>PublicIps = None, Filters = Some [(''instance-id'', [''i-7''])]\<rparr>
          (cloud_addresses ambiguous_cloud))),
        ambiguous_cloud,
        [DescribeAddresses \<lparr>PublicIps = None, Filters = Some [(''instance-id'', [''i-7''])]\<rparr>])
   \<and> check_mode (default_params\<lparr>public_ip := Some ''198.51.100.2'', check_mode := True\<rparr>)
   \<and> main cloud_client
         (default_params\<lparr>public_ip := Some ''198.51.100.2'', check_mode := True\<rparr>)
         standard_cloud =
       (Stop (Raised (KeyError ''AllocationId'')), standard_cloud,
        [DescribeAddresses \<lparr>PublicIps = Some [''198.51.100.2''], Filters = None\<rparr>])"
  by code_simp

theorem dry_run_issues_no_mutation_witness:
  "check_mode (default_params\<lparr>device_id := Some ''i-2'', in_vpc := True, check_mode := True\<rparr>)
   \<and> check_is_instance (Some ''i-2'') True = Inr True
   \<and> answered cloud_client
         (default_params\<lparr>device_id := Some ''i-2'', in_vpc := True, check_mode := True\<rparr>)
         [DescribeAddresses \<lparr>PublicIps = None, Filters = Some [(''instance-id'', [''i-2''])]\<rparr>]
         example_cloud
   \<and> main cloud_client
         (default_params\<lparr>device_id := Some ''i-2'', in_vpc := True, check_mode := True\<rparr>)
         example_cloud =
       (Stop (ExitJson \<lparr>changed = True, res_public_ip = None, res_allocation_id = None,
                disassociated = None, released = None\<rparr>),
        example_cloud,
        [DescribeAddresses \<lparr>PublicIps = None, Filters = Some [(''instance-id'', [''i-2''])]\<rparr>])
   \<and> filter mutating
         [DescribeAddresses \<lparr>PublicIps = None, Filters = Some [(''instance-id'', [''i-2''])]\<rparr>]
       = []
   \<and> check_mode (default_params\<lparr>state := Absent, public_ip := Some ''93.184.216.119'',
         device_id := Some ''i-1212f003'', release_on_disassociation := True,
         check_mode := True\<rparr>)
   \<and> answered cloud_client
         (default_params\<lparr>state := Absent, public_ip := Some ''93.184.216.119'',
            device_id := Some ''i-1212f003'', release_on_disassociation := True,
            check_mode := True\<rparr>)
         [DescribeAddresses \<lparr>PublicIps = Some [''93.184.216.119''], Filters = None\<rparr>,
          DescribeAddresses \<lparr>PublicIps = Some [''93.184.216.119''], Filters = None\<rparr>]
         example_cloud
   \<and> main cloud_client
         (default_params\<lparr>state := Absent, public_ip := Some ''93.184.216.119'',
            device_id := Some ''i-1212f003'', release_on_disassociation := True,
            check_mode := True\<rparr>)
         example_cloud =
       (Stop (ExitJson \<lparr>changed = True, res_public_ip = None, res_allocation_id = None,
                disassociated = Some True, released = Some True\<rparr>),
        example_cloud,
        [DescribeAddresses \<lparr>PublicIps = Some [''93.184.216.119''], Filters = None\<rparr>,
         DescribeAddresses \<lparr>PublicIps = Some [''93.184.216.119''], Filters = None\<rparr>])
   \<and> filter mutating
         [DescribeAddresses \<lparr>PublicIps = Some [''93.184.216.119''], Filters = None\<rparr>,
          DescribeAddresses \<lparr>PublicIps = Some [''93.184.216.119''], Filters = None\<rparr>]
       = []
   \<and> answered cloud_client
         (default_params\<lparr>public_ip := Some ''93.184.216.119'', device_id := Some ''i-2'',
            in_vpc := True, reuse_existing_ip_allowed := True, allow_reassociation := True,
            check_mode := True\<rparr>)
         [DescribeAddresses \<lparr>PublicIps = Some [''93.184.216.119''], Filters = None\<rparr>,
          DescribeInstances [''i-2''],
          DescribeAddresses \<lparr>PublicIps = Some [''93.184.216.119''], Filters = None\<rparr>,
          EnsureEc2Tags ''eipalloc-1'' None True]
         example_cloud
   \<and> main cloud_client
         (default_params\<lparr>public_ip := Some ''93.184.216.119'', device_id := Some ''i-2'',
            in_vpc := True, reuse_existing_ip_allowed := True, allow_reassociation := True,
            check_mode := True\<rparr>)
         example_cloud =
       (Stop (ExitJson \<lparr>changed = True, res_public_ip = Some ''93.184.216.119'',
                res_allocation_id = Some ''eipalloc-1'', disassociated = None,
                released = None\<rparr>),
        example_cloud,
        [DescribeAddresses \<lparr>PublicIps = Some [''93.184.216.119''], Filters = None\<rparr>,
         DescribeInstances [''i-2''],
         DescribeAddresses \<lparr>PublicIps = Some [''93.184.216.119''], Filters = None\<rparr>,
         EnsureEc2Tags ''eipalloc-1'' None True])"
proof -
  let ?p = "default_params\<lparr>device_id := Some ''i-2'', in_vpc := True, check_mode := True\<rparr>"
  let ?q = "default_params\<lparr>state := Absent, public_ip := Some ''93.184.216.119'',
         device_id := Some ''i-1212f003'', release_on_disassociation := True,
         check_mode := True\<rparr>"
  let ?u = "default_params\<lparr>public_ip := Some ''93.184.216.119'', device_id := Some ''i-2'',
            in_vpc := True, reuse_existing_ip_allowed := True, allow_reassociation := True,
            check_mode := True\<rparr>"
  let ?cp = "[DescribeAddresses \<lparr>PublicIps = None, Filters = Some [(''instance-id'', [''i-2''])]\<rparr>]"
  let ?cq = "[DescribeAddresses \<lparr>PublicIps = Some [''93.184.216.119''], Filters = None\<rparr>,
          DescribeAddresses \<lparr>PublicIps = Some [''93.184.216.119''], Filters = None\<rparr>]"
  let ?cu = "[DescribeAddresses \<lparr>PublicIps = Some [''93.184.216.119''], Filters = None\<rparr>,
          DescribeInstances [''i-2''],
          DescribeAddresses \<lparr>PublicIps = Some [''93.184.216.119''], Filters = None\<rparr>,
          EnsureEc2Tags ''eipalloc-1'' None True]"
  have c: "check_mode ?p" and c2: "check_mode ?q" and c3: "check_mode ?u"
    by (simp_all add: default_params_def)
  have i: "check_is_instance (Some ''i-2'') True = Inr True" by code_simp
  have ip: "\<exists>inst. check_is_instance (device_id ?p) (in_vpc ?p) = Inr inst"
    and iq: "\<exists>inst. check_is_instance (device_id ?q) (in_vpc ?q) = Inr inst"
    and iu: "\<exists>inst. check_is_instance (device_id ?u) (in_vpc ?u) = Inr inst"
    by (auto simp: default_params_def check_is_instance_def truthy_def str_of_def
          startswith_Cons startswith_Nil)
  have tp: "truthy (tag_name ?p) \<or> \<not> truthy (tag_value ?p)"
    and tq: "truthy (tag_name ?q) \<or> \<not> truthy (tag_value ?q)"
    and tu: "truthy (tag_name ?u) \<or> \<not> truthy (tag_value ?u)"
    by (simp_all add: default_params_def truthy_def)
  have ap: "answered cloud_client ?p ?cp example_cloud" by code_simp
  have aq: "answered cloud_client ?q ?cq example_cloud" by code_simp
  have au: "answered cloud_client ?u ?cu example_cloud" by code_simp
  have r: "main cloud_client ?p example_cloud =
       (Stop (ExitJson \<lparr>changed = True, res_public_ip = None, res_allocation_id = None,
                disassociated = None, released = None\<rparr>), example_cloud, ?cp)"
    by code_simp
  have r2: "main cloud_client ?q example_cloud =
       (Stop (ExitJson \<lparr>changed = True, res_public_ip = None, res_allocation_id = None,
                disassociated = Some True, released = Some True\<rparr>), example_cloud, ?cq)"
    by code_simp
  have r3: "main cloud_client ?u example_cloud =
       (Stop (ExitJson \<lparr>changed = True, res_public_ip = Some ''93.184.216.119'',
                res_allocation_id = Some ''eipalloc-1'', disassociated = None,
                released = None\<rparr>), example_cloud, ?cu)"
    by code_simp
  note t1 = dry_run_issues_no_mutation [OF c r]
  note t2 = dry_run_issues_no_mutation [OF c2 r2]
  note t3 = dry_run_issues_no_mutation [OF c3 r3]
  from t1 ip tp ap have "\<exists>x. Stop (ExitJson \<lparr>changed = True, res_public_ip = None,
      res_allocation_id = None, disassociated = None, released = None\<rparr>) = Stop (ExitJson x)"
    by blast
  from t2 iq tq aq have "\<exists>x. Stop (ExitJson \<lparr>changed = True, res_public_ip = None,
      res_allocation_id = None, disassociated = Some True, released = Some True\<rparr>) =
      Stop (ExitJson x)"
    by blast
  from t3 iu tu au have "\<exists>x. Stop (ExitJson \<lparr>changed = True,
      res_public_ip = Some ''93.184.216.119'', res_allocation_id = Some ''eipalloc-1'',
      disassociated = None, released = None\<rparr>) = Stop (ExitJson x)"
    by blast
  from c i ap r t1 [THEN conjunct1] c2 aq r2 t2 [THEN conjunct1] au r3
  show ?thesis by (intro conjI)
qed

section \<open>ec2_eip: absent without a device and without a public IP\<close>

lemma then_do_Return:
  "m w = (Return a, w1, []) \<Longrightarrow> then_do m f w = f a w1"
  by (simp add: then_do_def split: prod.splits)

text \<open>
  C2. With \<open>state=absent\<close>, no device id and no public IP, the locator returns \<open>None\<close>
  without a query, and \<open>main\<close> hands \<open>None\<close> to \<open>release_ip_address\<close>: outside check mode
  the subscript \<open>address["AllocationId"]\<close> raises a \<open>TypeError\<close>, in check mode the result
  reports \<open>released\<close> and \<open>changed\<close> true although there is no address. The claim expects
  \<open>released\<close> and \<open>changed\<close> false here, which is what \<open>ensure_absent\<close> returns for an
  address that is \<open>None\<close>; \<open>main\<close> does not go through it when there is no device.
\<close>

theorem absent_without_criteria:
  assumes "state module = Absent" and "\<not> truthy (device_id module)"
    and "public_ip module = None"
    and "truthy (tag_name module) \<or> \<not> truthy (tag_value module)"
  shows "main ec2 module w =
     ((if check_mode module
       then Stop (ExitJson \<lparr>changed = True, res_public_ip = None, res_allocation_id = None,
                    disassociated = Some False, released = Some True\<rparr>)
       else Stop (Raised (TypeError ''NoneType object is not subscriptable''))),
      w, [])
   \<and> ensure_absent ec2 module None (device_id module) False w = (Return False, w, [])"
proof -
  from assms(2) have i: "check_is_instance (device_id module) (in_vpc module) = Inr False"
    by (simp add: check_is_instance_def)
  have "\<exists>st. generate_tag_dict (tag_name module) (tag_value module) w = (Return st, w, [])"
    using assms(4)
    by (cases "truthy (tag_name module)"; cases "truthy (tag_value module)")
       (simp_all add: generate_tag_dict_def return_def)
  then obtain st where
    g: "generate_tag_dict (tag_name module) (tag_value module) w = (Return st, w, [])"
    by blast
  have f: "find_address ec2 module None None True = return None"
    by (rule ext) (simp add: find_address_def find_address_kwargs_def truthy_def return_def)
  have r: "release_ip_address ec2 module None w =
     (if check_mode module then (Return True, w, [])
      else (Stop (Raised (TypeError ''NoneType object is not subscriptable'')), w, []))"
    by (simp add: release_ip_address_def subscript_def step_simps)
  have "main_absent ec2 module False None w =
     ((if check_mode module
       then Stop (ExitJson \<lparr>changed = True, res_public_ip = None, res_allocation_id = None,
                    disassociated = Some False, released = Some True\<rparr>)
       else Stop (Raised (TypeError ''NoneType object is not subscriptable''))),
      w, [])"
    using assms(2) r by (simp add: main_absent_def then_do_def exit_json_def stop_def)
  with assms(1,2,3) i f have "main ec2 module w =
     ((if check_mode module
       then Stop (ExitJson \<lparr>changed = True, res_public_ip = None, res_allocation_id = None,
                    disassociated = Some False, released = Some True\<rparr>)
       else Stop (Raised (TypeError ''NoneType object is not subscriptable''))),
      w, [])"
    by (simp add: main_def
          then_do_Return [of "generate_tag_dict (tag_name module) (tag_value module)", OF g])
  moreover have "ensure_absent ec2 module None (device_id module) False w = (Return False, w, [])"
    by (simp add: ensure_absent_def dict_truthy_def return_def)
  ultimately show ?thesis by simp
qed

theorem absent_without_criteria_witness:
  "state (default_params\<lparr>state := Absent\<rparr>) = Absent
   \<and> \<not> truthy (device_id (default_params\<lparr>state := Absent\<rparr>))
   \<and> public_ip (default_params\<lparr>state := Absent\<rparr>) = None
   \<and> \<not> truthy (tag_value (default_params\<lparr>state := Absent\<rparr>))
   \<and> main cloud_client (default_params\<lparr>state := Absent\<rparr>) example_cloud =
       (Stop (Raised (TypeError ''NoneType object is not subscriptable'')), example_cloud, [])
   \<and> ensure_absent cloud_client (default_params\<lparr>state := Absent\<rparr>) None None False
         example_cloud = (Return False, example_cloud, [])
   \<and> main cloud_client (default_params\<lparr>state := Absent, check_mode := True\<rparr>) example_cloud =
       (Stop (ExitJson \<lparr>changed = True, res_public_ip = None, res_allocation_id = None,
                disassociated = Some False, released = Some True\<rparr>), example_cloud, [])"
proof -
  let ?p = "default_params\<lparr>state := Absent\<rparr>"
  let ?q = "default_params\<lparr>state := Absent, check_mode := True\<rparr>"
  have s: "state ?p = Absent" and d: "\<not> truthy (device_id ?p)" and i: "public_ip ?p = None"
    and t: "\<not> truthy (tag_value ?p)"
    by (simp_all add: default_params_def truthy_def)
  have s': "state ?q = Absent" and d': "\<not> truthy (device_id ?q)" and i': "public_ip ?q = None"
    and t': "\<not> truthy (tag_value ?q)"
    by (simp_all add: default_params_def truthy_def)
  have c: "\<not> check_mode ?p" and c': "check_mode ?q" by (simp_all add: default_params_def)
  from absent_without_criteria [OF s d i disjI2 [OF t], of cloud_client example_cloud] c
  have A: "main cloud_client ?p example_cloud =
       (Stop (Raised (TypeError ''NoneType object is not subscriptable'')), example_cloud, [])"
    and B: "ensure_absent cloud_client ?p None None False example_cloud =
       (Return False, example_cloud, [])"
    by (simp_all add: default_params_def)
  from absent_without_criteria [OF s' d' i' disjI2 [OF t'], of cloud_client example_cloud] c'
  have C: "main cloud_client ?q example_cloud =
       (Stop (ExitJson \<lparr>changed = True, res_public_ip = None, res_allocation_id = None,
                disassociated = Some False, released = Some True\<rparr>), example_cloud, [])"
    by simp
  from s d i t A B C show ?thesis by (intro conjI)
qed

section \<open>ec2_eip: when an address is released\<close>

lemma ends_onlyD:
  assumes "ends_only R Q m" and "m w = (out, w', cs)"
  shows "(\<forall>a. out = Return a \<longrightarrow> R a) \<and> (\<forall>r. out = Stop (ExitJson r) \<longrightarrow> Q r)"
  using assms by (auto simp: ends_only_def dest!: spec [of _ w])

lemma ends_only_return: "R a \<Longrightarrow> ends_only R Q (return a)"
  by (simp add: ends_only_def return_def)

lemma ends_only_exit_json: "Q r \<Longrightarrow> ends_only R Q (exit_json r)"
  by (simp add: ends_only_def exit_json_def stop_def)

lemma ends_only_fail_json: "ends_only R Q (fail_json f)"
  by (simp add: ends_only_def fail_json_def stop_def)

lemma ends_only_lift_exc: "(\<And>a. v = Inr a \<Longrightarrow> R a) \<Longrightarrow> ends_only R Q (lift_exc v)"
  by (cases v) (simp_all add: ends_only_def lift_exc_def stop_def return_def)

lemma ends_only_api_call: "(\<And>r. R r) \<Longrightarrow> ends_only R Q (api_call c f)"
  by (simp add: ends_only_def api_call_def split: prod.splits)

lemma ends_only_then_do:
  assumes "ends_only R' Q m" and "\<And>a. R' a \<Longrightarrow> ends_only R Q (f a)"
  shows "ends_only R Q (then_do m f)"
  unfolding ends_only_def
proof
  fix w
  obtain out w1 cs1 where m: "m w = (out, w1, cs1)" by (cases "m w")
  show "case fst (then_do m f w) of
          Return a \<Rightarrow> R a
        | Stop h \<Rightarrow> (case h of ExitJson r \<Rightarrow> Q r | FailJson f \<Rightarrow> True | Raised e \<Rightarrow> True)"
  proof (cases out)
    case (Return a)
    with ends_onlyD [OF assms(1) m] have "R' a" by simp
    obtain o2 w2 cs2 where f: "f a w1 = (o2, w2, cs2)" by (cases "f a w1")
    from assms(2) [OF \<open>R' a\<close>] have
      "case fst (f a w1) of
          Return a \<Rightarrow> R a
        | Stop h \<Rightarrow> (case h of ExitJson r \<Rightarrow> Q r | FailJson f \<Rightarrow> True | Raised e \<Rightarrow> True)"
      by (simp add: ends_only_def)
    with m Return f show ?thesis by (simp add: then_do_def)
  next
    case (Stop h)
    with ends_onlyD [OF assms(1) m] m show ?thesis
      by (cases h) (simp_all add: then_do_def)
  qed
qed

lemma ends_only_weaken:
  "ends_only R Q m \<Longrightarrow> (\<And>a. R a \<Longrightarrow> R' a) \<Longrightarrow> (\<And>r. Q r \<Longrightarrow> Q' r) \<Longrightarrow> ends_only R' Q' m"
  by (auto simp: ends_only_def split: outcome.splits halt.splits)

lemma ends_only_if:
  "(c \<Longrightarrow> ends_only R Q x) \<Longrightarrow> (\<not> c \<Longrightarrow> ends_only R Q y) \<Longrightarrow>
     ends_only R Q (if c then x else y)"
  by simp

lemma ends_only_sum:
  "(\<And>e. ends_only R Q (f e)) \<Longrightarrow> (\<And>a. ends_only R Q (g a)) \<Longrightarrow>
     ends_only R Q (case r of Inl e \<Rightarrow> f e | Inr a \<Rightarrow> g a)"
  by (cases r) simp_all

lemma ends_only_option:
  "ends_only R Q x \<Longrightarrow> (\<And>a. ends_only R Q (g a)) \<Longrightarrow>
     ends_only R Q (case r of None \<Rightarrow> x | Some a \<Rightarrow> g a)"
  by (cases r) simp_all

lemma ends_only_prod:
  "(\<And>a b. ends_only R Q (f a b)) \<Longrightarrow> ends_only R Q (case r of (a, b) \<Rightarrow> f a b)"
  by (cases r) simp_all

lemmas ends_only_rules =
  ends_only_return ends_only_exit_json ends_only_fail_json ends_only_lift_exc
  ends_only_api_call ends_only_if ends_only_sum ends_only_option ends_only_prod

text \<open>The only \<open>exit_json\<close> of the locator reports nothing released.\<close>

lemma find_address_ends:
  "ends_only (\<lambda>_. True) (\<lambda>r. released r = Some False)
     (find_address ec2 module ip dev inst)"
  unfolding find_address_def Let_def
  by (intro ends_only_if ends_only_return ends_only_then_do [where R' = "\<lambda>_. True"]
        ends_only_api_call ends_only_sum ends_only_fail_json TrueI)
     (auto split: list.splits intro!: ends_only_rules simp: no_change_def)

lemma associated_ends:
  "ends_only (\<lambda>_. True) (\<lambda>r. released r = Some False)
     (address_is_associated_with_device ec2 module a d inst)"
  unfolding address_is_associated_with_device_def
  by (intro ends_only_then_do [where R' = "\<lambda>_. True"] find_address_ends ends_only_if
        ends_only_return TrueI)

lemma associate_ends:
  "ends_only (\<lambda>_. True) (\<lambda>r. released r = Some False)
     (associate_ip_and_device ec2 module a p d allow inst)"
  unfolding associate_ip_and_device_def Let_def
  by (intro ends_only_then_do [where R' = "\<lambda>_. True"] associated_ends ends_only_if
        ends_only_return ends_only_api_call ends_only_sum ends_only_fail_json TrueI)

lemma disassociate_ends:
  "ends_only (\<lambda>_. True) (\<lambda>r. released r = Some False)
     (disassociate_ip_and_device ec2 module a d inst)"
  unfolding disassociate_ip_and_device_def Let_def
  by (intro ends_only_then_do [where R' = "\<lambda>_. True"] associated_ends ends_only_if
        ends_only_return ends_only_api_call ends_only_sum ends_only_fail_json TrueI)

lemma release_ends:
  "ends_only (\<lambda>_. True) Q (release_ip_address ec2 module a)"
  unfolding release_ip_address_def
  by (intro ends_only_then_do [where R' = "\<lambda>_. True"] ends_only_if
        ends_only_return ends_only_api_call ends_only_sum ends_only_fail_json
        ends_only_lift_exc TrueI)

lemma reuse_scan_ends: "ends_only (\<lambda>_. True) Q (reuse_scan ec2 domain search)"
  unfolding reuse_scan_def
  by (intro ends_only_then_do [where R' = "\<lambda>_. True"] ends_only_if
        ends_only_return ends_only_api_call ends_only_sum ends_only_fail_json
        ends_only_lift_exc TrueI)
     (auto split: list.splits intro!: ends_only_return)

lemma allocate_ends:
  "ends_only (\<lambda>_. True) Q (allocate_address ec2 domain reuse check tags' search pool)"
  unfolding allocate_address_def allocate_address_from_pool_def Let_def
  by (intro ends_only_then_do [where R' = "\<lambda>_. True"] ends_only_if reuse_scan_ends
        ends_only_return ends_only_api_call ends_only_sum ends_only_fail_json
        ends_only_option TrueI)

lemma find_device_ends: "ends_only (\<lambda>_. True) Q (find_device ec2 d inst)"
  unfolding find_device_def
  by (intro ends_only_then_do [where R' = "\<lambda>_. True"] ends_only_if
        ends_only_api_call ends_only_sum ends_only_fail_json TrueI)
     (auto split: list.splits option.splits simp: ends_only_def stop_def return_def)


lemma ensure_present_ends:
  "ends_only (\<lambda>r. released r = None) (\<lambda>r. released r = Some False)
     (ensure_present ec2 module domain a p dev reuse allow check tags' inst)"
  unfolding ensure_present_def
  by (intro ends_only_if ends_only_return ends_only_prod
        ends_only_then_do [where R' = "\<lambda>_. True"] allocate_ends ends_only_option
        find_device_ends ends_only_lift_exc ends_only_fail_json associate_ends TrueI)
     simp_all

lemma main_present_ends:
  "ends_only (\<lambda>_. True) (\<lambda>r. released r \<noteq> Some True)
     (main_present ec2 module domain inst search a)"
  unfolding main_present_def
proof (rule ends_only_then_do [where R' = "\<lambda>r. released r = None"])
  show "ends_only (\<lambda>r. released r = None) (\<lambda>r. released r \<noteq> Some True)
     (if truthy (device_id module) then
          then_do
            (ensure_present ec2 module domain a (private_ip_address module)
               (device_id module) (reuse_existing_ip_allowed module)
               (allow_reassociation module) (check_mode module) (tags module) inst)
            (\<lambda>result.
               if res_allocation_id result = None then exit_json result else return result)
        else if dict_truthy a then
          then_do (lift_exc (subscript a ''PublicIp''))
            (\<lambda>ip. then_do (lift_exc (subscript a ''AllocationId''))
               (\<lambda>aid. return
                  \<lparr>changed = False, res_public_ip = Some ip, res_allocation_id = Some aid,
                   disassociated = None, released = None\<rparr>))
        else
          then_do
            (allocate_address ec2 domain (reuse_existing_ip_allowed module)
               (check_mode module) (tags module) search (public_ipv4_pool module))
            (\<lambda>(address1, changed1).
               if dict_truthy address1 then
                 then_do (lift_exc (subscript address1 ''PublicIp''))
                   (\<lambda>ip. then_do (lift_exc (subscript address1 ''AllocationId''))
                      (\<lambda>aid. return
                         \<lparr>changed = changed1, res_public_ip = Some ip,
                          res_allocation_id = Some aid,
                          disassociated = None, released = None\<rparr>))
               else
                 exit_json
                   \<lparr>changed = changed1, res_public_ip = None, res_allocation_id = None,
                    disassociated = None, released = None\<rparr>))"
  proof (intro ends_only_if)
    show "ends_only (\<lambda>r. released r = None) (\<lambda>r. released r \<noteq> Some True)
          (then_do
            (ensure_present ec2 module domain a (private_ip_address module)
               (device_id module) (reuse_existing_ip_allowed module)
               (allow_reassociation module) (check_mode module) (tags module) inst)
            (\<lambda>result.
               if res_allocation_id result = None then exit_json result else return result))"
      by (rule ends_only_then_do [where R' = "\<lambda>r. released r = None"])
         (auto intro: ends_only_weaken [OF ensure_present_ends] ends_only_exit_json
            ends_only_return)
  next
    show "ends_only (\<lambda>r. released r = None) (\<lambda>r. released r \<noteq> Some True)
          (then_do (lift_exc (subscript a ''PublicIp''))
            (\<lambda>ip. then_do (lift_exc (subscript a ''AllocationId''))
               (\<lambda>aid. return
                  \<lparr>changed = False, res_public_ip = Some ip, res_allocation_id = Some aid,
                   disassociated = None, released = None\<rparr>)))"
      by (intro ends_only_then_do [where R' = "\<lambda>_. True"] ends_only_lift_exc
            ends_only_return TrueI) simp
  next
    show "ends_only (\<lambda>r. released r = None) (\<lambda>r. released r \<noteq> Some True)
          (then_do
            (allocate_address ec2 domain (reuse_existing_ip_allowed module)
               (check_mode module) (tags module) search (public_ipv4_pool module))
            (\<lambda>(address1, changed1).
               if dict_truthy address1 then
                 then_do (lift_exc (subscript address1 ''PublicIp''))
                   (\<lambda>ip. then_do (lift_exc (subscript address1 ''AllocationId''))
                      (\<lambda>aid. return
                         \<lparr>changed = changed1, res_public_ip = Some ip,
                          res_allocation_id = Some aid,
                          disassociated = None, released = None\<rparr>))
               else
                 exit_json
                   \<lparr>changed = changed1, res_public_ip = None, res_allocation_id = None,
                    disassociated = None, released = None\<rparr>))"
      by (intro ends_only_then_do [where R' = "\<lambda>_. True"] allocate_ends ends_only_prod
            ends_only_if ends_only_lift_exc ends_only_return ends_only_exit_json TrueI)
         simp_all
  qed
next
  fix result :: result
  assume "released result = None"
  then show "ends_only (\<lambda>_. True) (\<lambda>r. released r \<noteq> Some True)
          (then_do
            (api_call
               (EnsureEc2Tags (str_of (res_allocation_id result)) (tags module)
                  (purge_tags module))
               (ensure_ec2_tags ec2 (str_of (res_allocation_id result)) (tags module)
                  (purge_tags module) (check_mode module)))
            (\<lambda>r. case r of
                 Inl e \<Rightarrow> fail_json (Fail_aws_error e)
               | Inr tags_changed \<Rightarrow>
                   exit_json (result\<lparr>changed := changed result \<or> tags_changed\<rparr>)))"
    by (intro ends_only_then_do [where R' = "\<lambda>_. True"] ends_only_api_call ends_only_sum
          ends_only_fail_json ends_only_exit_json TrueI) simp
qed

lemma ensure_absent_ends:
  "ends_only (\<lambda>_. True) (\<lambda>r. released r = Some False) (ensure_absent ec2 module a dev inst)"
  unfolding ensure_absent_def
  by (intro ends_only_if ends_only_return ends_only_option release_ends disassociate_ends TrueI)

lemma main_absent_ends:
  "truthy (device_id module) \<Longrightarrow>
     ends_only (\<lambda>_. True)
       (\<lambda>r. released r = Some True \<longrightarrow>
              release_on_disassociation module \<and> disassociated r = Some True)
       (main_absent ec2 module inst a)"
  unfolding main_absent_def
  by (simp, intro ends_only_then_do [where R' = "\<lambda>_. True"] ends_only_if
        ends_only_weaken [OF ensure_absent_ends] release_ends ends_only_exit_json TrueI)
     simp_all


text \<open>Calls to \<open>release_address\<close>: none in the locator, the allocator and the association manager.\<close>

lemma no_release_find_address:
  "issues_only (\<lambda>c. \<not> is_release c) (find_address ec2 module ip dev inst)"
  unfolding find_address_def Let_def
  by (intro issues_only_if issues_only_return issues_only_then_do issues_only_api_call
        issues_only_sum issues_only_fail_json)
     (auto split: list.splits)

lemma no_release_associated:
  "issues_only (\<lambda>c. \<not> is_release c) (address_is_associated_with_device ec2 module a d inst)"
  unfolding address_is_associated_with_device_def
  by (intro issues_only_then_do no_release_find_address issues_only_if issues_only_return)

lemma no_release_associate:
  "issues_only (\<lambda>c. \<not> is_release c) (associate_ip_and_device ec2 module a p d allow inst)"
  unfolding associate_ip_and_device_def Let_def
  by (intro issues_only_then_do no_release_associated issues_only_if issues_only_return
        issues_only_api_call issues_only_sum issues_only_fail_json) simp

lemma no_release_disassociate:
  "issues_only (\<lambda>c. \<not> is_release c) (disassociate_ip_and_device ec2 module a d inst)"
  unfolding disassociate_ip_and_device_def Let_def
  by (intro issues_only_then_do no_release_associated issues_only_if issues_only_return
        issues_only_api_call issues_only_sum issues_only_fail_json) simp

lemma no_release_reuse_scan:
  "issues_only (\<lambda>c. \<not> is_release c) (reuse_scan ec2 domain search)"
  unfolding reuse_scan_def
  by (intro issues_only_then_do issues_only_api_call issues_only_sum issues_only_fail_json
        issues_only_if issues_only_return issues_only_lift_exc)
     (auto split: list.splits)

lemma no_release_allocate:
  "issues_only (\<lambda>c. \<not> is_release c) (allocate_address ec2 domain reuse check tags' search pool)"
  unfolding allocate_address_def allocate_address_from_pool_def Let_def
  by (intro issues_only_then_do issues_only_if no_release_reuse_scan issues_only_return
        issues_only_option issues_only_api_call issues_only_sum issues_only_fail_json)
     simp_all

lemma no_release_find_device:
  "issues_only (\<lambda>c. \<not> is_release c) (find_device ec2 d inst)"
  unfolding find_device_def
  by (intro issues_only_then_do issues_only_if issues_only_api_call issues_only_sum
        issues_only_fail_json)
     (auto split: list.splits option.splits)

lemma no_release_ensure_present:
  "issues_only (\<lambda>c. \<not> is_release c)
     (ensure_present ec2 module domain a p dev reuse allow check tags' inst)"
  unfolding ensure_present_def
  by (intro issues_only_if issues_only_return issues_only_then_do no_release_allocate
        issues_only_prod issues_only_option no_release_find_device issues_only_lift_exc
        issues_only_fail_json no_release_associate)

lemma no_release_main_present:
  "issues_only (\<lambda>c. \<not> is_release c) (main_present ec2 module domain inst search a)"
  unfolding main_present_def
  by (intro issues_only_then_do issues_only_if issues_only_return issues_only_exit_json
        issues_only_lift_exc issues_only_prod issues_only_api_call issues_only_sum
        issues_only_fail_json no_release_ensure_present no_release_allocate)
     simp_all

lemma find_address_Some:
  assumes "find_address ec2 module ip dev inst w = (Return (Some a), w', cs)"
  shows "\<exists>k. cs = [DescribeAddresses k] \<and> describe_addresses ec2 k w = (Inr [a], w')"
proof -
  from find_address_result [OF assms] obtain kw r where
    c: "cs = [DescribeAddresses kw]" and d: "describe_addresses ec2 kw w = (r, w')"
    and o: "Return (Some a) = (case r of
        Inl e \<Rightarrow> Stop (FailJson (Fail_aws e msg_describe_addresses))
      | Inr [] \<Rightarrow> if state module = Absent then Stop (ExitJson no_change) else Return None
      | Inr [a] \<Rightarrow> Return (Some a)
      | Inr addresses \<Rightarrow> Stop (FailJson (Fail_ambiguous kw addresses)))"
    by auto
  from o have "r = Inr [a]"
    by (auto split: sum.splits list.splits if_splits)
  with c d show ?thesis by blast
qed

lemma associated_True:
  assumes "address_is_associated_with_device ec2 module a d inst w = (Return True, w', cs)"
  shows "\<exists>k found. cs = [DescribeAddresses k]
           \<and> describe_addresses ec2 k w = (Inr [found], w')
           \<and> map_of found (if inst then ''InstanceId'' else ''NetworkInterfaceId'') = Some d"
  using assms unfolding address_is_associated_with_device_def
proof (cases rule: then_do_cases)
  case (stopped h)
  then show ?thesis by simp
next
  case (returned r w2 cs1 cs2)
  from returned(2) have e: "cs2 = []" "w' = w2"
    and t: "dict_truthy r" and m: "(inst \<and> or_get r ''InstanceId'' = Some d)
        \<or> (\<not> inst \<and> or_get r ''NetworkInterfaceId'' = Some d)"
    by (auto simp: return_def split: if_splits)
  from t obtain found where r: "r = Some found" by (cases r) (auto simp: dict_truthy_def)
  from find_address_Some [OF returned(1) [unfolded r]] obtain k where
    "cs1 = [DescribeAddresses k]" "describe_addresses ec2 k w = (Inr [found], w2)" by blast
  moreover from m r have
    "map_of found (if inst then ''InstanceId'' else ''NetworkInterfaceId'') = Some d"
    by (auto simp: or_get_def)
  ultimately show ?thesis using returned(3) e by auto
qed

text \<open>
  A disassociation that returns true outside check mode: the locator has reported an address
  associated with the device, and the disassociate call, issued last, returned without error.
\<close>

lemma disassociate_True:
  assumes "disassociate_ip_and_device ec2 module a d inst w = (Return True, w', cs)"
    and "\<not> check_mode module"
  shows "\<exists>k found w2. cs = [DescribeAddresses k,
             DisassociateAddress
               (if or_get a ''Domain'' = Some ''vpc''
                then association_id (or_get a ''AssociationId'')
                else public_ip_arg (or_get a ''PublicIp''))]
           \<and> describe_addresses ec2 k w = (Inr [found], w2)
           \<and> map_of found (if inst then ''InstanceId'' else ''NetworkInterfaceId'') = Some d
           \<and> disassociate_address ec2
               (if or_get a ''Domain'' = Some ''vpc''
                then association_id (or_get a ''AssociationId'')
                else public_ip_arg (or_get a ''PublicIp'')) w2 = (Inr (), w')"
  using assms(1) unfolding disassociate_ip_and_device_def
proof (cases rule: then_do_cases)
  case (stopped h)
  then show ?thesis by simp
next
  case (returned r w2 cs1 cs2)
  let ?arg = "if or_get a ''Domain'' = Some ''vpc''
                then association_id (or_get a ''AssociationId'')
                else public_ip_arg (or_get a ''PublicIp'')"
  from returned(2) assms(2) have r: "r"
    by (auto simp: return_def split: if_splits)
  with returned(2) assms(2) have
    "then_do (api_call (DisassociateAddress ?arg) (disassociate_address ec2 ?arg))
       (\<lambda>r. case r of
            Inl e \<Rightarrow> fail_json (Fail_aws e ''Dissassociation of Elastic IP failed'')
          | Inr _ \<Rightarrow> return True) w2 = (Return True, w', cs2)"
    by (simp add: Let_def)
  then have c2: "cs2 = [DisassociateAddress ?arg]"
    and d2: "disassociate_address ec2 ?arg w2 = (Inr (), w')"
    by (auto simp: step_simps split: prod.splits sum.splits)
  from returned(1) r have
    "address_is_associated_with_device ec2 module a d inst w = (Return True, w2, cs1)" by simp
  from associated_True [OF this] obtain k found where
    "cs1 = [DescribeAddresses k]" "describe_addresses ec2 k w = (Inr [found], w2)"
    "map_of found (if inst then ''InstanceId'' else ''NetworkInterfaceId'') = Some d"
    by blast
  with c2 d2 returned(3) show ?thesis by auto
qed

lemma no_release_ensure_absent:
  "truthy dev \<Longrightarrow> issues_only (\<lambda>c. \<not> is_release c) (ensure_absent ec2 module a dev inst)"
  unfolding ensure_absent_def
  by (cases dev) (auto simp: truthy_def intro!: no_release_disassociate)

lemma ensure_absent_True:
  assumes "truthy dev" and "ensure_absent ec2 module a dev inst w = (Return True, w', cs)"
    and "\<not> check_mode module"
  shows "\<exists>k found w2. cs = [DescribeAddresses k,
             DisassociateAddress
               (if or_get a ''Domain'' = Some ''vpc''
                then association_id (or_get a ''AssociationId'')
                else public_ip_arg (or_get a ''PublicIp''))]
           \<and> describe_addresses ec2 k w = (Inr [found], w2)
           \<and> map_of found (if inst then ''InstanceId'' else ''NetworkInterfaceId'') =
               Some (str_of dev)
           \<and> disassociate_address ec2
               (if or_get a ''Domain'' = Some ''vpc''
                then association_id (or_get a ''AssociationId'')
                else public_ip_arg (or_get a ''PublicIp'')) w2 = (Inr (), w')"
proof -
  from assms(1) obtain d where d: "dev = Some d" "d \<noteq> []"
    by (cases dev) (auto simp: truthy_def)
  with assms(2) have "disassociate_ip_and_device ec2 module a d inst w = (Return True, w', cs)"
    by (auto simp: ensure_absent_def return_def split: if_splits)
  from disassociate_True [OF this assms(3)] d show ?thesis by (simp add: str_of_def)
qed

lemma release_call:
  assumes "release_ip_address ec2 module a w = (out, w', cs)"
    and "ReleaseAddress aid \<in> set cs"
  shows "cs = [ReleaseAddress aid] \<and> (\<exists>addr. a = Some addr \<and> map_of addr ''AllocationId'' = Some aid)"
  using assms
  by (auto simp: release_ip_address_def subscript_def step_simps
        split: if_splits sum.splits prod.splits option.splits)


lemma main_absent_release:
  assumes "main_absent ec2 module inst a w = (out, w', cs)"
    and "truthy (device_id module)" and "\<not> check_mode module"
    and "ReleaseAddress aid \<in> set cs"
  shows "release_on_disassociation module
         \<and> (\<exists>addr k found w2 w3. a = Some addr \<and> map_of addr ''AllocationId'' = Some aid
              \<and> cs = [DescribeAddresses k,
                       DisassociateAddress
                         (if map_of addr ''Domain'' = Some ''vpc''
                          then association_id (map_of addr ''AssociationId'')
                          else public_ip_arg (map_of addr ''PublicIp'')),
                       ReleaseAddress aid]
              \<and> describe_addresses ec2 k w = (Inr [found], w2)
              \<and> map_of found (if inst then ''InstanceId'' else ''NetworkInterfaceId'') =
                  Some (str_of (device_id module))
              \<and> disassociate_address ec2
                   (if map_of addr ''Domain'' = Some ''vpc''
                    then association_id (map_of addr ''AssociationId'')
                    else public_ip_arg (map_of addr ''PublicIp'')) w2 = (Inr (), w3))"
proof -
  from assms(1,2) have "then_do (ensure_absent ec2 module a (device_id module) inst)
          (\<lambda>disassociated'.
             if release_on_disassociation module \<and> disassociated' then
               then_do (release_ip_address ec2 module a)
                 (\<lambda>changed1. exit_json
                    \<lparr>changed = True, res_public_ip = None, res_allocation_id = None,
                     disassociated = Some disassociated', released = Some changed1\<rparr>)
             else
               exit_json
                 \<lparr>changed = disassociated', res_public_ip = None, res_allocation_id = None,
                  disassociated = Some disassociated', released = Some False\<rparr>) w
        = (out, w', cs)"
    by (simp add: main_absent_def)
  then show ?thesis
  proof (cases rule: then_do_cases)
    case (stopped h)
    from issues_onlyD [OF no_release_ensure_absent [OF assms(2)] stopped(1)] assms(4)
    show ?thesis by (auto simp: list_all_iff)
  next
    case (returned d w2 cs1 cs2)
    from issues_onlyD [OF no_release_ensure_absent [OF assms(2)] returned(1)]
    have n1: "ReleaseAddress aid \<notin> set cs1" by (auto simp: list_all_iff)
    with returned(3) assms(4) have in2: "ReleaseAddress aid \<in> set cs2" by simp
    have rd: "release_on_disassociation module \<and> d"
    proof (rule ccontr)
      assume "\<not> (release_on_disassociation module \<and> d)"
      with returned(2) have "cs2 = []" by (auto simp: step_simps)
      with in2 show False by simp
    qed
    with returned(2) have "then_do (release_ip_address ec2 module a)
                 (\<lambda>changed1. exit_json
                    \<lparr>changed = True, res_public_ip = None, res_allocation_id = None,
                     disassociated = Some d, released = Some changed1\<rparr>) w2 = (out, w', cs2)"
      by simp
    then have "cs2 = [ReleaseAddress aid]
        \<and> (\<exists>addr. a = Some addr \<and> map_of addr ''AllocationId'' = Some aid)"
    proof (cases rule: then_do_cases)
      case (stopped h)
      from release_call [OF stopped(1) in2] show ?thesis .
    next
      case (returned c w3 cs3 cs4)
      from returned(2) have "cs4 = []" by (simp add: step_simps)
      with returned(3) in2 have "ReleaseAddress aid \<in> set cs3" by simp
      from release_call [OF returned(1) this] returned(3) \<open>cs4 = []\<close> show ?thesis by simp
    qed
    then obtain addr where c2: "cs2 = [ReleaseAddress aid]" and a: "a = Some addr"
      and k: "map_of addr ''AllocationId'' = Some aid" by blast
    from rd returned(1) have "ensure_absent ec2 module a (device_id module) inst w =
        (Return True, w2, cs1)" by simp
    from ensure_absent_True [OF assms(2) this assms(3)] obtain k2 found w3 where
      "cs1 = [DescribeAddresses k2,
             DisassociateAddress
               (if or_get a ''Domain'' = Some ''vpc''
                then association_id (or_get a ''AssociationId'')
                else public_ip_arg (or_get a ''PublicIp''))]"
      "describe_addresses ec2 k2 w = (Inr [found], w3)"
      "map_of found (if inst then ''InstanceId'' else ''NetworkInterfaceId'') =
         Some (str_of (device_id module))"
      "disassociate_address ec2
               (if or_get a ''Domain'' = Some ''vpc''
                then association_id (or_get a ''AssociationId'')
                else public_ip_arg (or_get a ''PublicIp'')) w3 = (Inr (), w2)"
      by blast
    with returned(3) c2 a k rd show ?thesis by (auto simp: or_get_def)
  qed
qed

lemma main_absent_release_direct:
  assumes "main_absent ec2 module inst a w = (out, w', cs)"
    and "\<not> truthy (device_id module)" and "ReleaseAddress aid \<in> set cs"
  shows "cs = [ReleaseAddress aid]
         \<and> (\<exists>addr. a = Some addr \<and> map_of addr ''AllocationId'' = Some aid)"
proof -
  from assms(1,2) have "then_do (release_ip_address ec2 module a)
          (\<lambda>changed1. exit_json
             \<lparr>changed = changed1, res_public_ip = None, res_allocation_id = None,
              disassociated = Some False, released = Some changed1\<rparr>) w = (out, w', cs)"
    by (simp add: main_absent_def)
  then show ?thesis
  proof (cases rule: then_do_cases)
    case (stopped h)
    from release_call [OF stopped(1) assms(3)] show ?thesis .
  next
    case (returned c w3 cs3 cs4)
    from returned(2) have e: "cs4 = []" by (simp add: step_simps)
    with returned(3) assms(3) have "ReleaseAddress aid \<in> set cs3" by simp
    from release_call [OF returned(1) this] returned(3) e show ?thesis by simp
  qed
qed

text \<open>
  C1, amended. A result with \<open>released = True\<close> appears only when the desired state is
  \<open>absent\<close> and either there is no device id, or there is one, \<open>release_on_disassociation\<close>
  is set and the disassociation step of the same invocation returned
  \<open>disassociated = True\<close>. A \<open>release_address\<close> call is issued only outside check mode in
  these two paths, and it names the allocation id of the address that the first query of the
  locator returned. With a device id the calls of the run are the query of the locator, the
  query that reports an address as associated with the device, the disassociate call on the
  located address, which returned without error in the state that the two queries left, and
  the release call. Without a device id the calls are the query of the locator and the release
  call: the located address is released as it is, with no look at its association.
\<close>

theorem release_gating:
  assumes "main ec2 module w = (out, w', cs)"
  shows "(\<forall>r. out = Stop (ExitJson r) \<and> released r = Some True \<longrightarrow>
            state module = Absent
            \<and> (truthy (device_id module) \<longrightarrow>
                 release_on_disassociation module \<and> disassociated r = Some True))
       \<and> (\<forall>aid. ReleaseAddress aid \<in> set cs \<longrightarrow>
            state module = Absent \<and> \<not> check_mode module
            \<and> (\<exists>k a. fst (describe_addresses ec2 k w) = Inr [a]
                  \<and> map_of a ''AllocationId'' = Some aid
                  \<and> (truthy (device_id module) \<longrightarrow>
                       release_on_disassociation module
                       \<and> (\<exists>k2 found.
                            cs = [DescribeAddresses k, DescribeAddresses k2,
                                  DisassociateAddress
                                    (if map_of a ''Domain'' = Some ''vpc''
                                     then association_id (map_of a ''AssociationId'')
                                     else public_ip_arg (map_of a ''PublicIp'')),
                                  ReleaseAddress aid]
                            \<and> fst (describe_addresses ec2 k2
                                  (replay ec2 False [DescribeAddresses k] w)) = Inr [found]
                            \<and> (map_of found ''InstanceId'' = device_id module
                                 \<or> map_of found ''NetworkInterfaceId'' = device_id module)
                            \<and> fst (disassociate_address ec2
                                  (if map_of a ''Domain'' = Some ''vpc''
                                   then association_id (map_of a ''AssociationId'')
                                   else public_ip_arg (map_of a ''PublicIp''))
                                  (replay ec2 False
                                     [DescribeAddresses k, DescribeAddresses k2] w)) = Inr ()))
                  \<and> (\<not> truthy (device_id module) \<longrightarrow>
                       cs = [DescribeAddresses k, ReleaseAddress aid])))"
  using assms
proof (cases rule: main_cases)
  case invalid
  then show ?thesis by auto
next
  case (located inst st)
  let ?find = "find_address ec2 module (public_ip module)
            (if truthy (device_id module) then device_id module else None)
            (if truthy (device_id module) then inst else True)"
  let ?domain = "if in_vpc module then Some ''vpc'' else None"
  have dry: "\<not> check_mode module" if "ReleaseAddress aid \<in> set cs" for aid
  proof
    assume "check_mode module"
    from issues_onlyD [OF quiet_main [OF this] assms] that show False
      by (auto simp: list_all_iff)
  qed
  show ?thesis
  proof (cases "state module = Present")
    case True
    with located have p: "then_do ?find (main_present ec2 module ?domain inst st) w =
        (out, w', cs)" by simp
    have "ends_only (\<lambda>_. True) (\<lambda>r. released r \<noteq> Some True)
            (then_do ?find (main_present ec2 module ?domain inst st))"
      by (rule ends_only_then_do [where R' = "\<lambda>_. True"])
         (auto intro: ends_only_weaken [OF find_address_ends] main_present_ends)
    from ends_onlyD [OF this p] have A: "\<forall>r. out = Stop (ExitJson r) \<longrightarrow> released r \<noteq> Some True"
      by simp
    have "issues_only (\<lambda>c. \<not> is_release c)
            (then_do ?find (main_present ec2 module ?domain inst st))"
      by (intro issues_only_then_do no_release_find_address no_release_main_present)
    from issues_onlyD [OF this p] have B: "\<forall>aid. ReleaseAddress aid \<notin> set cs"
      by (auto simp: list_all_iff)
    from A B show ?thesis by blast
  next
    case False
    then have abs: "state module = Absent" by (cases "state module") simp_all
    with located have p: "then_do ?find (main_absent ec2 module inst) w = (out, w', cs)"
      by simp
    have A: "\<forall>r. out = Stop (ExitJson r) \<and> released r = Some True
          \<longrightarrow> (truthy (device_id module) \<longrightarrow>
                 release_on_disassociation module \<and> disassociated r = Some True)"
    proof (cases "truthy (device_id module)")
      case dev: True
      have "ends_only (\<lambda>_. True)
              (\<lambda>r. released r = Some True \<longrightarrow>
                 release_on_disassociation module \<and> disassociated r = Some True)
              (then_do ?find (main_absent ec2 module inst))"
        by (rule ends_only_then_do [where R' = "\<lambda>_. True"])
           (auto intro: ends_only_weaken [OF find_address_ends] main_absent_ends [OF dev])
      from ends_onlyD [OF this p] show ?thesis by simp
    next
      case False
      then show ?thesis by simp
    qed
    have B: "\<exists>k a. fst (describe_addresses ec2 k w) = Inr [a]
                  \<and> map_of a ''AllocationId'' = Some aid
                  \<and> (truthy (device_id module) \<longrightarrow>
                       release_on_disassociation module
                       \<and> (\<exists>k2 found.
                            cs = [DescribeAddresses k, DescribeAddresses k2,
                                  DisassociateAddress
                                    (if map_of a ''Domain'' = Some ''vpc''
                                     then association_id (map_of a ''AssociationId'')
                                     else public_ip_arg (map_of a ''PublicIp'')),
                                  ReleaseAddress aid]
                            \<and> fst (describe_addresses ec2 k2
                                  (replay ec2 False [DescribeAddresses k] w)) = Inr [found]
                            \<and> (map_of found ''InstanceId'' = device_id module
                                 \<or> map_of found ''NetworkInterfaceId'' = device_id module)
                            \<and> fst (disassociate_address ec2
                                  (if map_of a ''Domain'' = Some ''vpc''
                                   then association_id (map_of a ''AssociationId'')
                                   else public_ip_arg (map_of a ''PublicIp''))
                                  (replay ec2 False
                                     [DescribeAddresses k, DescribeAddresses k2] w)) = Inr ()))
                  \<and> (\<not> truthy (device_id module) \<longrightarrow>
                       cs = [DescribeAddresses k, ReleaseAddress aid])"
      if r: "ReleaseAddress aid \<in> set cs" for aid
      using p
    proof (cases rule: then_do_cases)
      case (stopped h)
      from issues_onlyD [OF no_release_find_address stopped(1)] r show ?thesis
        by (auto simp: list_all_iff)
    next
      case (returned a w1 cs1 cs2)
      from issues_onlyD [OF no_release_find_address returned(1)]
      have "ReleaseAddress aid \<notin> set cs1" by (auto simp: list_all_iff)
      with returned(3) r have in2: "ReleaseAddress aid \<in> set cs2" by simp
      show ?thesis
      proof (cases "truthy (device_id module)")
        case dev: True
        then obtain d where d: "device_id module = Some d"
          by (cases "device_id module") (auto simp: truthy_def)
        from main_absent_release [OF returned(2) dev dry [OF r] in2]
        obtain addr k2 found w2 w3 where rel: "release_on_disassociation module"
          and a: "a = Some addr" and aid: "map_of addr ''AllocationId'' = Some aid"
          and c2: "cs2 = [DescribeAddresses k2,
                       DisassociateAddress
                         (if map_of addr ''Domain'' = Some ''vpc''
                          then association_id (map_of addr ''AssociationId'')
                          else public_ip_arg (map_of addr ''PublicIp'')),
                       ReleaseAddress aid]"
          and d2: "describe_addresses ec2 k2 w1 = (Inr [found], w2)"
          and f: "map_of found (if inst then ''InstanceId'' else ''NetworkInterfaceId'') =
                  Some (str_of (device_id module))"
          and dis: "disassociate_address ec2
                   (if map_of addr ''Domain'' = Some ''vpc''
                    then association_id (map_of addr ''AssociationId'')
                    else public_ip_arg (map_of addr ''PublicIp'')) w2 = (Inr (), w3)"
          by blast
        from find_address_Some [OF returned(1) [unfolded a]] obtain k where
          c1: "cs1 = [DescribeAddresses k]"
          and d1: "describe_addresses ec2 k w = (Inr [addr], w1)" by blast
        from f d have f': "map_of found ''InstanceId'' = device_id module
            \<or> map_of found ''NetworkInterfaceId'' = device_id module"
          by (auto simp: str_of_def split: if_splits)
        from d1 d2 have r1: "replay ec2 False [DescribeAddresses k] w = w1"
          and r2: "replay ec2 False [DescribeAddresses k, DescribeAddresses k2] w = w2"
          by (simp_all add: perform_def)
        from c1 c2 returned(3) d2 dis f' r1 r2
        have inner: "\<exists>k2 found.
                            cs = [DescribeAddresses k, DescribeAddresses k2,
                                  DisassociateAddress
                                    (if map_of addr ''Domain'' = Some ''vpc''
                                     then association_id (map_of addr ''AssociationId'')
                                     else public_ip_arg (map_of addr ''PublicIp'')),
                                  ReleaseAddress aid]
                            \<and> fst (describe_addresses ec2 k2
                                  (replay ec2 False [DescribeAddresses k] w)) = Inr [found]
                            \<and> (map_of found ''InstanceId'' = device_id module
                                 \<or> map_of found ''NetworkInterfaceId'' = device_id module)
                            \<and> fst (disassociate_address ec2
                                  (if map_of addr ''Domain'' = Some ''vpc''
                                   then association_id (map_of addr ''AssociationId'')
                                   else public_ip_arg (map_of addr ''PublicIp''))
                                  (replay ec2 False
                                     [DescribeAddresses k, DescribeAddresses k2] w)) = Inr ()"
          by (intro exI [of _ k2] exI [of _ found]) simp
        from d1 have "fst (describe_addresses ec2 k w) = Inr [addr]" by simp
        with dev rel aid inner show ?thesis
          by (intro exI [of _ k] exI [of _ addr]) blast
      next
        case False
        from main_absent_release_direct [OF returned(2) False in2] obtain addr where
          c2: "cs2 = [ReleaseAddress aid]" and a: "a = Some addr"
          and aid: "map_of addr ''AllocationId'' = Some aid" by blast
        from find_address_Some [OF returned(1) [unfolded a]] obtain k where
          c1: "cs1 = [DescribeAddresses k]"
          and d1: "describe_addresses ec2 k w = (Inr [addr], w1)" by blast
        from d1 have "fst (describe_addresses ec2 k w) = Inr [addr]" by simp
        with False aid c1 c2 returned(3) show ?thesis
          by (intro exI [of _ k] exI [of _ addr]) simp
      qed
    qed
    from abs A B dry show ?thesis by blast
  qed
qed

text \<open>
  The claim C1 as stated fails: with \<open>state=absent\<close>, a public IP and no device id, the
  release is attempted on an address that the locator has just reported as associated.
\<close>

theorem release_gating_counterexample:
  "main cloud_client (default_params\<lparr>state := Absent, public_ip := Some ''93.184.216.119''\<rparr>)
     example_cloud =
     (Stop (FailJson (Fail_aws (AnsibleEC2Error ''InvalidIPAddress.InUse'') msg_release)),
      example_cloud,
      [DescribeAddresses \<lparr>PublicIps = Some [''93.184.216.119''], Filters = None\<rparr>,
       ReleaseAddress ''eipalloc-1''])
   \<and> describe_addresses cloud_client
         \<lparr>PublicIps = Some [''93.184.216.119''], Filters = None\<rparr> example_cloud =
       (Inr [[(''PublicIp'', ''93.184.216.119''), (''AllocationId'', ''eipalloc-1''),
              (''Domain'', ''vpc''), (''AssociationId'', ''eipassoc-1''),
              (''InstanceId'', ''i-1212f003'')]], example_cloud)
   \<and> is_associated
         [(''PublicIp'', ''93.184.216.119''), (''AllocationId'', ''eipalloc-1''),
          (''Domain'', ''vpc''), (''AssociationId'', ''eipassoc-1''),
          (''InstanceId'', ''i-1212f003'')]"
  by code_simp

theorem release_gating_witness:
  "main cloud_client
     (default_params\<lparr>state := Absent, public_ip := Some ''93.184.216.119'',
        device_id := Some ''i-1212f003'', release_on_disassociation := True\<rparr>)
     example_cloud =
     (Stop (ExitJson \<lparr>changed = True, res_public_ip = None, res_allocation_id = None,
              disassociated = Some True, released = Some True\<rparr>),
      example_cloud\<lparr>cloud_addresses := []\<rparr>,
      [DescribeAddresses \<lparr>PublicIps = Some [''93.184.216.119''], Filters = None\<rparr>,
       DescribeAddresses \<lparr>PublicIps = Some [''93.184.216.119''], Filters = None\<rparr>,
       DisassociateAddress (association_id (Some ''eipassoc-1'')),
       ReleaseAddress ''eipalloc-1''])
   \<and> state (default_params\<lparr>state := Absent, public_ip := Some ''93.184.216.119'',
        device_id := Some ''i-1212f003'', release_on_disassociation := True\<rparr>) = Absent
   \<and> \<not> check_mode (default_params\<lparr>state := Absent, public_ip := Some ''93.184.216.119'',
        device_id := Some ''i-1212f003'', release_on_disassociation := True\<rparr>)
   \<and> release_on_disassociation (default_params\<lparr>state := Absent,
        public_ip := Some ''93.184.216.119'', device_id := Some ''i-1212f003'',
        release_on_disassociation := True\<rparr>)
   \<and> fst (disassociate_address cloud_client (association_id (Some ''eipassoc-1''))
         (replay cloud_client False
            [DescribeAddresses \<lparr>PublicIps = Some [''93.184.216.119''], Filters = None\<rparr>,
             DescribeAddresses \<lparr>PublicIps = Some [''93.184.216.119''], Filters = None\<rparr>]
            example_cloud)) = Inr ()
   \<and> main cloud_client (default_params\<lparr>state := Absent, public_ip := Some ''192.0.2.2''\<rparr>)
       reuse_cloud =
     (Stop (ExitJson \<lparr>changed = True, res_public_ip = None, res_allocation_id = None,
              disassociated = Some False, released = Some True\<rparr>),
      reuse_cloud\<lparr>cloud_addresses :=
        [hd (cloud_addresses reuse_cloud), last (cloud_addresses reuse_cloud)]\<rparr>,
      [DescribeAddresses \<lparr>PublicIps = Some [''192.0.2.2''], Filters = None\<rparr>,
       ReleaseAddress ''eipalloc-r2''])
   \<and> state (default_params\<lparr>state := Absent, public_ip := Some ''192.0.2.2''\<rparr>) = Absent"
proof -
  let ?p = "default_params\<lparr>state := Absent, public_ip := Some ''93.184.216.119'',
        device_id := Some ''i-1212f003'', release_on_disassociation := True\<rparr>"
  let ?k = "\<lparr>PublicIps = Some [''93.184.216.119''], Filters = None\<rparr>"
  let ?arg = "association_id (Some ''eipassoc-1'')"
  let ?cs = "[DescribeAddresses ?k, DescribeAddresses ?k, DisassociateAddress ?arg,
       ReleaseAddress ''eipalloc-1'']"
  have r: "main cloud_client ?p example_cloud =
     (Stop (ExitJson \<lparr>changed = True, res_public_ip = None, res_allocation_id = None,
              disassociated = Some True, released = Some True\<rparr>),
      example_cloud\<lparr>cloud_addresses := []\<rparr>, ?cs)"
    by code_simp
  have i: "ReleaseAddress ''eipalloc-1'' \<in> set ?cs" by simp
  have t: "truthy (device_id ?p)" by (simp add: default_params_def truthy_def)
  from release_gating [OF r, THEN conjunct2, THEN spec, of "''eipalloc-1''", THEN mp, OF i]
  obtain k a where s: "state ?p = Absent" and c: "\<not> check_mode ?p"
    and g: "truthy (device_id ?p) \<longrightarrow>
         release_on_disassociation ?p
         \<and> (\<exists>k2 found.
              ?cs = [DescribeAddresses k, DescribeAddresses k2,
                    DisassociateAddress
                      (if map_of a ''Domain'' = Some ''vpc''
                       then association_id (map_of a ''AssociationId'')
                       else public_ip_arg (map_of a ''PublicIp'')),
                    ReleaseAddress ''eipalloc-1'']
              \<and> fst (describe_addresses cloud_client k2
                    (replay cloud_client False [DescribeAddresses k] example_cloud)) =
                  Inr [found]
              \<and> (map_of found ''InstanceId'' = device_id ?p
                   \<or> map_of found ''NetworkInterfaceId'' = device_id ?p)
              \<and> fst (disassociate_address cloud_client
                    (if map_of a ''Domain'' = Some ''vpc''
                     then association_id (map_of a ''AssociationId'')
                     else public_ip_arg (map_of a ''PublicIp''))
                    (replay cloud_client False [DescribeAddresses k, DescribeAddresses k2]
                       example_cloud)) = Inr ())"
    by blast
  from g t have d: "release_on_disassociation ?p" by blast
  from g t obtain k2 where
    e: "?cs = [DescribeAddresses k, DescribeAddresses k2,
                    DisassociateAddress
                      (if map_of a ''Domain'' = Some ''vpc''
                       then association_id (map_of a ''AssociationId'')
                       else public_ip_arg (map_of a ''PublicIp'')),
                    ReleaseAddress ''eipalloc-1'']"
    and f: "fst (disassociate_address cloud_client
                    (if map_of a ''Domain'' = Some ''vpc''
                     then association_id (map_of a ''AssociationId'')
                     else public_ip_arg (map_of a ''PublicIp''))
                    (replay cloud_client False [DescribeAddresses k, DescribeAddresses k2]
                       example_cloud)) = Inr ()"
    by blast
  from e have "k = ?k" "k2 = ?k"
    "(if map_of a ''Domain'' = Some ''vpc''
      then association_id (map_of a ''AssociationId'')
      else public_ip_arg (map_of a ''PublicIp'')) = ?arg"
    by auto
  with f have dis: "fst (disassociate_address cloud_client ?arg
      (replay cloud_client False [DescribeAddresses ?k, DescribeAddresses ?k] example_cloud)) =
      Inr ()" by simp
  let ?q = "default_params\<lparr>state := Absent, public_ip := Some ''192.0.2.2''\<rparr>"
  let ?cq = "[DescribeAddresses \<lparr>PublicIps = Some [''192.0.2.2''], Filters = None\<rparr>,
       ReleaseAddress ''eipalloc-r2'']"
  have rq: "main cloud_client ?q reuse_cloud =
     (Stop (ExitJson \<lparr>changed = True, res_public_ip = None, res_allocation_id = None,
              disassociated = Some False, released = Some True\<rparr>),
      reuse_cloud\<lparr>cloud_addresses :=
        [hd (cloud_addresses reuse_cloud), last (cloud_addresses reuse_cloud)]\<rparr>, ?cq)"
    by code_simp
  have iq: "ReleaseAddress ''eipalloc-r2'' \<in> set ?cq" by simp
  from release_gating [OF rq, THEN conjunct2, THEN spec, of "''eipalloc-r2''", THEN mp, OF iq]
  have sq: "state ?q = Absent" by blast
  from r s c d dis rq sq show ?thesis by (intro conjI)
qed

section \<open>ec2_eip: running present a second time\<close>

lemma allocate_new_ends:
  "ends_only (\<lambda>r. snd r) Q (allocate_address ec2 domain False check tags' search pool)"
  unfolding ends_only_def
proof
  fix w
  obtain out w' cs where
    m: "allocate_address ec2 domain False check tags' search pool w = (out, w', cs)"
    by (cases "allocate_address ec2 domain False check tags' search pool w")
  from allocate_address_new [OF m] have "\<forall>r. out = Return r \<longrightarrow> snd r" by blast
  moreover from ends_onlyD [OF allocate_ends m, of Q]
  have "\<forall>r. out = Stop (ExitJson r) \<longrightarrow> Q r" by simp
  ultimately show "case fst (allocate_address ec2 domain False check tags' search pool w) of
          Return a \<Rightarrow> snd a
        | Stop h \<Rightarrow> (case h of ExitJson r \<Rightarrow> Q r | FailJson f \<Rightarrow> True | Raised e \<Rightarrow> True)"
    using m by (auto split: outcome.splits halt.splits)
qed

text \<open>
  With neither a public IP nor a device id the locator has nothing to look for, and with reuse
  disabled every run that ends through \<open>exit_json\<close> reports \<open>changed = True\<close>: it allocates
  again, or in check mode says that it would.
\<close>

lemma present_without_criteria_changes:
  assumes "state module = Present" and "\<not> truthy (device_id module)"
    and "public_ip module = None" and "\<not> reuse_existing_ip_allowed module"
    and "main ec2 module w = (Stop (ExitJson r), w', cs)"
  shows "changed r"
  using assms(5)
proof (cases rule: main_cases)
  case invalid
  then show ?thesis by simp
next
  case (located inst st)
  let ?domain = "if in_vpc module then Some ''vpc'' else None"
  have f: "find_address ec2 module None None True = return None"
    by (rule ext) (simp add: find_address_def find_address_kwargs_def truthy_def return_def)
  from located assms(1-3) f have m: "main_present ec2 module ?domain inst st None w =
      (Stop (ExitJson r), w', cs)" by simp
  have block: "ends_only changed changed
      (then_do
         (allocate_address ec2 ?domain False (check_mode module) (tags module) st
            (public_ipv4_pool module))
         (\<lambda>(address1, changed1).
            if dict_truthy address1 then
              then_do (lift_exc (subscript address1 ''PublicIp''))
                (\<lambda>ip. then_do (lift_exc (subscript address1 ''AllocationId''))
                   (\<lambda>aid. return
                      \<lparr>changed = changed1, res_public_ip = Some ip,
                       res_allocation_id = Some aid,
                       disassociated = None, released = None\<rparr>))
            else
              exit_json
                \<lparr>changed = changed1, res_public_ip = None, res_allocation_id = None,
                 disassociated = None, released = None\<rparr>))"
    by (rule ends_only_then_do [where R' = "\<lambda>r. snd r", OF allocate_new_ends])
       (auto intro!: ends_only_if ends_only_then_do [where R' = "\<lambda>_. True"]
          ends_only_lift_exc ends_only_return ends_only_exit_json)
  have "ends_only (\<lambda>_. True) changed (main_present ec2 module ?domain inst st None)"
    unfolding main_present_def
  proof (rule ends_only_then_do [where R' = changed])
    from assms(2,4) block
    show "ends_only changed changed
     (if truthy (device_id module) then
          then_do
            (ensure_present ec2 module ?domain None (private_ip_address module)
               (device_id module) (reuse_existing_ip_allowed module)
               (allow_reassociation module) (check_mode module) (tags module) inst)
            (\<lambda>result.
               if res_allocation_id result = None then exit_json result else return result)
        else if dict_truthy None then
          then_do (lift_exc (subscript None ''PublicIp''))
            (\<lambda>ip. then_do (lift_exc (subscript None ''AllocationId''))
               (\<lambda>aid. return
                  \<lparr>changed = False, res_public_ip = Some ip, res_allocation_id = Some aid,
                   disassociated = None, released = None\<rparr>))
        else
          then_do
            (allocate_address ec2 ?domain (reuse_existing_ip_allowed module)
               (check_mode module) (tags module) st (public_ipv4_pool module))
            (\<lambda>(address1, changed1).
               if dict_truthy address1 then
                 then_do (lift_exc (subscript address1 ''PublicIp''))
                   (\<lambda>ip. then_do (lift_exc (subscript address1 ''AllocationId''))
                      (\<lambda>aid. return
                         \<lparr>changed = changed1, res_public_ip = Some ip,
                          res_allocation_id = Some aid,
                          disassociated = None, released = None\<rparr>))
               else
                 exit_json
                   \<lparr>changed = changed1, res_public_ip = None, res_allocation_id = None,
                    disassociated = None, released = None\<rparr>))"
      by (simp add: dict_truthy_def)
  next
    fix result :: result
    assume "changed result"
    then show "ends_only (\<lambda>_. True) changed
          (then_do
            (api_call
               (EnsureEc2Tags (str_of (res_allocation_id result)) (tags module)
                  (purge_tags module))
               (ensure_ec2_tags ec2 (str_of (res_allocation_id result)) (tags module)
                  (purge_tags module) (check_mode module)))
            (\<lambda>r. case r of
                 Inl e \<Rightarrow> fail_json (Fail_aws_error e)
               | Inr tags_changed \<Rightarrow>
                   exit_json (result\<lparr>changed := changed result \<or> tags_changed\<rparr>)))"
      by (intro ends_only_then_do [where R' = "\<lambda>_. True"] ends_only_api_call ends_only_sum
            ends_only_fail_json ends_only_exit_json TrueI) simp
  qed
  from ends_onlyD [OF this m] show ?thesis by simp
qed









end
